theory Spec2Isabelle
  imports Main "HOL-Library.Word"
begin

unbundle bit_operations_syntax

section \<open>Machine types and process termination\<close>

text \<open>
  The sources are built for 64-bit Windows: \<open>UINT\<close> is a 32-bit unsigned integer,
  \<open>size_t\<close>, \<open>SIZE_T\<close>, \<open>UINT64\<close> and GPU virtual addresses are 64-bit unsigned
  integers, \<open>int\<close> is a 32-bit signed integer.  A \<open>float\<close> is kept as its 32-bit
  IEEE-754 bit pattern: the code below only stores, copies and compares floats.
\<close>

type_synonym UINT = "32 word"
type_synonym UINT64 = "64 word"
type_synonym float32 = "32 word"

text \<open>
  Every way in which the code stops instead of returning: the \<open>VALIDATE\<close> and
  \<open>FATALERROR\<close> macros (message box, \<open>exit(-1)\<close>), \<open>ThrowIfFalse\<close> and
  \<open>ThrowIfFailed\<close> (\<open>exit(1)\<close>), a plain \<open>exit(1)\<close>, and behaviour that C++
  leaves undefined (an out-of-range element access, a signed overflow).
\<close>

datatype stop =
    Exit_VALIDATE string
  | Exit_FATALERROR string
  | Exit_ThrowIfFalse
  | Exit_ThrowIfFailed
  | Exit_1
  | Undefined_behaviour

section \<open>DescHandleProvider\<close>

text \<open>
  \<open>CD3DX12_CPU_DESCRIPTOR_HANDLE\<close> wraps one \<open>SIZE_T ptr\<close>.  Its member
  \<open>Offset\<close> comes from the helper header \<open>Win32_d3dx12.h\<close>, which is not among the
  sources, so \<open>AllocCpuHandle\<close> takes it as the parameter \<open>Offset\<close>.
\<close>

type_synonym cpu_handle = "64 word"

record DescHandleProvider =
  DescHeap :: UINT64
  NextAvailableCpuHandle :: cpu_handle
  IncrementSize :: UINT
  CurrentHandleCount :: UINT
  MaxHandleCount :: UINT
  FreeHandles :: "cpu_handle list"

text \<open>The constructor \<open>DescHandleProvider(descHeap, incrementSize, handleCount)\<close>;
  \<open>heapStart\<close> is what \<open>GetCPUDescriptorHandleForHeapStart\<close> returns.\<close>

definition DescHandleProvider_init ::
  "UINT64 \<Rightarrow> cpu_handle \<Rightarrow> UINT \<Rightarrow> UINT \<Rightarrow> stop + DescHandleProvider" where
  "DescHandleProvider_init descHeap heapStart incrementSize handleCount =
     (if descHeap = 0 then Inl (Exit_VALIDATE ''NULL heap provided'')
      else Inr \<lparr> DescHeap = descHeap, NextAvailableCpuHandle = heapStart,
                 IncrementSize = incrementSize, CurrentHandleCount = 0,
                 MaxHandleCount = handleCount, FreeHandles = [] \<rparr>)"

text \<open>
  \<open>AllocCpuHandle(UINT* pCurrentHandleCount = nullptr)\<close>.  \<open>wantCount\<close> says whether
  the caller passed a pointer; the second component of the result is the value written
  through it, if any (nothing is written when the handle comes from the free list).
  \<open>FreeHandles.back()\<close> is the last element of the vector, \<open>pop_back\<close> removes it.
\<close>

definition AllocCpuHandle ::
  "(cpu_handle \<Rightarrow> UINT \<Rightarrow> cpu_handle) \<Rightarrow> bool \<Rightarrow> DescHandleProvider
     \<Rightarrow> stop + (cpu_handle \<times> UINT option \<times> DescHandleProvider)" where
  "AllocCpuHandle Offset wantCount p =
     (if length (FreeHandles p) > 0
      then Inr (last (FreeHandles p), None, p\<lparr>FreeHandles := butlast (FreeHandles p)\<rparr>)
      else if \<not> (CurrentHandleCount p < MaxHandleCount p)
      then Inl (Exit_VALIDATE ''Hit maximum number of handles available'')
      else Inr (NextAvailableCpuHandle p,
                (if wantCount then Some (CurrentHandleCount p) else None),
                p\<lparr>NextAvailableCpuHandle := Offset (NextAvailableCpuHandle p) (IncrementSize p),
                  CurrentHandleCount := CurrentHandleCount p + 1\<rparr>))"

definition FreeCpuHandle :: "cpu_handle \<Rightarrow> DescHandleProvider \<Rightarrow> DescHandleProvider" where
  "FreeCpuHandle handle p = p\<lparr>FreeHandles := FreeHandles p @ [handle]\<rparr>"

section \<open>Vertex and the global vertex/index store\<close>

type_synonym size_t = "64 word"

text \<open>\<open>std::vector::size()\<close> as a \<open>size_t\<close>.\<close>

definition vec_size :: "'a list \<Rightarrow> size_t" where
  "vec_size xs = of_nat (length xs)"

definition INT_MAX :: nat where
  "INT_MAX = 2147483647"

record Vertex =
  position :: "float32 \<times> float32 \<times> float32"
  normal :: "float32 \<times> float32 \<times> float32"
  uv :: "float32 \<times> float32"

text \<open>The constructor \<open>Vertex(x, y, z, nx, ny, nz, u, v)\<close>.\<close>

definition Vertex_new ::
  "float32 \<Rightarrow> float32 \<Rightarrow> float32 \<Rightarrow> float32 \<Rightarrow> float32 \<Rightarrow> float32 \<Rightarrow> float32 \<Rightarrow> float32
     \<Rightarrow> Vertex" where
  "Vertex_new x y z nx ny nz u v = \<lparr> position = (x, y, z), normal = (nx, ny, nz), uv = (u, v) \<rparr>"

text \<open>
  \<open>==\<close> on two floats, on their bit patterns: a NaN (exponent all ones, fraction not
  zero) equals nothing, \<open>+0\<close> equals \<open>-0\<close>, any other two floats are equal when their
  bits are.
\<close>

definition float_isnan :: "float32 \<Rightarrow> bool" where
  "float_isnan w = (0x7F800000 < (w AND 0x7FFFFFFF))"

definition float_eq :: "float32 \<Rightarrow> float32 \<Rightarrow> bool" where
  "float_eq a b =
     (\<not> float_isnan a \<and> \<not> float_isnan b \<and>
      (a = b \<or> (a AND 0x7FFFFFFF = 0 \<and> b AND 0x7FFFFFFF = 0)))"

text \<open>\<open>Vertex::operator==\<close>.\<close>

definition Vertex_eq :: "Vertex \<Rightarrow> Vertex \<Rightarrow> bool" where
  "Vertex_eq a b =
     (case (position a, normal a, uv a, position b, normal b, uv b) of
        ((ax, ay, az), (anx, any, anz), (au, av), (bx, by, bz), (bnx, bny, bnz), (bu, bv)) \<Rightarrow>
          float_eq ax bx \<and> float_eq ay by \<and> float_eq az bz \<and>
          float_eq anx bnx \<and> float_eq any bny \<and> float_eq anz bnz \<and>
          float_eq au bu \<and> float_eq av bv)"

text \<open>
  An \<open>ID3D12Resource*\<close>: an uninitialised pointer (the \<open>dummyResource\<close> local), or a
  buffer given by its GPU virtual address.
\<close>

datatype resource = Dangling | Buffer UINT64

text \<open>
  \<open>struct VertexBuffer\<close>.  \<open>indexBuffer\<close> and \<open>vertexBuffer\<close> hold the GPU virtual
  addresses of the two upload buffers (\<open>resource->GetGPUVirtualAddress()\<close>).
\<close>

record VertexBuffer =
  indexBuffer :: UINT64
  vertexBuffer :: UINT64
  globalVertices :: "Vertex list"
  globalIndices :: "UINT list"
  globalStartVBIndices :: "(UINT \<times> UINT) list"
  globalStartIBIndices :: "(UINT \<times> UINT) list"
  m_globalBottomLevelAccelerationStructures :: "resource list"
  numVertexBuffers :: UINT

definition VertexBuffer_empty :: VertexBuffer where
  "VertexBuffer_empty =
     \<lparr> indexBuffer = 0, vertexBuffer = 0, globalVertices = [], globalIndices = [],
       globalStartVBIndices = [], globalStartIBIndices = [],
       m_globalBottomLevelAccelerationStructures = [], numVertexBuffers = 0 \<rparr>"

text \<open>
  The loop \<open>for (int i = 0; i < src.size(); i++) dst.push_back(src[i]);\<close>.  The counter
  is an \<open>int\<close>: incrementing it at \<open>INT_MAX\<close> is a signed overflow.
\<close>

function push_back_loop :: "nat \<Rightarrow> 'a list \<Rightarrow> 'a list \<Rightarrow> stop + 'a list" where
  "push_back_loop i src dst =
     (if i < length src
      then (if i = INT_MAX then Inl Undefined_behaviour
            else push_back_loop (i + 1) src (dst @ [src ! i]))
      else Inr dst)"
  by pat_completeness auto
termination
  by (relation "measure (\<lambda>(i, src, dst). length src - i)") auto

declare push_back_loop.simps [simp del]

text \<open>
  The statements from \<open>std::pair<UINT, UINT> startIndices;\<close> to
  \<open>return startIndices;\<close>, which \<open>AddVerticeAndIndicesToGlobal\<close> consists of and
  which \<open>AddBoxToGlobal\<close> and \<open>AddGlobalObj\<close> repeat (the box with the literal bounds
  36 and 24, the sizes of its two arrays).  Every \<open>size()\<close> stored in a
  \<open>std::pair<UINT, UINT>\<close> is truncated to 32 bits; the counts are differences
  computed in \<open>size_t\<close> and then truncated.
\<close>

definition AddVerticeAndIndicesToGlobal ::
  "Vertex list \<Rightarrow> UINT list \<Rightarrow> VertexBuffer \<Rightarrow> stop + ((UINT \<times> UINT) \<times> VertexBuffer)" where
  "AddVerticeAndIndicesToGlobal vertices indices vb =
     (let startIndices_second = (ucast (vec_size (globalIndices vb)) :: UINT);
          startIndices_first = (ucast (vec_size (globalVertices vb)) :: UINT);
          ibStartIndices_first = (ucast (vec_size (globalIndices vb)) :: UINT)
      in case push_back_loop 0 indices (globalIndices vb) of
           Inl e \<Rightarrow> Inl e
         | Inr gi \<Rightarrow>
            (let vbStartIndices_first = (ucast (vec_size (globalVertices vb)) :: UINT)
             in case push_back_loop 0 vertices (globalVertices vb) of
                  Inl e \<Rightarrow> Inl e
                | Inr gv \<Rightarrow>
                   (let ibStartIndices_second =
                          (ucast (vec_size gi - ucast ibStartIndices_first) :: UINT);
                        vbStartIndices_second =
                          (ucast (vec_size gv - ucast vbStartIndices_first) :: UINT)
                    in Inr ((startIndices_first, startIndices_second),
                            vb\<lparr> globalIndices := gi, globalVertices := gv,
                                globalStartIBIndices := globalStartIBIndices vb
                                   @ [(ibStartIndices_first, ibStartIndices_second)],
                                globalStartVBIndices := globalStartVBIndices vb
                                   @ [(vbStartIndices_first, vbStartIndices_second)],
                                numVertexBuffers := numVertexBuffers vb + 1 \<rparr>))))"

text \<open>The two arrays of \<open>AddBoxToGlobal\<close>; the floats are \<open>0.0f\<close>, \<open>0.5f\<close>,
  \<open>-0.5f\<close>, \<open>1.0f\<close> and \<open>-1.0f\<close>.\<close>

definition box_indices :: "UINT list" where
  "box_indices =
     [0, 2, 1,  0, 3, 2,
      4, 5, 6,  4, 6, 7,
      8, 9, 10,  8, 10, 11,
      12, 14, 13,  12, 15, 14,
      16, 18, 17,  16, 19, 18,
      20, 21, 22,  20, 22, 23]"

definition f_zero :: float32 where "f_zero = 0x00000000"
definition f_half :: float32 where "f_half = 0x3F000000"
definition f_mhalf :: float32 where "f_mhalf = 0xBF000000"
definition f_one :: float32 where "f_one = 0x3F800000"
definition f_mone :: float32 where "f_mone = 0xBF800000"

definition box_vertices :: "Vertex list" where
  "box_vertices =
     [Vertex_new f_mhalf f_mhalf f_mhalf  f_zero f_zero f_mone  f_zero f_zero,
      Vertex_new f_half f_mhalf f_mhalf  f_zero f_zero f_mone  f_one f_zero,
      Vertex_new f_half f_half f_mhalf  f_zero f_zero f_mone  f_one f_one,
      Vertex_new f_mhalf f_half f_mhalf  f_zero f_zero f_mone  f_zero f_one,

      Vertex_new f_mhalf f_mhalf f_half  f_zero f_zero f_one  f_zero f_zero,
      Vertex_new f_half f_mhalf f_half  f_zero f_zero f_one  f_one f_zero,
      Vertex_new f_half f_half f_half  f_zero f_zero f_one  f_one f_one,
      Vertex_new f_mhalf f_half f_half  f_zero f_zero f_one  f_zero f_one,

      Vertex_new f_half f_mhalf f_mhalf  f_one f_zero f_zero  f_zero f_zero,
      Vertex_new f_half f_half f_mhalf  f_one f_zero f_zero  f_zero f_one,
      Vertex_new f_half f_half f_half  f_one f_zero f_zero  f_one f_one,
      Vertex_new f_half f_mhalf f_half  f_one f_zero f_zero  f_one f_zero,

      Vertex_new f_mhalf f_mhalf f_mhalf  f_mone f_zero f_zero  f_zero f_zero,
      Vertex_new f_mhalf f_half f_mhalf  f_mone f_zero f_zero  f_zero f_one,
      Vertex_new f_mhalf f_half f_half  f_mone f_zero f_zero  f_one f_one,
      Vertex_new f_mhalf f_mhalf f_half  f_mone f_zero f_zero  f_one f_zero,

      Vertex_new f_mhalf f_half f_mhalf  f_zero f_one f_zero  f_zero f_zero,
      Vertex_new f_half f_half f_mhalf  f_zero f_one f_zero  f_one f_zero,
      Vertex_new f_half f_half f_half  f_zero f_one f_zero  f_one f_one,
      Vertex_new f_mhalf f_half f_half  f_zero f_one f_zero  f_zero f_one,

      Vertex_new f_mhalf f_mhalf f_mhalf  f_zero f_mone f_zero  f_zero f_zero,
      Vertex_new f_half f_mhalf f_mhalf  f_zero f_mone f_zero  f_one f_zero,
      Vertex_new f_half f_mhalf f_half  f_zero f_mone f_zero  f_one f_one,
      Vertex_new f_mhalf f_mhalf f_half  f_zero f_mone f_zero  f_zero f_one]"

definition AddBoxToGlobal :: "VertexBuffer \<Rightarrow> stop + ((UINT \<times> UINT) \<times> VertexBuffer)" where
  "AddBoxToGlobal vb = AddVerticeAndIndicesToGlobal box_vertices box_indices vb"

text \<open>
  A sequence of append calls on one store, run from left to right; the result holds what
  each call returned (\<open>startIndices\<close>: vertex offset, index offset) and the final store.
\<close>

datatype mesh_append = Append_Box | Append_Mesh "Vertex list" "UINT list"

fun append_call :: "mesh_append \<Rightarrow> VertexBuffer \<Rightarrow> stop + ((UINT \<times> UINT) \<times> VertexBuffer)" where
  "append_call Append_Box vb = AddBoxToGlobal vb"
| "append_call (Append_Mesh vertices indices) vb = AddVerticeAndIndicesToGlobal vertices indices vb"

fun run_appends ::
  "mesh_append list \<Rightarrow> VertexBuffer \<Rightarrow> stop + ((UINT \<times> UINT) list \<times> VertexBuffer)" where
  "run_appends [] vb = Inr ([], vb)"
| "run_appends (c # cs) vb =
     (case append_call c vb of
        Inl e \<Rightarrow> Inl e
      | Inr (r, vb1) \<Rightarrow>
         (case run_appends cs vb1 of
            Inl e \<Rightarrow> Inl e
          | Inr (rs, vb2) \<Rightarrow> Inr (r # rs, vb2)))"

text \<open>The arrays a call appends, and the ranges a store records for meshes of the given
  sizes when the first one starts at \<open>off\<close> (used in the proofs only).\<close>

fun call_vertices :: "mesh_append \<Rightarrow> Vertex list" where
  "call_vertices Append_Box = box_vertices"
| "call_vertices (Append_Mesh vertices indices) = vertices"

fun call_indices :: "mesh_append \<Rightarrow> UINT list" where
  "call_indices Append_Box = box_indices"
| "call_indices (Append_Mesh vertices indices) = indices"

fun recorded_ranges :: "nat \<Rightarrow> nat list \<Rightarrow> (UINT \<times> UINT) list" where
  "recorded_ranges off [] = []"
| "recorded_ranges off (n # ns) = (of_nat off, of_nat n) # recorded_ranges (off + n) ns"

text \<open>Two inputs: a small scene of a box, a triangle and a second box; and three meshes of
  \<open>INT_MAX\<close> indices each (and no vertices), followed by a box.\<close>

definition triangle_vertices :: "Vertex list" where
  "triangle_vertices =
     [Vertex_new f_zero f_zero f_zero  f_zero f_zero f_one  f_zero f_zero,
      Vertex_new f_one f_zero f_zero  f_zero f_zero f_one  f_one f_zero,
      Vertex_new f_zero f_one f_zero  f_zero f_zero f_one  f_zero f_one]"

definition small_scene :: "mesh_append list" where
  "small_scene = [Append_Box, Append_Mesh triangle_vertices [0, 1, 2], Append_Box]"

definition huge_indices :: "UINT list" where
  "huge_indices = replicate INT_MAX 0"

definition huge_scene :: "mesh_append list" where
  "huge_scene =
     [Append_Mesh [] huge_indices, Append_Mesh [] huge_indices, Append_Mesh [] huge_indices,
      Append_Box]"

section \<open>OBJ import: AddGlobalObj\<close>

text \<open>
  The OBJ parser (tinyobjloader) is a third-party library.  \<open>AddGlobalObj\<close> is modelled
  on what \<open>reader.ParseFromFile\<close> delivers: a failure, or the attribute arrays
  \<open>attrib.vertices\<close>, \<open>attrib.normals\<close>, \<open>attrib.texcoords\<close> and, per shape, the
  list \<open>shape.mesh.indices\<close> of index triples (\<open>int\<close> fields; \<open>-1\<close> when a normal or
  a texture coordinate is absent).
\<close>

record index_t =
  vertex_index :: int
  normal_index :: int
  texcoord_index :: int

record attrib_t =
  attrib_vertices :: "float32 list"
  attrib_normals :: "float32 list"
  attrib_texcoords :: "float32 list"

datatype obj_reader = ParseFromFile_failed | Parsed attrib_t "index_t list list"

text \<open>
  \<open>xs[k]\<close> for an index computed in \<open>int\<close>: defined only when the computation stays
  within \<open>int\<close> and the index is inside the vector.
\<close>

definition element_at :: "'a list \<Rightarrow> int \<Rightarrow> stop + 'a" where
  "element_at xs k =
     (if 0 \<le> k \<and> k \<le> int INT_MAX \<and> nat k < length xs then Inr (xs ! nat k)
      else Inl Undefined_behaviour)"

text \<open>Running one step after another, stopping at the first one that does not return.\<close>

definition and_then :: "stop + 'a \<Rightarrow> ('a \<Rightarrow> stop + 'b) \<Rightarrow> stop + 'b" where
  "and_then m f = (case m of Inl e \<Rightarrow> Inl e | Inr x \<Rightarrow> f x)"

text \<open>The body of the loop over \<open>shape.mesh.indices\<close> up to the uniqueness check: the
  vertex built for one index triple, from \<open>Vertex vertex = { 0, 0, 0, 0, 0, 0, 0, 0 }\<close>.\<close>

definition obj_vertex :: "attrib_t \<Rightarrow> index_t \<Rightarrow> stop + Vertex" where
  "obj_vertex attrib index =
     and_then (element_at (attrib_vertices attrib) (3 * vertex_index index + 0)) (\<lambda>x.
     and_then (element_at (attrib_vertices attrib) (3 * vertex_index index + 1)) (\<lambda>y.
     and_then (element_at (attrib_vertices attrib) (3 * vertex_index index + 2)) (\<lambda>z.
     and_then
       (if normal_index index \<ge> 0
        then and_then (element_at (attrib_normals attrib) (3 * normal_index index + 0)) (\<lambda>nx.
             and_then (element_at (attrib_normals attrib) (3 * normal_index index + 1)) (\<lambda>ny.
             and_then (element_at (attrib_normals attrib) (3 * normal_index index + 2)) (\<lambda>nz.
             Inr (nx, ny, nz))))
        else Inr (f_zero, f_zero, f_zero)) (\<lambda>n.
     and_then
       (if texcoord_index index \<ge> 0
        then and_then (element_at (attrib_texcoords attrib) (2 * texcoord_index index + 0)) (\<lambda>u.
             and_then (element_at (attrib_texcoords attrib) (2 * texcoord_index index + 1)) (\<lambda>v.
             Inr (u, v)))
        else Inr (f_zero, f_zero)) (\<lambda>t.
     Inr \<lparr> position = (x, y, z), normal = n, uv = t \<rparr>)))))"

text \<open>
  \<open>std::unordered_map<Vertex, unsigned int, VertexHash> uniqueVertices\<close> as the list of
  its entries in insertion order.  A lookup finds the entry whose key is \<open>==\<close> to the
  given vertex (\<open>std::hash<float>\<close> gives equal floats equal hashes, so such an entry is
  in the bucket searched); \<open>operator[]\<close> inserts the key with the value 0 when there is
  none.
\<close>

type_synonym vertex_map = "(Vertex \<times> UINT) list"

definition map_find :: "vertex_map \<Rightarrow> Vertex \<Rightarrow> (Vertex \<times> UINT) option" where
  "map_find m v = find (\<lambda>e. Vertex_eq (fst e) v) m"

text \<open>\<open>m[v] = n\<close>.\<close>

definition map_assign :: "vertex_map \<Rightarrow> Vertex \<Rightarrow> UINT \<Rightarrow> vertex_map" where
  "map_assign m v n =
     (case map_find m v of
        None \<Rightarrow> m @ [(v, n)]
      | Some e \<Rightarrow> map (\<lambda>e'. if e' = e then (fst e', n) else e') m)"

text \<open>Reading \<open>m[v]\<close>.\<close>

definition map_index :: "vertex_map \<Rightarrow> Vertex \<Rightarrow> UINT \<times> vertex_map" where
  "map_index m v =
     (case map_find m v of
        None \<Rightarrow> (0, m @ [(v, 0)])
      | Some e \<Rightarrow> (snd e, m))"

text \<open>The rest of the loop body: the uniqueness check and \<open>indices.push_back\<close>.  The
  state is \<open>(uniqueVertices, vertices, indices)\<close>.\<close>

definition obj_add_index ::
  "Vertex \<Rightarrow> vertex_map \<times> Vertex list \<times> UINT list \<Rightarrow> vertex_map \<times> Vertex list \<times> UINT list" where
  "obj_add_index vertex st =
     (case st of (uniqueVertices, vertices, indices) \<Rightarrow>
        (let (uniqueVertices1, vertices1) =
               (if map_find uniqueVertices vertex = None
                then (map_assign uniqueVertices vertex (ucast (vec_size vertices)),
                      vertices @ [vertex])
                else (uniqueVertices, vertices));
             (i, uniqueVertices2) = map_index uniqueVertices1 vertex
         in (uniqueVertices2, vertices1, indices @ [i])))"

fun obj_indices_loop ::
  "attrib_t \<Rightarrow> index_t list \<Rightarrow> vertex_map \<times> Vertex list \<times> UINT list
     \<Rightarrow> stop + (vertex_map \<times> Vertex list \<times> UINT list)" where
  "obj_indices_loop attrib [] st = Inr st"
| "obj_indices_loop attrib (index # rest) st =
     and_then (obj_vertex attrib index) (\<lambda>vertex.
       obj_indices_loop attrib rest (obj_add_index vertex st))"

fun obj_shapes_loop ::
  "attrib_t \<Rightarrow> index_t list list \<Rightarrow> vertex_map \<times> Vertex list \<times> UINT list
     \<Rightarrow> stop + (vertex_map \<times> Vertex list \<times> UINT list)" where
  "obj_shapes_loop attrib [] st = Inr st"
| "obj_shapes_loop attrib (shape # rest) st =
     and_then (obj_indices_loop attrib shape st) (\<lambda>st'. obj_shapes_loop attrib rest st')"

definition AddGlobalObj :: "obj_reader \<Rightarrow> VertexBuffer \<Rightarrow> stop + ((UINT \<times> UINT) \<times> VertexBuffer)" where
  "AddGlobalObj reader vb =
     (case reader of
        ParseFromFile_failed \<Rightarrow> Inl Exit_1
      | Parsed attrib shapes \<Rightarrow>
          and_then (obj_shapes_loop attrib shapes ([], [], [])) (\<lambda>st.
            case st of (uniqueVertices, vertices, indices) \<Rightarrow>
              AddVerticeAndIndicesToGlobal vertices indices vb))"

text \<open>A parsed file with one shape: the triangle \<open>0 1 2\<close> followed by a face that uses
  vertex 0 three times; no normals, no texture coordinates.\<close>

definition tiny_obj :: obj_reader where
  "tiny_obj =
     Parsed \<lparr> attrib_vertices = [f_zero, f_zero, f_zero,  f_one, f_zero, f_zero,  f_zero, f_one, f_zero],
              attrib_normals = [], attrib_texcoords = [] \<rparr>
       [[\<lparr> vertex_index = 0, normal_index = -1, texcoord_index = -1 \<rparr>,
         \<lparr> vertex_index = 1, normal_index = -1, texcoord_index = -1 \<rparr>,
         \<lparr> vertex_index = 2, normal_index = -1, texcoord_index = -1 \<rparr>,
         \<lparr> vertex_index = 0, normal_index = -1, texcoord_index = -1 \<rparr>,
         \<lparr> vertex_index = 0, normal_index = -1, texcoord_index = -1 \<rparr>,
         \<lparr> vertex_index = 0, normal_index = -1, texcoord_index = -1 \<rparr>]]"

section \<open>OBJ import: Model::InitFromObj\<close>

text \<open>
  \<open>Model::InitFromObj\<close>, the import behind \<open>Scene::AddObjModelToScene\<close>, as far as the
  global vertex buffer goes.  Besides \<open>shape.mesh.indices\<close> it reads, per shape,
  \<open>shape.mesh.num_face_vertices\<close> and \<open>shape.mesh.material_ids\<close>.
\<close>

record mesh_t =
  mesh_indices :: "index_t list"
  num_face_vertices :: "nat list"
  material_ids :: "int list"

datatype model_reader = Model_ParseFromFile_failed | Model_Parsed attrib_t "mesh_t list"

text \<open>\<open>xs[k]\<close> for a \<open>size_t\<close> index.\<close>

definition vec_at :: "'a list \<Rightarrow> nat \<Rightarrow> stop + 'a" where
  "vec_at xs k = (if k < length xs then Inr (xs ! k) else Inl Undefined_behaviour)"

text \<open>A \<open>ModelComponent\<close>, by the one field that refers to the vertex data: \<open>vbIndex\<close>,
  the position of its mesh in the list of sub-ranges.  Transform, colour, texture index,
  hit-shader index and layer mask neither depend on the vertex data nor change it.\<close>

record ModelComponent =
  vbIndex :: UINT

text \<open>
  The variables of the import.  \<open>uniqueVertices\<close> is declared before the loop over the
  shapes; \<open>indices\<close> and \<open>vertices\<close> (here \<open>shape_indices\<close> and
  \<open>shape_vertices\<close>), \<open>currentMaterialId\<close> and \<open>index_offset\<close> are declared inside
  it, so each shape starts with fresh ones.  \<open>vertexBuffer_ref\<close> is the
  parameter \<open>VertexBuffer& vertexBuffer\<close>, \<open>components\<close> is \<open>model.components\<close>.
\<close>

record import_state =
  uniqueVertices :: vertex_map
  shape_vertices :: "Vertex list"
  shape_indices :: "UINT list"
  currentMaterialId :: int
  index_offset :: nat
  vertexBuffer_ref :: VertexBuffer
  components :: "ModelComponent list"

text \<open>What both flushes have in common: the component gets the number of sub-ranges
  recorded so far as its \<open>vbIndex\<close>, the collected mesh is appended to the global store,
  the component to the model.\<close>

definition add_component :: "import_state \<Rightarrow> stop + import_state" where
  "add_component s =
     (let component = \<lparr> vbIndex = ucast (vec_size (globalStartVBIndices (vertexBuffer_ref s))) \<rparr>
      in and_then (AddVerticeAndIndicesToGlobal (shape_vertices s) (shape_indices s) (vertexBuffer_ref s)) (\<lambda>r.
           Inr (s\<lparr> vertexBuffer_ref := snd r, components := components s @ [component] \<rparr>)))"

text \<open>The loop \<open>for (size_t v = 0; v < fv; v++)\<close> over the vertices of one face, given the
  values of \<open>v\<close> still to come; \<open>index_offset + v\<close> is computed in \<open>size_t\<close>.\<close>

fun face_vertices_loop ::
  "attrib_t \<Rightarrow> mesh_t \<Rightarrow> nat list \<Rightarrow> import_state \<Rightarrow> stop + import_state" where
  "face_vertices_loop attrib mesh [] s = Inr s"
| "face_vertices_loop attrib mesh (v # rest) s =
     and_then (vec_at (mesh_indices mesh) ((index_offset s + v) mod 2 ^ 64)) (\<lambda>idx.
     and_then (obj_vertex attrib idx) (\<lambda>vertex.
       (case obj_add_index vertex (uniqueVertices s, shape_vertices s, shape_indices s) of
          (uniqueVertices', vertices', indices') \<Rightarrow>
            face_vertices_loop attrib mesh rest
              (s\<lparr> uniqueVertices := uniqueVertices', shape_vertices := vertices',
                  shape_indices := indices' \<rparr>))))"

text \<open>
  The body of the loop over the faces, for face \<open>f\<close>.  On a change of material a
  non-empty mesh is flushed, and \<open>indices\<close>, \<open>vertices\<close> and \<open>uniqueVertices\<close> are
  cleared.
\<close>

definition face_body :: "attrib_t \<Rightarrow> mesh_t \<Rightarrow> nat \<Rightarrow> import_state \<Rightarrow> stop + import_state" where
  "face_body attrib mesh f s =
     and_then (vec_at (num_face_vertices mesh) f) (\<lambda>fv.
     and_then (vec_at (material_ids mesh) f) (\<lambda>materialId.
     and_then
       (if materialId \<noteq> currentMaterialId s
        then and_then
               (if shape_indices s \<noteq> []
                then and_then (add_component s) (\<lambda>s'.
                       Inr (s'\<lparr> shape_indices := [], shape_vertices := [], uniqueVertices := [] \<rparr>))
                else Inr s) (\<lambda>s'.
             Inr (s'\<lparr> currentMaterialId := materialId \<rparr>))
        else Inr s) (\<lambda>s1.
     and_then (face_vertices_loop attrib mesh [0 ..< fv] s1) (\<lambda>s2.
     Inr (s2\<lparr> index_offset := (index_offset s2 + fv) mod 2 ^ 64 \<rparr>)))))"

fun faces_loop ::
  "attrib_t \<Rightarrow> mesh_t \<Rightarrow> nat list \<Rightarrow> import_state \<Rightarrow> stop + import_state" where
  "faces_loop attrib mesh [] s = Inr s"
| "faces_loop attrib mesh (f # rest) s =
     and_then (face_body attrib mesh f s) (\<lambda>s'. faces_loop attrib mesh rest s')"

text \<open>
  The body of the loop over the shapes.  What is carried from shape to shape is
  \<open>uniqueVertices\<close>, the vertex buffer and the model.  The flush after the last face
  appends what is left and clears nothing: \<open>indices\<close> and \<open>vertices\<close> go out of scope,
  \<open>uniqueVertices\<close> keeps its entries for the next shape.
\<close>

definition shape_body ::
  "attrib_t \<Rightarrow> mesh_t \<Rightarrow> vertex_map \<times> VertexBuffer \<times> ModelComponent list
     \<Rightarrow> stop + (vertex_map \<times> VertexBuffer \<times> ModelComponent list)" where
  "shape_body attrib mesh carried =
     (case carried of (uniqueVertices0, vb, model) \<Rightarrow>
        and_then
          (faces_loop attrib mesh [0 ..< length (num_face_vertices mesh)]
             \<lparr> uniqueVertices = uniqueVertices0, shape_vertices = [], shape_indices = [],
               currentMaterialId = - 1, index_offset = 0,
               vertexBuffer_ref = vb, components = model \<rparr>) (\<lambda>s.
        and_then (if shape_indices s \<noteq> [] then add_component s else Inr s) (\<lambda>s'.
        Inr (uniqueVertices s', vertexBuffer_ref s', components s'))))"

fun model_shapes_loop ::
  "attrib_t \<Rightarrow> mesh_t list \<Rightarrow> vertex_map \<times> VertexBuffer \<times> ModelComponent list
     \<Rightarrow> stop + (vertex_map \<times> VertexBuffer \<times> ModelComponent list)" where
  "model_shapes_loop attrib [] carried = Inr carried"
| "model_shapes_loop attrib (shape # rest) carried =
     and_then (shape_body attrib shape carried) (\<lambda>carried'.
       model_shapes_loop attrib rest carried')"

text \<open>
  \<open>InitFromObj\<close>: the parse, the loop over the materials, the loop over the shapes.  The
  loop over the materials loads the textures and fills \<open>materialToTextureIndex\<close>, which
  only the texture index of a component reads; \<open>load_textures\<close> says whether it returns
  or stops the process (\<open>new Texture(path)\<close> calls \<open>ThrowIfFalse\<close>).  The result is the
  model's components and the vertex buffer.
\<close>

definition InitFromObj ::
  "model_reader \<Rightarrow> stop + unit \<Rightarrow> VertexBuffer \<Rightarrow> stop + (ModelComponent list \<times> VertexBuffer)" where
  "InitFromObj reader load_textures vb =
     (case reader of
        Model_ParseFromFile_failed \<Rightarrow> Inl Exit_1
      | Model_Parsed attrib shapes \<Rightarrow>
          and_then load_textures (\<lambda>u.
          and_then (model_shapes_loop attrib shapes ([], vb, [])) (\<lambda>carried.
            case carried of (uniqueVertices', vb', model) \<Rightarrow> Inr (model, vb'))))"

text \<open>A parsed file with two shapes, each the one triangle \<open>0 1 2\<close> over the same three
  vertices, no normals, no texture coordinates, no material (\<open>material_ids\<close> is \<open>-1\<close>).\<close>

definition triangle_shape :: mesh_t where
  "triangle_shape =
     \<lparr> mesh_indices =
         [\<lparr> vertex_index = 0, normal_index = -1, texcoord_index = -1 \<rparr>,
          \<lparr> vertex_index = 1, normal_index = -1, texcoord_index = -1 \<rparr>,
          \<lparr> vertex_index = 2, normal_index = -1, texcoord_index = -1 \<rparr>],
       num_face_vertices = [3], material_ids = [- 1] \<rparr>"

definition two_shapes_obj :: model_reader where
  "two_shapes_obj =
     Model_Parsed
       \<lparr> attrib_vertices = [f_zero, f_zero, f_zero,  f_one, f_zero, f_zero,  f_zero, f_one, f_zero],
         attrib_normals = [], attrib_texcoords = [] \<rparr>
       [triangle_shape, triangle_shape]"

section \<open>The device: command lists and the order of GPU work\<close>

type_synonym HRESULT = "32 word"

definition S_OK :: HRESULT where
  "S_OK = 0"

datatype DrawContext =
    DrawContext_EyeRenderLeft
  | DrawContext_EyeRenderRight
  | DrawContext_Final
  | DrawContext_Count

type_synonym XMVECTOR = "float32 \<times> float32 \<times> float32 \<times> float32"
type_synonym XMMATRIX = "XMVECTOR \<times> XMVECTOR \<times> XMVECTOR \<times> XMVECTOR"

text \<open>The resources that barriers and copies name: a buffer by its GPU virtual address,
  the eye textures of the VR runtime, the ray-tracing outputs, the swap-chain buffer of a
  frame, the mirror texture.\<close>

datatype gpu_resource =
    Res_Buffer UINT64
  | Res_EyeColor nat
  | Res_EyeDepth nat
  | Res_RaytracingOutput DrawContext
  | Res_RaytracingDepthOutput DrawContext
  | Res_SwapChainBuffer nat
  | Res_MirrorTexture

datatype resource_state =
    STATE_PRESENT
  | STATE_RENDER_TARGET
  | STATE_DEPTH_WRITE
  | STATE_PIXEL_SHADER_RESOURCE
  | STATE_COPY_DEST
  | STATE_COPY_SOURCE
  | STATE_UNORDERED_ACCESS

datatype barrier =
    Barrier_UAV gpu_resource
  | Barrier_Transition gpu_resource resource_state resource_state

datatype geometry_type = GEOMETRY_TYPE_TRIANGLES | GEOMETRY_TYPE_PROCEDURAL_PRIMITIVE_AABBS
datatype geometry_flags = GEOMETRY_FLAG_NONE | GEOMETRY_FLAG_OPAQUE
datatype DXGI_FORMAT = DXGI_FORMAT_UNKNOWN | DXGI_FORMAT_R32_UINT | DXGI_FORMAT_R32G32B32_FLOAT

text \<open>\<open>D3D12_RAYTRACING_GEOMETRY_DESC\<close> with its \<open>Triangles\<close> member.\<close>

record D3D12_RAYTRACING_GEOMETRY_DESC =
  geo_Type :: geometry_type
  geo_Flags :: geometry_flags
  Triangles_Transform3x4 :: UINT64
  Triangles_IndexFormat :: DXGI_FORMAT
  Triangles_VertexFormat :: DXGI_FORMAT
  Triangles_IndexCount :: UINT
  Triangles_VertexCount :: UINT
  Triangles_IndexBuffer :: UINT64
  Triangles_VertexBuffer_StartAddress :: UINT64
  Triangles_VertexBuffer_StrideInBytes :: UINT64

text \<open>\<open>D3D12_BUILD_RAYTRACING_ACCELERATION_STRUCTURE_DESC\<close>: top-level inputs are
  \<open>NumDescs\<close> and the address \<open>InstanceDescs\<close>; bottom-level inputs here are always one
  geometry descriptor.  Both are built with \<open>PREFER_FAST_TRACE\<close> and the array layout.\<close>

datatype build_inputs =
    TopLevelInputs UINT UINT64
  | BottomLevelInputs D3D12_RAYTRACING_GEOMETRY_DESC

record build_desc =
  bd_Inputs :: build_inputs
  bd_DestAccelerationStructureData :: UINT64
  bd_ScratchAccelerationStructureData :: UINT64

datatype root_slot = OutputViewSlot | OutputDepthSlot | VertexBufferSlot | TextureSlot

text \<open>What is recorded into a command list.\<close>

datatype command =
    Cmd_BuildRaytracingAccelerationStructure build_desc
  | Cmd_ResourceBarrier "barrier list"
  | Cmd_SetDescriptorHeaps
  | Cmd_SetComputeRootSignature
  | Cmd_SetComputeRootConstantBufferView nat
  | Cmd_SetComputeRootDescriptorTable root_slot
  | Cmd_SetComputeRootShaderResourceView UINT64
  | Cmd_SetPipelineState1
  | Cmd_DispatchRays
  | Cmd_CopyResource gpu_resource gpu_resource
  | Cmd_CopyTextureRegion gpu_resource gpu_resource
  | Cmd_RSSetViewports
  | Cmd_RSSetScissorRects

text \<open>
  What the program does to the command queue, the fences, the swap chain and its
  temporary resources, in program order.  \<open>Ev_ExecuteCommandLists f c cmds\<close>: the list of
  frame slot \<open>f\<close> and context \<open>c\<close>, holding \<open>cmds\<close>, is handed to the one command queue;
  the queue runs what it is handed in this order.  \<open>Ev_Signal f v\<close>: the queue is told to
  set the fence of slot \<open>f\<close> to \<open>v\<close> once everything before is done.
  \<open>Ev_WaitForSingleObject f\<close>: the CPU blocks until the event of slot \<open>f\<close> is set.
\<close>

datatype event =
    Ev_ExecuteCommandLists nat DrawContext "command list"
  | Ev_Signal nat UINT64
  | Ev_WaitForSingleObject nat
  | Ev_Present
  | Ev_Release resource

text \<open>
  The part of \<open>struct DirectX12\<close> that the frame and the acceleration-structure builds
  use.  \<open>CommandLists (f, c)\<close> is what has been recorded into
  \<open>PerFrameResources[f].CommandLists[c]\<close> since it was last reset
  (\<open>m_dxrCommandList[c]\<close> is the same list, obtained by \<open>QueryInterface\<close>).
\<close>

record DirectX12 =
  SwapChainFrameIndex :: nat
  ActiveContext :: DrawContext
  ActiveEyeIndex :: UINT
  CommandLists :: "nat \<times> DrawContext \<Rightarrow> command list"
  CommandListSubmitted :: "nat \<times> DrawContext \<Rightarrow> bool"
  PresentFenceValue :: "nat \<Rightarrow> UINT64"
  PresentFenceWaitValue :: "nat \<Rightarrow> UINT64"
  Trace :: "event list"

definition SwapChainNumFrames :: nat where
  "SwapChainNumFrames = 4"

text \<open>\<open>CurrentFrameResources().CommandLists[context]->...\<close>: one more command on the list
  of the current slot.  \<open>DrawContext_Count\<close> is past the end of the array.\<close>

definition record_cmd :: "DrawContext \<Rightarrow> command \<Rightarrow> DirectX12 \<Rightarrow> stop + DirectX12" where
  "record_cmd context c dx =
     (if context = DrawContext_Count then Inl Undefined_behaviour
      else Inr (dx\<lparr>CommandLists := (CommandLists dx)
                     ((SwapChainFrameIndex dx, context) :=
                        CommandLists dx (SwapChainFrameIndex dx, context) @ [c])\<rparr>))"

definition SetActiveContext :: "DrawContext \<Rightarrow> DirectX12 \<Rightarrow> DirectX12" where
  "SetActiveContext context dx = dx\<lparr>ActiveContext := context\<rparr>"

definition SetActiveEye :: "int \<Rightarrow> DirectX12 \<Rightarrow> DirectX12" where
  "SetActiveEye eye dx = dx\<lparr>ActiveEyeIndex := word_of_int eye\<rparr>"

text \<open>\<open>SubmitCommandList(context)\<close>; \<open>close_hr\<close> is what \<open>Close()\<close> returns.\<close>

definition SubmitCommandList :: "HRESULT \<Rightarrow> DrawContext \<Rightarrow> DirectX12 \<Rightarrow> stop + DirectX12" where
  "SubmitCommandList close_hr context dx =
     (if context = DrawContext_Count then Inl Undefined_behaviour
      else if close_hr \<noteq> S_OK then Inl (Exit_VALIDATE ''CommandList Close failed'')
      else Inr (dx\<lparr>Trace := Trace dx @
                     [Ev_ExecuteCommandLists (SwapChainFrameIndex dx) context
                        (CommandLists dx (SwapChainFrameIndex dx, context))],
                   CommandListSubmitted := (CommandListSubmitted dx)
                     ((SwapChainFrameIndex dx, context) := True)\<rparr>))"

text \<open>\<open>WaitForGpu()\<close>; \<open>signal_hr\<close> is what \<open>CommandQueue->Signal\<close> returns (the second
  \<open>VALIDATE\<close> tests the same \<open>hr\<close> again).\<close>

definition WaitForGpu :: "HRESULT \<Rightarrow> DirectX12 \<Rightarrow> stop + DirectX12" where
  "WaitForGpu signal_hr dx =
     (let f = SwapChainFrameIndex dx; v = PresentFenceValue dx f in
      if signal_hr \<noteq> S_OK then Inl (Exit_VALIDATE ''CommandQueue Signal failed'')
      else Inr (dx\<lparr>PresentFenceWaitValue := (PresentFenceWaitValue dx)(f := v),
                   PresentFenceValue := (PresentFenceValue dx)(f := v + 1),
                   Trace := Trace dx @ [Ev_Signal f v, Ev_WaitForSingleObject f]\<rparr>))"

section \<open>Bottom-level acceleration structures\<close>

text \<open>
  What the device answers during one iteration of the build loop: the result of the
  command list's \<open>Reset\<close> (not checked by the code), the two sizes of
  \<open>GetRaytracingAccelerationStructurePrebuildInfo\<close>, the result and GPU address of the
  two \<open>CreateCommittedResource\<close> calls (scratch buffer, acceleration structure), and the
  results of \<open>Close\<close> and \<open>Signal\<close>.
\<close>

record blas_env =
  reset_hr :: HRESULT
  ResultDataMaxSizeInBytes :: UINT64
  ScratchDataSizeInBytes :: UINT64
  scratch_create :: "HRESULT \<times> UINT64"
  blas_create :: "HRESULT \<times> UINT64"
  close_hr :: HRESULT
  signal_hr :: HRESULT

text \<open>\<open>geometryDesc\<close> of iteration \<open>i\<close>; \<open>sizeof(UINT)\<close> is 4 and \<open>sizeof(Vertex)\<close>
  is 32, both \<open>size_t\<close>.\<close>

definition geometryDesc :: "VertexBuffer \<Rightarrow> nat \<Rightarrow> D3D12_RAYTRACING_GEOMETRY_DESC" where
  "geometryDesc vb i =
     \<lparr> geo_Type = GEOMETRY_TYPE_TRIANGLES,
       geo_Flags = GEOMETRY_FLAG_OPAQUE,
       Triangles_Transform3x4 = 0,
       Triangles_IndexFormat = DXGI_FORMAT_R32_UINT,
       Triangles_VertexFormat = DXGI_FORMAT_R32G32B32_FLOAT,
       Triangles_IndexCount = snd (globalStartIBIndices vb ! i),
       Triangles_VertexCount = snd (globalStartVBIndices vb ! i),
       Triangles_IndexBuffer = indexBuffer vb + 4 * ucast (fst (globalStartIBIndices vb ! i)),
       Triangles_VertexBuffer_StartAddress =
         vertexBuffer vb + 32 * ucast (fst (globalStartVBIndices vb ! i)),
       Triangles_VertexBuffer_StrideInBytes = 32 \<rparr>"

text \<open>The body of the loop of \<open>InitGlobalBottomLevelAccelerationObject\<close> for the index
  \<open>i\<close> (the loop condition has established \<open>i < globalStartIBIndices.size()\<close>).\<close>

definition blas_body :: "blas_env \<Rightarrow> nat \<Rightarrow> DirectX12 \<times> VertexBuffer \<Rightarrow> stop + (DirectX12 \<times> VertexBuffer)" where
  "blas_body e i st =
     (case st of (dx, vb) \<Rightarrow>
        (let f = SwapChainFrameIndex dx;
             dx1 = (if reset_hr e = S_OK
                    then dx\<lparr>CommandLists := (CommandLists dx)((f, DrawContext_Final) := [])\<rparr>
                    else dx);
             blas1 = m_globalBottomLevelAccelerationStructures vb @ [Dangling]
         in if \<not> i < length (globalStartVBIndices vb) then Inl Undefined_behaviour
            else if \<not> ResultDataMaxSizeInBytes e > 0 then Inl Exit_ThrowIfFalse
            else if fst (scratch_create e) \<noteq> S_OK then Inl Exit_ThrowIfFailed
            else if fst (blas_create e) \<noteq> S_OK then Inl Exit_ThrowIfFailed
            else
              (let blas2 = blas1[i := Buffer (snd (blas_create e))];
                   bottomLevelBuildDesc =
                     \<lparr> bd_Inputs = BottomLevelInputs (geometryDesc vb i),
                       bd_DestAccelerationStructureData = snd (blas_create e),
                       bd_ScratchAccelerationStructureData = snd (scratch_create e) \<rparr>
               in and_then (record_cmd DrawContext_Final
                              (Cmd_BuildRaytracingAccelerationStructure bottomLevelBuildDesc) dx1) (\<lambda>dx2.
                  and_then (record_cmd DrawContext_Final
                              (Cmd_ResourceBarrier [Barrier_UAV (Res_Buffer (snd (blas_create e)))]) dx2) (\<lambda>dx3.
                  and_then (SubmitCommandList (close_hr e) DrawContext_Final dx3) (\<lambda>dx4.
                  and_then (WaitForGpu (signal_hr e) dx4) (\<lambda>dx5.
                  Inr (dx5\<lparr>Trace := Trace dx5 @ [Ev_Release (Buffer (snd (scratch_create e)))]\<rparr>,
                       vb\<lparr>m_globalBottomLevelAccelerationStructures := blas2\<rparr>))))))))"

fun blas_loop ::
  "(nat \<Rightarrow> blas_env) \<Rightarrow> nat list \<Rightarrow> DirectX12 \<times> VertexBuffer \<Rightarrow> stop + (DirectX12 \<times> VertexBuffer)" where
  "blas_loop env [] st = Inr st"
| "blas_loop env (i # rest) st = and_then (blas_body (env i) i st) (\<lambda>st'. blas_loop env rest st')"

text \<open>
  \<open>InitGlobalBottomLevelAccelerationObject\<close>: the body runs for \<open>i = 0, 1, ...\<close> below
  \<open>globalStartIBIndices.size()\<close>; the counter is an \<open>int\<close>, so its increment after the
  iteration \<open>i = INT_MAX\<close> is a signed overflow.
\<close>

definition InitGlobalBottomLevelAccelerationObject ::
  "(nat \<Rightarrow> blas_env) \<Rightarrow> DirectX12 \<times> VertexBuffer \<Rightarrow> stop + (DirectX12 \<times> VertexBuffer)" where
  "InitGlobalBottomLevelAccelerationObject env st =
     (let n = length (globalStartIBIndices (snd st)) in
      and_then (blas_loop env [0 ..< min n (INT_MAX + 1)] st) (\<lambda>st'.
        if INT_MAX < n then Inl Undefined_behaviour else Inr st'))"

text \<open>A device slot with empty lists, two devices answers (one that reports positive
  sizes and succeeds, one that reports a zero result size), and a store of two boxes with
  its two buffers at the addresses \<open>0x10000\<close> (indices) and \<open>0x20000\<close> (vertices).\<close>

definition dx_idle :: DirectX12 where
  "dx_idle =
     \<lparr> SwapChainFrameIndex = 0, ActiveContext = DrawContext_Count, ActiveEyeIndex = 0,
       CommandLists = (\<lambda>k. []), CommandListSubmitted = (\<lambda>k. True),
       PresentFenceValue = (\<lambda>f. 0), PresentFenceWaitValue = (\<lambda>f. - 1), Trace = [] \<rparr>"

definition env_ok :: "nat \<Rightarrow> blas_env" where
  "env_ok i =
     \<lparr> reset_hr = S_OK, ResultDataMaxSizeInBytes = 4096, ScratchDataSizeInBytes = 1024,
       scratch_create = (S_OK, 0x900000), blas_create = (S_OK, 0x100000 + 0x1000 * of_nat i),
       close_hr = S_OK, signal_hr = S_OK \<rparr>"

definition env_zero :: "nat \<Rightarrow> blas_env" where
  "env_zero i =
     \<lparr> reset_hr = S_OK, ResultDataMaxSizeInBytes = 0, ScratchDataSizeInBytes = 0,
       scratch_create = (S_OK, 0x900000), blas_create = (S_OK, 0x100000 + 0x1000 * of_nat i),
       close_hr = S_OK, signal_hr = S_OK \<rparr>"

definition two_boxes :: VertexBuffer where
  "two_boxes =
     \<lparr> indexBuffer = 0x10000, vertexBuffer = 0x20000,
       globalVertices = box_vertices @ box_vertices, globalIndices = box_indices @ box_indices,
       globalStartVBIndices = [(0, 24), (24, 24)], globalStartIBIndices = [(0, 36), (36, 36)],
       m_globalBottomLevelAccelerationStructures = [], numVertexBuffers = 2 \<rparr>"

text \<open>A device that lets an iteration run through, and what such an iteration adds to the
  trace when the fence of slot \<open>f\<close> stood at \<open>v0\<close> before the loop (used to state the
  results).\<close>

definition blas_env_succeeds :: "blas_env \<Rightarrow> bool" where
  "blas_env_succeeds e \<longleftrightarrow>
     reset_hr e = S_OK \<and> 0 < ResultDataMaxSizeInBytes e \<and> fst (scratch_create e) = S_OK \<and>
     fst (blas_create e) = S_OK \<and> close_hr e = S_OK \<and> signal_hr e = S_OK"

definition blas_iteration_events ::
  "(nat \<Rightarrow> blas_env) \<Rightarrow> VertexBuffer \<Rightarrow> nat \<Rightarrow> UINT64 \<Rightarrow> nat \<Rightarrow> event list" where
  "blas_iteration_events env vb f v0 i =
     [Ev_ExecuteCommandLists f DrawContext_Final
        [Cmd_BuildRaytracingAccelerationStructure
           \<lparr> bd_Inputs = BottomLevelInputs (geometryDesc vb i),
             bd_DestAccelerationStructureData = snd (blas_create (env i)),
             bd_ScratchAccelerationStructureData = snd (scratch_create (env i)) \<rparr>,
         Cmd_ResourceBarrier [Barrier_UAV (Res_Buffer (snd (blas_create (env i))))]],
      Ev_Signal f (v0 + of_nat i),
      Ev_WaitForSingleObject f,
      Ev_Release (Buffer (snd (scratch_create (env i))))]"

definition env_second_zero :: "nat \<Rightarrow> blas_env" where
  "env_second_zero i = (if i = 0 then env_ok i else env_zero i)"

section \<open>Scene: instance descriptors and the top-level acceleration structure\<close>

text \<open>\<open>D3D12_RAYTRACING_INSTANCE_DESC\<close>: 64 bytes without padding, so two descriptors
  hold the same bytes exactly when all their fields agree.\<close>

record D3D12_RAYTRACING_INSTANCE_DESC =
  Transform :: "XMVECTOR \<times> XMVECTOR \<times> XMVECTOR"
  InstanceID :: "24 word"
  InstanceMask :: "8 word"
  InstanceContributionToHitGroupIndex :: "24 word"
  Flags :: "8 word"
  AccelerationStructure :: UINT64

text \<open>
  The part of \<open>struct Scene\<close> that the per-frame update touches: the CPU array
  \<open>instanceDescsArray\<close> (\<open>new D3D12_RAYTRACING_INSTANCE_DESC[numInstances]\<close>), the upload
  buffer \<open>instanceDescs\<close> (its contents, descriptor by descriptor, and its GPU address),
  and the addresses of the top-level structure and of its scratch buffer.
\<close>

record Scene =
  instanceDescsArray :: "D3D12_RAYTRACING_INSTANCE_DESC list"
  numInstances :: UINT
  instanceDescs :: "D3D12_RAYTRACING_INSTANCE_DESC list"
  instanceDescs_address :: UINT64
  m_topLevelAccelerationStructure :: UINT64
  ScratchAccelerationStructureData :: UINT64

text \<open>\<open>XMMatrixTranspose\<close> (DirectXMath) and the rows \<open>r[0]\<close>, \<open>r[1]\<close>, \<open>r[2]\<close> of a
  matrix.\<close>

definition XMMatrixTranspose :: "XMMATRIX \<Rightarrow> XMMATRIX" where
  "XMMatrixTranspose M =
     (case M of ((a0, a1, a2, a3), (b0, b1, b2, b3), (c0, c1, c2, c3), (d0, d1, d2, d3)) \<Rightarrow>
        ((a0, b0, c0, d0), (a1, b1, c1, d1), (a2, b2, c2, d2), (a3, b3, c3, d3)))"

fun matrix_row :: "XMMATRIX \<Rightarrow> nat \<Rightarrow> XMVECTOR" where
  "matrix_row (r0, r1, r2, r3) i = (if i = 0 then r0 else if i = 1 then r1 else if i = 2 then r2 else r3)"

text \<open>\<open>memcpy(desc.Transform[i], row, 4 * sizeof(float))\<close> for \<open>i\<close> in 0, 1, 2.\<close>

fun set_Transform_row ::
  "nat \<Rightarrow> XMVECTOR \<Rightarrow> D3D12_RAYTRACING_INSTANCE_DESC \<Rightarrow> D3D12_RAYTRACING_INSTANCE_DESC" where
  "set_Transform_row i row d =
     (case Transform d of (t0, t1, t2) \<Rightarrow>
        d\<lparr>Transform := (if i = 0 then (row, t1, t2) else if i = 1 then (t0, row, t2) else (t0, t1, row))\<rparr>)"

text \<open>\<open>UpdateInstanceTransform\<close>: the loop \<open>for (int i = 0; i < 3; i++)\<close> copies the first
  three rows of the transposed matrix into element \<open>instanceIndex\<close> of the array; an index
  outside the array is an out-of-range write.\<close>

definition UpdateInstanceTransform :: "UINT \<Rightarrow> XMMATRIX \<Rightarrow> Scene \<Rightarrow> stop + Scene" where
  "UpdateInstanceTransform instanceIndex transformMatrix scene =
     (let t = XMMatrixTranspose transformMatrix; k = unat instanceIndex in
      if \<not> k < length (instanceDescsArray scene) then Inl Undefined_behaviour
      else Inr (scene\<lparr>instanceDescsArray := (instanceDescsArray scene)
                  [k := fold (\<lambda>i d. set_Transform_row i (matrix_row t i) d) [0, 1, 2]
                          (instanceDescsArray scene ! k)]\<rparr>))"

text \<open>
  \<open>UpdateInstanceDescs\<close>: \<open>UpdateUploadBuffer\<close> maps the buffer and copies
  \<open>numInstances * sizeof(D3D12_RAYTRACING_INSTANCE_DESC)\<close> bytes (a \<open>size_t\<close> product)
  from the array to its start, that is the first \<open>numInstances\<close> descriptors.  Reading
  past the array or writing past the buffer is out of range.
\<close>

definition UpdateInstanceDescs :: "Scene \<Rightarrow> stop + Scene" where
  "UpdateInstanceDescs scene =
     (let n = unat (numInstances scene) in
      if n \<le> length (instanceDescsArray scene) \<and> n \<le> length (instanceDescs scene)
      then Inr (scene\<lparr>instanceDescs := take n (instanceDescsArray scene) @ drop n (instanceDescs scene)\<rparr>)
      else Inl Undefined_behaviour)"

text \<open>\<open>UpdateTLAS\<close>: the build of the top-level structure and a UAV barrier on it, both
  recorded into the list of \<open>DrawContext_Final\<close> of the current slot.\<close>

definition UpdateTLAS :: "Scene \<Rightarrow> DirectX12 \<Rightarrow> stop + DirectX12" where
  "UpdateTLAS scene dx =
     (let topLevelBuildDesc =
            \<lparr> bd_Inputs = TopLevelInputs (numInstances scene) (instanceDescs_address scene),
              bd_DestAccelerationStructureData = m_topLevelAccelerationStructure scene,
              bd_ScratchAccelerationStructureData = ScratchAccelerationStructureData scene \<rparr>
      in and_then (record_cmd DrawContext_Final
                     (Cmd_BuildRaytracingAccelerationStructure topLevelBuildDesc) dx) (\<lambda>dx1.
         record_cmd DrawContext_Final
           (Cmd_ResourceBarrier [Barrier_UAV (Res_Buffer (m_topLevelAccelerationStructure scene))]) dx1))"

text \<open>The two calls the frame makes, in its order, and their repetition.\<close>

definition commit_and_rebuild :: "Scene \<times> DirectX12 \<Rightarrow> stop + (Scene \<times> DirectX12)" where
  "commit_and_rebuild st =
     (case st of (scene, dx) \<Rightarrow>
        and_then (UpdateInstanceDescs scene) (\<lambda>scene1.
        and_then (UpdateTLAS scene1 dx) (\<lambda>dx1. Inr (scene1, dx1))))"

fun commit_and_rebuild_times :: "nat \<Rightarrow> Scene \<times> DirectX12 \<Rightarrow> stop + (Scene \<times> DirectX12)" where
  "commit_and_rebuild_times 0 st = Inr st"
| "commit_and_rebuild_times (Suc n) st =
     and_then (commit_and_rebuild st) (\<lambda>st'. commit_and_rebuild_times n st')"

text \<open>A scene of three instances whose upload buffer still holds other descriptors.\<close>

definition sample_desc :: "nat \<Rightarrow> D3D12_RAYTRACING_INSTANCE_DESC" where
  "sample_desc k =
     \<lparr> Transform = ((f_one, f_zero, f_zero, of_nat k), (f_zero, f_one, f_zero, f_zero),
                    (f_zero, f_zero, f_one, f_zero)),
       InstanceID = of_nat k, InstanceMask = 255, InstanceContributionToHitGroupIndex = 0,
       Flags = 0, AccelerationStructure = 0x100000 \<rparr>"

definition sample_scene :: Scene where
  "sample_scene =
     \<lparr> instanceDescsArray = [sample_desc 0, sample_desc 1, sample_desc 2],
       numInstances = 3,
       instanceDescs = [sample_desc 7, sample_desc 8, sample_desc 9],
       instanceDescs_address = 0x300000,
       m_topLevelAccelerationStructure = 0x400000,
       ScratchAccelerationStructureData = 0x500000 \<rparr>"

definition sample_matrix :: XMMATRIX where
  "sample_matrix =
     ((f_one, f_zero, f_zero, f_zero), (f_zero, f_one, f_zero, f_zero),
      (f_zero, f_zero, f_one, f_zero), (f_half, f_half, f_half, f_one))"

section \<open>The frame loop\<close>

text \<open>
  What the outside world answers during one iteration of the loop
  \<open>while (DIRECTX.HandleMessages())\<close> of \<open>MainLoop\<close>: whether the window is still
  running, the session status of the VR runtime, the position computed for the animated
  cube, whether each eye texture has a depth resource, the results of the VR runtime's
  frame calls, and the results of the Direct3D calls that the code checks.
\<close>

record frame_env =
  HandleMessages :: bool
  ShouldQuit :: bool
  ShouldRecenter :: bool
  IsVisible :: bool
  HasInputFocus :: bool
  cube_position :: "float32 \<times> float32 \<times> float32"
  has_depth :: "nat \<Rightarrow> bool"
  WaitToBeginFrame_result :: int
  BeginFrame_result :: int
  GetInputState_result :: int
  EndFrame_result :: int
  eye_close_hr :: "nat \<Rightarrow> HRESULT"
  final_close_hr :: HRESULT
  present_hr :: HRESULT
  fence_signal_hr :: HRESULT
  backbuffer_index :: nat
  allocator_reset_hr :: "DrawContext \<Rightarrow> HRESULT"
  list_reset_hr :: "DrawContext \<Rightarrow> HRESULT"

text \<open>\<open>UpdateInstancePosition\<close>: the fourth column of the first three rows.\<close>

definition UpdateInstancePosition ::
  "UINT \<Rightarrow> float32 \<times> float32 \<times> float32 \<Rightarrow> Scene \<Rightarrow> stop + Scene" where
  "UpdateInstancePosition instanceIndex pos scene =
     (let k = unat instanceIndex in
      if \<not> k < length (instanceDescsArray scene) then Inl Undefined_behaviour
      else
        (case (pos, Transform (instanceDescsArray scene ! k)) of
           ((x, y, z), ((a0, a1, a2, a3), (b0, b1, b2, b3), (c0, c1, c2, c3))) \<Rightarrow>
             Inr (scene\<lparr>instanceDescsArray := (instanceDescsArray scene)
                    [k := (instanceDescsArray scene ! k)
                            \<lparr>Transform := ((a0, a1, a2, x), (b0, b1, b2, y), (c0, c1, c2, z))\<rparr>]\<rparr>)))"

text \<open>Recording several commands in a row on one list.\<close>

fun record_cmds :: "DrawContext \<Rightarrow> command list \<Rightarrow> DirectX12 \<Rightarrow> stop + DirectX12" where
  "record_cmds context [] dx = Inr dx"
| "record_cmds context (c # cs) dx = and_then (record_cmd context c dx) (record_cmds context cs)"

text \<open>
  \<open>DoRaytracing\<close>, as far as the command list goes: everything is recorded into the list
  of \<open>ActiveContext\<close>, the dispatch last.  The function indexes the two-element arrays
  \<open>m_sceneCB\<close> and \<open>m_mappedConstantData\<close> with \<open>ActiveContext\<close>, which is in range
  for the two eye contexts only; its writes to these constant buffers are CPU-side and
  are left out.
\<close>

definition DoRaytracing :: "Scene \<Rightarrow> DirectX12 \<Rightarrow> stop + DirectX12" where
  "DoRaytracing scene dx =
     (if ActiveContext dx \<noteq> DrawContext_EyeRenderLeft \<and> ActiveContext dx \<noteq> DrawContext_EyeRenderRight
      then Inl Undefined_behaviour
      else record_cmds (ActiveContext dx)
             [Cmd_SetComputeRootSignature,
              Cmd_SetComputeRootConstantBufferView (SwapChainFrameIndex dx),
              Cmd_SetDescriptorHeaps,
              Cmd_SetComputeRootDescriptorTable OutputViewSlot,
              Cmd_SetComputeRootDescriptorTable OutputDepthSlot,
              Cmd_SetComputeRootDescriptorTable VertexBufferSlot,
              Cmd_SetComputeRootDescriptorTable TextureSlot,
              Cmd_SetComputeRootShaderResourceView (m_topLevelAccelerationStructure scene),
              Cmd_SetPipelineState1,
              Cmd_DispatchRays] dx)"

text \<open>\<open>CopyRaytracingOutputToBackbuffer(renderTarget, depthTarget)\<close>; it indexes
  \<open>m_raytracingOutputs\<close> (two elements) with \<open>ActiveContext\<close>.\<close>

definition CopyRaytracingOutputToBackbuffer ::
  "gpu_resource \<Rightarrow> gpu_resource \<Rightarrow> DirectX12 \<Rightarrow> stop + DirectX12" where
  "CopyRaytracingOutputToBackbuffer renderTarget depthTarget dx =
     (let c = ActiveContext dx in
      if c \<noteq> DrawContext_EyeRenderLeft \<and> c \<noteq> DrawContext_EyeRenderRight
      then Inl Undefined_behaviour
      else record_cmds c
             [Cmd_ResourceBarrier
                [Barrier_Transition renderTarget STATE_RENDER_TARGET STATE_COPY_DEST,
                 Barrier_Transition depthTarget STATE_DEPTH_WRITE STATE_COPY_DEST,
                 Barrier_Transition (Res_RaytracingOutput c) STATE_UNORDERED_ACCESS STATE_COPY_SOURCE,
                 Barrier_Transition (Res_RaytracingDepthOutput c) STATE_UNORDERED_ACCESS STATE_COPY_SOURCE],
              Cmd_CopyResource renderTarget (Res_RaytracingOutput c),
              Cmd_CopyResource depthTarget (Res_RaytracingDepthOutput c),
              Cmd_ResourceBarrier
                [Barrier_Transition renderTarget STATE_COPY_DEST STATE_RENDER_TARGET,
                 Barrier_Transition depthTarget STATE_COPY_DEST STATE_DEPTH_WRITE,
                 Barrier_Transition (Res_RaytracingOutput c) STATE_COPY_SOURCE STATE_UNORDERED_ACCESS,
                 Barrier_Transition (Res_RaytracingDepthOutput c) STATE_COPY_SOURCE STATE_UNORDERED_ACCESS]]
             dx)"

text \<open>\<open>InitCommandList(context)\<close> and \<open>InitFrame(finalContextUsed)\<close>.\<close>

definition InitCommandList :: "frame_env \<Rightarrow> DrawContext \<Rightarrow> DirectX12 \<Rightarrow> stop + DirectX12" where
  "InitCommandList fe context dx =
     (let f = SwapChainFrameIndex dx in
      if context = DrawContext_Count then Inl Undefined_behaviour
      else if CommandListSubmitted dx (f, context)
      then (if allocator_reset_hr fe context \<noteq> S_OK
            then Inl (Exit_VALIDATE ''CommandAllocator Reset failed'')
            else if list_reset_hr fe context \<noteq> S_OK
            then Inl (Exit_VALIDATE ''CommandList Reset failed'')
            else Inr (dx\<lparr>CommandLists := (CommandLists dx)((f, context) := [Cmd_SetDescriptorHeaps]),
                         CommandListSubmitted := (CommandListSubmitted dx)((f, context) := False)\<rparr>))
      else Inr dx)"

definition InitFrame :: "frame_env \<Rightarrow> bool \<Rightarrow> DirectX12 \<Rightarrow> stop + DirectX12" where
  "InitFrame fe finalContextUsed dx =
     and_then (InitCommandList fe DrawContext_EyeRenderLeft dx) (\<lambda>dx1.
     and_then (InitCommandList fe DrawContext_EyeRenderRight dx1) (\<lambda>dx2.
     and_then (if finalContextUsed then InitCommandList fe DrawContext_Final dx2 else Inr dx2) (\<lambda>dx3.
     if finalContextUsed
     then record_cmd DrawContext_Final
            (Cmd_ResourceBarrier
               [Barrier_Transition (Res_SwapChainBuffer (SwapChainFrameIndex dx3))
                  STATE_PRESENT STATE_RENDER_TARGET]) dx3
     else Inr dx3)))"

text \<open>\<open>WaitForPreviousFrame\<close>: signal the fence of the current slot, move on to the next
  slot and wait for the frame that used it last (\<open>-1\<close>: it was never used).\<close>

definition WaitForPreviousFrame :: "frame_env \<Rightarrow> DirectX12 \<Rightarrow> stop + DirectX12" where
  "WaitForPreviousFrame fe dx =
     (let f = SwapChainFrameIndex dx; v = PresentFenceValue dx f in
      if fence_signal_hr fe \<noteq> S_OK then Inl (Exit_VALIDATE ''CommandQueue Signal failed'')
      else
        (let f' = (f + 1) mod SwapChainNumFrames;
             dx1 = dx\<lparr>PresentFenceWaitValue := (PresentFenceWaitValue dx)(f := v),
                      PresentFenceValue := (PresentFenceValue dx)(f := v + 1),
                      Trace := Trace dx @ [Ev_Signal f v],
                      SwapChainFrameIndex := f'\<rparr>;
             dx2 = (if PresentFenceWaitValue dx1 f' \<noteq> - 1
                    then dx1\<lparr>Trace := Trace dx1 @ [Ev_WaitForSingleObject f']\<rparr>
                    else dx1)
         in if f' \<noteq> backbuffer_index fe
            then Inl (Exit_VALIDATE ''Swap chain index validation failed'')
            else Inr dx2))"

text \<open>\<open>SubmitCommandListAndPresent(finalContextUsed)\<close>.\<close>

definition SubmitCommandListAndPresent :: "frame_env \<Rightarrow> bool \<Rightarrow> DirectX12 \<Rightarrow> stop + DirectX12" where
  "SubmitCommandListAndPresent fe finalContextUsed dx =
     and_then
       (if finalContextUsed
        then (if ActiveContext dx \<noteq> DrawContext_Final
              then Inl (Exit_VALIDATE ''Invalid context set before Present'')
              else
                and_then (record_cmd (ActiveContext dx)
                            (Cmd_ResourceBarrier
                               [Barrier_Transition (Res_SwapChainBuffer (SwapChainFrameIndex dx))
                                  STATE_COPY_DEST STATE_PRESENT]) dx) (\<lambda>dx1.
                and_then (SubmitCommandList (final_close_hr fe) DrawContext_Final dx1) (\<lambda>dx2.
                if present_hr fe \<noteq> S_OK then Inl (Exit_VALIDATE ''SwapChain Present failed'')
                else WaitForPreviousFrame fe (dx2\<lparr>Trace := Trace dx2 @ [Ev_Present]\<rparr>))))
        else Inr dx)
       (\<lambda>dx3. InitFrame fe finalContextUsed dx3)"

text \<open>
  The body of \<open>for (int eye = 0; eye < 2; ++eye)\<close> in \<open>MainLoop\<close>: everything goes into
  the list of the eye's own context, which is submitted at the end of the body.
\<close>

definition render_eye :: "frame_env \<Rightarrow> Scene \<Rightarrow> nat \<Rightarrow> DirectX12 \<Rightarrow> stop + DirectX12" where
  "render_eye fe scene eye dx =
     (let dx0 = SetActiveEye (int eye)
                  (SetActiveContext (if eye = 0 then DrawContext_EyeRenderLeft
                                     else DrawContext_EyeRenderRight) dx)
      in and_then (record_cmd (ActiveContext dx0)
                     (Cmd_ResourceBarrier
                        [Barrier_Transition (Res_EyeColor eye)
                           STATE_PIXEL_SHADER_RESOURCE STATE_RENDER_TARGET]) dx0) (\<lambda>dx1.
         and_then (if has_depth fe eye
                   then record_cmd (ActiveContext dx1)
                          (Cmd_ResourceBarrier
                             [Barrier_Transition (Res_EyeDepth eye)
                                STATE_PIXEL_SHADER_RESOURCE STATE_DEPTH_WRITE]) dx1
                   else Inr dx1) (\<lambda>dx2.
         and_then (DoRaytracing scene dx2) (\<lambda>dx3.
         and_then (CopyRaytracingOutputToBackbuffer (Res_EyeColor eye) (Res_EyeDepth eye) dx3) (\<lambda>dx4.
         and_then (record_cmd (ActiveContext dx4)
                     (Cmd_ResourceBarrier
                        [Barrier_Transition (Res_EyeColor eye)
                           STATE_RENDER_TARGET STATE_PIXEL_SHADER_RESOURCE]) dx4) (\<lambda>dx5.
         and_then (if has_depth fe eye
                   then record_cmd (ActiveContext dx5)
                          (Cmd_ResourceBarrier
                             [Barrier_Transition (Res_EyeDepth eye)
                                STATE_DEPTH_WRITE STATE_PIXEL_SHADER_RESOURCE]) dx5
                   else Inr dx5) (\<lambda>dx6.
         SubmitCommandList (eye_close_hr fe eye) (ActiveContext dx6) dx6)))))))"

text \<open>
  The part of the loop body under \<open>if (sessionStatus.IsVisible)\<close>, up to the call of
  \<open>ovr_EndFrame\<close>: the cube is moved when the application has the input focus, the
  instance descriptors are committed, the TLAS rebuild is recorded, and the two eyes are
  rendered.  Camera and pose computations do not touch scene or device.
\<close>

definition render_eyes :: "frame_env \<Rightarrow> Scene \<times> DirectX12 \<Rightarrow> stop + (Scene \<times> DirectX12)" where
  "render_eyes fe st =
     (case st of (scene, dx) \<Rightarrow>
        and_then (if HasInputFocus fe then UpdateInstancePosition 0 (cube_position fe) scene
                  else Inr scene) (\<lambda>scene1.
        and_then (UpdateInstanceDescs scene1) (\<lambda>scene2.
        and_then (UpdateTLAS scene2 dx) (\<lambda>dx1.
        and_then (render_eye fe scene2 0 dx1) (\<lambda>dx2.
        and_then (render_eye fe scene2 1 dx2) (\<lambda>dx3.
        Inr (scene2, dx3)))))))"

text \<open>The part under \<open>if (drawMirror)\<close> (\<open>drawMirror\<close> is always true) and the call
  \<open>DIRECTX.SubmitCommandListAndPresent(drawMirror)\<close> that ends the loop body.\<close>

definition mirror_and_present :: "frame_env \<Rightarrow> Scene \<times> DirectX12 \<Rightarrow> stop + (Scene \<times> DirectX12)" where
  "mirror_and_present fe st =
     (case st of (scene, dx) \<Rightarrow>
        (let dx0 = SetActiveContext DrawContext_Final dx in
         and_then (record_cmds (ActiveContext dx0)
                     [Cmd_RSSetViewports,
                      Cmd_RSSetScissorRects,
                      Cmd_ResourceBarrier
                        [Barrier_Transition (Res_SwapChainBuffer (SwapChainFrameIndex dx0))
                           STATE_RENDER_TARGET STATE_COPY_DEST,
                         Barrier_Transition Res_MirrorTexture STATE_RENDER_TARGET STATE_COPY_SOURCE],
                      Cmd_CopyTextureRegion (Res_SwapChainBuffer (SwapChainFrameIndex dx0))
                        Res_MirrorTexture,
                      Cmd_ResourceBarrier
                        [Barrier_Transition Res_MirrorTexture STATE_COPY_SOURCE STATE_RENDER_TARGET]]
                     dx0) (\<lambda>dx1.
         and_then (SubmitCommandListAndPresent fe True dx1) (\<lambda>dx2.
         Inr (scene, dx2)))))"

text \<open>
  The loop of \<open>MainLoop\<close> over the answers of the outside world, one \<open>frame_env\<close> per
  iteration; \<open>None\<close> when the answers run out while the loop is still going.  The loop
  state is \<open>retryCreate\<close>, \<open>result\<close>, scene and device.  \<open>OVR_SUCCESS\<close> and
  \<open>ovrError_DisplayLost\<close> belong to the VR runtime's headers and are parameters.
  Leaving the loop leads to the label \<open>Done\<close>, whose clean-up does not change the value
  returned, \<open>retryCreate || (result == ovrError_DisplayLost)\<close>.
\<close>

fun main_loop ::
  "(int \<Rightarrow> bool) \<Rightarrow> int \<Rightarrow> frame_env list \<Rightarrow> bool \<times> int \<times> (Scene \<times> DirectX12)
     \<Rightarrow> (stop + bool) option" where
  "main_loop OVR_SUCCESS ovrError_DisplayLost [] s = None"
| "main_loop OVR_SUCCESS ovrError_DisplayLost (fe # rest) (retryCreate, result, st) =
     (if \<not> HandleMessages fe then Some (Inr (retryCreate \<or> result = ovrError_DisplayLost))
      else if ShouldQuit fe then Some (Inr (False \<or> result = ovrError_DisplayLost))
      else if IsVisible fe
      then (case render_eyes fe st of
              Inl e \<Rightarrow> Some (Inl e)
            | Inr st1 \<Rightarrow>
               (let result1 = WaitToBeginFrame_result fe;
                    result2 = BeginFrame_result fe;
                    result3 = GetInputState_result fe;
                    result4 = EndFrame_result fe
                in if \<not> OVR_SUCCESS result4
                   then Some (Inr (retryCreate \<or> result4 = ovrError_DisplayLost))
                   else (case mirror_and_present fe st1 of
                           Inl e \<Rightarrow> Some (Inl e)
                         | Inr st2 \<Rightarrow>
                            main_loop OVR_SUCCESS ovrError_DisplayLost rest
                              (retryCreate, result4, st2))))
      else (case mirror_and_present fe st of
              Inl e \<Rightarrow> Some (Inl e)
            | Inr st2 \<Rightarrow>
               main_loop OVR_SUCCESS ovrError_DisplayLost rest (retryCreate, result, st2)))"

text \<open>
  What happens before the loop: \<open>ovr_Create\<close>, \<open>DIRECTX.InitDevice\<close> (which returns a
  flag or stops the process), the creation of the two eye textures (\<open>Init\<close> and a
  non-null \<open>TextureChain\<close>), the mirror texture, and the construction of textures, scene
  and camera with the first \<open>InitFrame\<close>, which yields scene and device or stops the
  process.
\<close>

record setup_env =
  ovr_Create_result :: int
  InitDevice_result :: "stop + bool"
  eye_Init :: "nat \<Rightarrow> bool"
  eye_TextureChain :: "nat \<Rightarrow> bool"
  CreateMirrorTexture_result :: int
  scene_and_device :: "stop + (Scene \<times> DirectX12)"

text \<open>The body of the loop that creates the eye textures, for one eye: \<open>None\<close> to go on,
  otherwise how \<open>MainLoop\<close> ends.\<close>

definition create_eye_texture ::
  "int \<Rightarrow> setup_env \<Rightarrow> bool \<Rightarrow> int \<Rightarrow> nat \<Rightarrow> (stop + bool) option" where
  "create_eye_texture ovrError_DisplayLost setup retryCreate result eye =
     (if \<not> eye_Init setup eye
      then (if retryCreate then Some (Inr (retryCreate \<or> result = ovrError_DisplayLost))
            else Some (Inl (Exit_FATALERROR ''Failed to create eye texture.'')))
      else if \<not> eye_TextureChain setup eye
      then (if retryCreate then Some (Inr (retryCreate \<or> result = ovrError_DisplayLost))
            else Some (Inl (Exit_FATALERROR ''Failed to create texture.'')))
      else None)"

definition MainLoop ::
  "(int \<Rightarrow> bool) \<Rightarrow> int \<Rightarrow> setup_env \<Rightarrow> frame_env list \<Rightarrow> bool \<Rightarrow> (stop + bool) option" where
  "MainLoop OVR_SUCCESS ovrError_DisplayLost setup frames retryCreate =
     (let result = ovr_Create_result setup in
      if \<not> OVR_SUCCESS result then Some (Inr retryCreate)
      else
        (case InitDevice_result setup of
           Inl e \<Rightarrow> Some (Inl e)
         | Inr False \<Rightarrow> Some (Inr (retryCreate \<or> result = ovrError_DisplayLost))
         | Inr True \<Rightarrow>
            (case create_eye_texture ovrError_DisplayLost setup retryCreate result 0 of
               Some r \<Rightarrow> Some r
             | None \<Rightarrow>
                (case create_eye_texture ovrError_DisplayLost setup retryCreate result 1 of
                   Some r \<Rightarrow> Some r
                 | None \<Rightarrow>
                    (let result' = CreateMirrorTexture_result setup in
                     if \<not> OVR_SUCCESS result'
                     then (if retryCreate
                           then Some (Inr (retryCreate \<or> result' = ovrError_DisplayLost))
                           else Some (Inl (Exit_FATALERROR ''Failed to create mirror texture.'')))
                     else
                       (case scene_and_device setup of
                          Inl e \<Rightarrow> Some (Inl e)
                        | Inr st \<Rightarrow>
                           main_loop OVR_SUCCESS ovrError_DisplayLost frames
                             (retryCreate, result', st)))))))"

text \<open>One whole iteration of the loop for a visible frame whose \<open>ovr_EndFrame\<close>
  succeeds.\<close>

definition visible_iteration :: "frame_env \<Rightarrow> Scene \<times> DirectX12 \<Rightarrow> stop + (Scene \<times> DirectX12)" where
  "visible_iteration fe st = and_then (render_eyes fe st) (\<lambda>st1. mirror_and_present fe st1)"

text \<open>
  A sample device state for the examples: slot 0 is current and its three command lists
  hold what a reset by \<open>InitFrame\<close> puts there (\<open>SetDescriptorHeaps\<close>, on the final
  list also the transition of the swap-chain buffer); the trace is empty, so events are
  counted from this state on.  It is not the state in which \<open>MainLoop\<close> enters its loop:
  that one depends on the whole set-up (the texture copies recorded on the left-eye list,
  the fence signals of the set-up) and is an input, \<open>scene_and_device\<close>.  The theorems
  about the loop are stated for every state.  And the answers of a frame in which
  everything succeeds.
\<close>

definition dx_lists_reset :: DirectX12 where
  "dx_lists_reset =
     \<lparr> SwapChainFrameIndex = 0, ActiveContext = DrawContext_Count, ActiveEyeIndex = - 1,
       CommandLists = (\<lambda>k. [])
         ((0, DrawContext_EyeRenderLeft) := [Cmd_SetDescriptorHeaps],
          (0, DrawContext_EyeRenderRight) := [Cmd_SetDescriptorHeaps],
          (0, DrawContext_Final) :=
            [Cmd_SetDescriptorHeaps,
             Cmd_ResourceBarrier
               [Barrier_Transition (Res_SwapChainBuffer 0) STATE_PRESENT STATE_RENDER_TARGET]]),
       CommandListSubmitted = (\<lambda>k. fst k \<noteq> 0),
       PresentFenceValue = (\<lambda>f. 0), PresentFenceWaitValue = (\<lambda>f. - 1), Trace = [] \<rparr>"

definition good_frame :: frame_env where
  "good_frame =
     \<lparr> HandleMessages = True, ShouldQuit = False, ShouldRecenter = False, IsVisible = True,
       HasInputFocus = True, cube_position = (f_half, f_one, f_half), has_depth = (\<lambda>eye. True),
       WaitToBeginFrame_result = 0, BeginFrame_result = 0, GetInputState_result = 0,
       EndFrame_result = 0, eye_close_hr = (\<lambda>eye. S_OK), final_close_hr = S_OK,
       present_hr = S_OK, fence_signal_hr = S_OK, backbuffer_index = 1,
       allocator_reset_hr = (\<lambda>c. S_OK), list_reset_hr = (\<lambda>c. S_OK) \<rparr>"

text \<open>
  For stating what \<open>MainLoop\<close> returns: a set-up in which every step before the loop
  succeeds; a set-up that gets past \<open>ovr_Create\<close> and then fails at the device, an eye
  texture or the mirror texture; an iteration after which the loop goes on (window
  running, no quit request, and a successful \<open>ovr_EndFrame\<close> if the frame is visible).
\<close>

definition setup_succeeds :: "(int \<Rightarrow> bool) \<Rightarrow> setup_env \<Rightarrow> bool" where
  "setup_succeeds OVR_SUCCESS setup \<longleftrightarrow>
     OVR_SUCCESS (ovr_Create_result setup) \<and> InitDevice_result setup = Inr True \<and>
     eye_Init setup 0 \<and> eye_TextureChain setup 0 \<and> eye_Init setup 1 \<and> eye_TextureChain setup 1 \<and>
     OVR_SUCCESS (CreateMirrorTexture_result setup)"

definition setup_fails :: "(int \<Rightarrow> bool) \<Rightarrow> setup_env \<Rightarrow> bool" where
  "setup_fails OVR_SUCCESS setup \<longleftrightarrow>
     OVR_SUCCESS (ovr_Create_result setup) \<and>
     (InitDevice_result setup = Inr False \<or>
      InitDevice_result setup = Inr True \<and>
        (\<not> eye_Init setup 0 \<or> \<not> eye_TextureChain setup 0 \<or>
         \<not> eye_Init setup 1 \<or> \<not> eye_TextureChain setup 1 \<or>
         \<not> OVR_SUCCESS (CreateMirrorTexture_result setup)))"

definition frame_continues :: "(int \<Rightarrow> bool) \<Rightarrow> frame_env \<Rightarrow> bool" where
  "frame_continues OVR_SUCCESS fe \<longleftrightarrow>
     HandleMessages fe \<and> \<not> ShouldQuit fe \<and> (IsVisible fe \<longrightarrow> OVR_SUCCESS (EndFrame_result fe))"

text \<open>Sample answers: LibOVR's \<open>OVR_SUCCESS(r)\<close> is \<open>r >= 0\<close> and
  \<open>ovrError_DisplayLost\<close> is \<open>-6002\<close>; a set-up that succeeds, one whose second eye
  texture cannot be created, one whose \<open>ovr_Create\<close> fails; a frame whose \<open>ovr_EndFrame\<close>
  reports the lost display, and an iteration with a quit request.\<close>

definition good_setup :: setup_env where
  "good_setup =
     \<lparr> ovr_Create_result = 0, InitDevice_result = Inr True, eye_Init = (\<lambda>eye. True),
       eye_TextureChain = (\<lambda>eye. True), CreateMirrorTexture_result = 0,
       scene_and_device = Inr (sample_scene, dx_lists_reset) \<rparr>"

definition no_second_eye_setup :: setup_env where
  "no_second_eye_setup = good_setup\<lparr>eye_Init := (\<lambda>eye. eye = 0)\<rparr>"

definition no_session_setup :: setup_env where
  "no_session_setup = good_setup\<lparr>ovr_Create_result := - 3003\<rparr>"

definition display_lost_frame :: frame_env where
  "display_lost_frame = good_frame\<lparr>EndFrame_result := - 6002, backbuffer_index := 2\<rparr>"

definition quit_frame :: frame_env where
  "quit_frame = good_frame\<lparr>ShouldQuit := True\<rparr>"

text \<open>A frame whose \<open>ovr_EndFrame\<close> fails with an error that is not
  \<open>ovrError_DisplayLost\<close>, and an iteration that finds the window closed.\<close>

definition other_error_frame :: frame_env where
  "other_error_frame = good_frame\<lparr>EndFrame_result := - 1006\<rparr>"

definition window_closed_frame :: frame_env where
  "window_closed_frame = good_frame\<lparr>HandleMessages := False\<rparr>"

section \<open>Theorems\<close>

subsection \<open>Descriptor handles\<close>

text \<open>
  C3.  Freeing a handle \<open>h\<close> and allocating next returns \<open>h\<close> and restores the
  provider (LIFO reuse).  An allocation takes the most recently freed handle when the
  free list is not empty and leaves watermark and count alone; with an empty free list
  and a count below the capacity it returns the watermark and advances watermark and
  count; with an empty free list and the count at (or beyond) the capacity it stops the
  process through \<open>VALIDATE\<close> and returns no handle.
\<close>

theorem AllocCpuHandle_contract:
  "AllocCpuHandle Offset w (FreeCpuHandle h p) = Inr (h, None, p) \<and>
   (FreeHandles p \<noteq> [] \<longrightarrow>
      AllocCpuHandle Offset w p =
        Inr (last (FreeHandles p), None, p\<lparr>FreeHandles := butlast (FreeHandles p)\<rparr>)) \<and>
   (FreeHandles p = [] \<and> CurrentHandleCount p < MaxHandleCount p \<longrightarrow>
      AllocCpuHandle Offset w p =
        Inr (NextAvailableCpuHandle p,
             (if w then Some (CurrentHandleCount p) else None),
             p\<lparr>NextAvailableCpuHandle := Offset (NextAvailableCpuHandle p) (IncrementSize p),
               CurrentHandleCount := CurrentHandleCount p + 1\<rparr>)) \<and>
   (FreeHandles p = [] \<and> MaxHandleCount p \<le> CurrentHandleCount p \<longrightarrow>
      AllocCpuHandle Offset w p =
        Inl (Exit_VALIDATE ''Hit maximum number of handles available''))"
  by (simp add: AllocCpuHandle_def FreeCpuHandle_def not_less)

text \<open>The contract at three providers over a heap of two slots starting at address 4096
  with increment 32: one with the free list \<open>[4096, 4128]\<close>, one with an empty free list
  and one slot left, one with an empty free list and no slot left.\<close>

theorem AllocCpuHandle_contract_witness:
  "FreeHandles \<lparr>DescHeap = 1, NextAvailableCpuHandle = 4160, IncrementSize = 32,
       CurrentHandleCount = 2, MaxHandleCount = 2, FreeHandles = [4096, 4128]\<rparr> \<noteq> [] \<and>
   AllocCpuHandle (\<lambda>h i. h + ucast i) True
     \<lparr>DescHeap = 1, NextAvailableCpuHandle = 4160, IncrementSize = 32,
       CurrentHandleCount = 2, MaxHandleCount = 2, FreeHandles = [4096, 4128]\<rparr>
     = Inr (4128, None,
         \<lparr>DescHeap = 1, NextAvailableCpuHandle = 4160, IncrementSize = 32,
           CurrentHandleCount = 2, MaxHandleCount = 2, FreeHandles = [4096]\<rparr>) \<and>
   CurrentHandleCount \<lparr>DescHeap = 1, NextAvailableCpuHandle = 4128, IncrementSize = 32,
       CurrentHandleCount = 1, MaxHandleCount = 2, FreeHandles = []\<rparr>
     < MaxHandleCount \<lparr>DescHeap = 1, NextAvailableCpuHandle = 4128, IncrementSize = 32,
       CurrentHandleCount = 1, MaxHandleCount = 2, FreeHandles = []\<rparr> \<and>
   AllocCpuHandle (\<lambda>h i. h + ucast i) True
     \<lparr>DescHeap = 1, NextAvailableCpuHandle = 4128, IncrementSize = 32,
       CurrentHandleCount = 1, MaxHandleCount = 2, FreeHandles = []\<rparr>
     = Inr (4128, Some 1,
         \<lparr>DescHeap = 1, NextAvailableCpuHandle = 4160, IncrementSize = 32,
           CurrentHandleCount = 2, MaxHandleCount = 2, FreeHandles = []\<rparr>) \<and>
   MaxHandleCount \<lparr>DescHeap = 1, NextAvailableCpuHandle = 4160, IncrementSize = 32,
       CurrentHandleCount = 2, MaxHandleCount = 2, FreeHandles = []\<rparr>
     \<le> CurrentHandleCount \<lparr>DescHeap = 1, NextAvailableCpuHandle = 4160, IncrementSize = 32,
       CurrentHandleCount = 2, MaxHandleCount = 2, FreeHandles = []\<rparr> \<and>
   AllocCpuHandle (\<lambda>h i. h + ucast i) True
     \<lparr>DescHeap = 1, NextAvailableCpuHandle = 4160, IncrementSize = 32,
       CurrentHandleCount = 2, MaxHandleCount = 2, FreeHandles = []\<rparr>
     = Inl (Exit_VALIDATE ''Hit maximum number of handles available'')"
  using
    AllocCpuHandle_contract [of "\<lambda>h i. h + ucast i" True 0
      "\<lparr>DescHeap = 1, NextAvailableCpuHandle = 4160, IncrementSize = 32,
        CurrentHandleCount = 2, MaxHandleCount = 2, FreeHandles = [4096, 4128]\<rparr>"]
    AllocCpuHandle_contract [of "\<lambda>h i. h + ucast i" True 0
      "\<lparr>DescHeap = 1, NextAvailableCpuHandle = 4128, IncrementSize = 32,
        CurrentHandleCount = 1, MaxHandleCount = 2, FreeHandles = []\<rparr>"]
    AllocCpuHandle_contract [of "\<lambda>h i. h + ucast i" True 0
      "\<lparr>DescHeap = 1, NextAvailableCpuHandle = 4160, IncrementSize = 32,
        CurrentHandleCount = 2, MaxHandleCount = 2, FreeHandles = []\<rparr>"]
  by simp

text \<open>
  C9.  \<open>FreeCpuHandle\<close> is a bare \<open>push_back\<close>: it accepts every handle value,
  whatever the provider holds.  After the same handle is freed twice, the next two
  allocations both return it.  An allocation served from the free list succeeds even
  when the count has reached the capacity, and for a handle the heap never handed out.
\<close>

theorem FreeCpuHandle_unchecked:
  "FreeCpuHandle h p = p\<lparr>FreeHandles := FreeHandles p @ [h]\<rparr> \<and>
   AllocCpuHandle Offset w (FreeCpuHandle h (FreeCpuHandle h p))
     = Inr (h, None, FreeCpuHandle h p) \<and>
   AllocCpuHandle Offset w' (FreeCpuHandle h p) = Inr (h, None, p) \<and>
   AllocCpuHandle Offset w
       (FreeCpuHandle h (p\<lparr>CurrentHandleCount := MaxHandleCount p\<rparr>))
     = Inr (h, None, p\<lparr>CurrentHandleCount := MaxHandleCount p\<rparr>)"
  by (simp add: AllocCpuHandle_def FreeCpuHandle_def butlast_append)

subsection \<open>The global store\<close>

lemma unat_of_nat32: "n < 2 ^ 32 \<Longrightarrow> unat (of_nat n :: 32 word) = n"
  by (simp add: unat_of_nat)

lemma ucast_of_nat_64_32: "(ucast (of_nat n :: 64 word) :: 32 word) = of_nat n"
  by (simp add: word_unat_eq_iff unsigned_ucast_eq unsigned_of_nat take_bit_eq_mod mod_mod_cancel)

lemma ucast_diff_64_32: "(ucast ((x :: 64 word) - ucast (y :: 32 word)) :: 32 word) = ucast x - y"
proof -
  have "uint (ucast (x - ucast y) :: 32 word) = ((uint x - uint y) mod 2^64) mod 2^32"
    by (simp add: unsigned_ucast_eq take_bit_eq_mod uint_word_ariths mod_diff_right_eq)
  also have "\<dots> = (uint x - uint y) mod 2^32"
    by (simp add: mod_mod_cancel)
  also have "\<dots> = (uint x mod 2^32 - uint y) mod 2^32"
    by (simp add: mod_diff_left_eq)
  also have "\<dots> = uint ((ucast x :: 32 word) - y)"
    by (simp add: unsigned_ucast_eq take_bit_eq_mod uint_word_ariths)
  finally show ?thesis by (simp add: word_uint_eq_iff)
qed

lemma size_first: "(ucast (vec_size xs) :: UINT) = of_nat (length xs)"
  by (simp add: vec_size_def ucast_of_nat_64_32)

lemma size_second:
  "(ucast (vec_size (xs @ ys) - ucast (of_nat (length xs) :: UINT)) :: UINT) = of_nat (length ys)"
  by (simp only: ucast_diff_64_32 size_first) simp

lemma push_back_loop_eq:
  "length src \<le> INT_MAX \<Longrightarrow> i \<le> length src \<Longrightarrow> push_back_loop i src dst = Inr (dst @ drop i src)"
proof (induction i src dst rule: push_back_loop.induct)
  case (1 i src dst)
  show ?case
  proof (cases "i < length src")
    case True
    then have ne: "i \<noteq> INT_MAX" using 1(2) by simp
    have "push_back_loop (i + 1) src (dst @ [src ! i]) = Inr ((dst @ [src ! i]) @ drop (i + 1) src)"
      using 1(1)[OF True ne] 1(2) True by simp
    then show ?thesis using True ne
      by (subst push_back_loop.simps) (simp add: Cons_nth_drop_Suc)
  next
    case False
    then show ?thesis using 1(3) by (subst push_back_loop.simps) simp
  qed
qed

lemma push_back_loop_UB:
  "INT_MAX < length src \<Longrightarrow> i \<le> INT_MAX \<Longrightarrow> push_back_loop i src dst = Inl Undefined_behaviour"
proof (induction i src dst rule: push_back_loop.induct)
  case (1 i src dst)
  show ?case
  proof (cases "i = INT_MAX")
    case True
    then show ?thesis using 1(2) by (subst push_back_loop.simps) simp
  next
    case False
    then have lt: "i < length src" using 1(2,3) by simp
    show ?thesis using 1(1)[OF lt False] 1(2,3) lt False
      by (subst push_back_loop.simps) simp
  qed
qed

lemma push_back_loop_0:
  "push_back_loop 0 src dst = (if length src \<le> INT_MAX then Inr (dst @ src) else Inl Undefined_behaviour)"
  by (simp add: push_back_loop_eq push_back_loop_UB)

lemma AddVerticeAndIndicesToGlobal_eq:
  "AddVerticeAndIndicesToGlobal vertices indices vb =
     (if length indices \<le> INT_MAX \<and> length vertices \<le> INT_MAX
      then Inr ((of_nat (length (globalVertices vb)), of_nat (length (globalIndices vb))),
                vb\<lparr> globalIndices := globalIndices vb @ indices,
                    globalVertices := globalVertices vb @ vertices,
                    globalStartIBIndices := globalStartIBIndices vb
                       @ [(of_nat (length (globalIndices vb)), of_nat (length indices))],
                    globalStartVBIndices := globalStartVBIndices vb
                       @ [(of_nat (length (globalVertices vb)), of_nat (length vertices))],
                    numVertexBuffers := numVertexBuffers vb + 1 \<rparr>)
      else Inl Undefined_behaviour)"
  by (simp add: AddVerticeAndIndicesToGlobal_def push_back_loop_0 size_first size_second Let_def)

lemma length_box [simp]: "length box_indices = 36" "length box_vertices = 24"
  by (simp_all add: box_indices_def box_vertices_def)

lemma append_call_eq:
  "append_call c vb =
     (if length (call_indices c) \<le> INT_MAX \<and> length (call_vertices c) \<le> INT_MAX
      then Inr ((of_nat (length (globalVertices vb)), of_nat (length (globalIndices vb))),
                vb\<lparr> globalIndices := globalIndices vb @ call_indices c,
                    globalVertices := globalVertices vb @ call_vertices c,
                    globalStartIBIndices := globalStartIBIndices vb
                       @ [(of_nat (length (globalIndices vb)), of_nat (length (call_indices c)))],
                    globalStartVBIndices := globalStartVBIndices vb
                       @ [(of_nat (length (globalVertices vb)), of_nat (length (call_vertices c)))],
                    numVertexBuffers := numVertexBuffers vb + 1 \<rparr>)
      else Inl Undefined_behaviour)"
proof (cases c)
  case Append_Box
  have "length box_indices \<le> INT_MAX" "length box_vertices \<le> INT_MAX"
    by (simp_all add: INT_MAX_def)
  then show ?thesis
    using Append_Box by (simp add: AddBoxToGlobal_def AddVerticeAndIndicesToGlobal_eq)
next
  case (Append_Mesh vs ixs)
  then show ?thesis by (simp add: AddVerticeAndIndicesToGlobal_eq)
qed

lemma run_appends_Inr:
  "run_appends ops vb = Inr (rets, vb') \<Longrightarrow>
     globalIndices vb' = globalIndices vb @ concat (map call_indices ops) \<and>
     globalVertices vb' = globalVertices vb @ concat (map call_vertices ops) \<and>
     globalStartIBIndices vb' = globalStartIBIndices vb
        @ recorded_ranges (length (globalIndices vb)) (map (length \<circ> call_indices) ops) \<and>
     globalStartVBIndices vb' = globalStartVBIndices vb
        @ recorded_ranges (length (globalVertices vb)) (map (length \<circ> call_vertices) ops) \<and>
     rets = zip (map fst (recorded_ranges (length (globalVertices vb)) (map (length \<circ> call_vertices) ops)))
                (map fst (recorded_ranges (length (globalIndices vb)) (map (length \<circ> call_indices) ops))) \<and>
     numVertexBuffers vb' = numVertexBuffers vb + of_nat (length ops)"
proof (induction ops arbitrary: vb rets)
  case Nil
  then show ?case by simp
next
  case (Cons c cs)
  from Cons.prems obtain r vb1 rs where
    c: "append_call c vb = Inr (r, vb1)" and cs: "run_appends cs vb1 = Inr (rs, vb')"
    and rets: "rets = r # rs"
    by (auto split: sum.splits)
  from c have ok: "length (call_indices c) \<le> INT_MAX \<and> length (call_vertices c) \<le> INT_MAX"
    by (simp add: append_call_eq split: if_splits)
  from c ok have r: "r = (of_nat (length (globalVertices vb)), of_nat (length (globalIndices vb)))"
    and vb1: "vb1 = vb\<lparr> globalIndices := globalIndices vb @ call_indices c,
                    globalVertices := globalVertices vb @ call_vertices c,
                    globalStartIBIndices := globalStartIBIndices vb
                       @ [(of_nat (length (globalIndices vb)), of_nat (length (call_indices c)))],
                    globalStartVBIndices := globalStartVBIndices vb
                       @ [(of_nat (length (globalVertices vb)), of_nat (length (call_vertices c)))],
                    numVertexBuffers := numVertexBuffers vb + 1 \<rparr>"
    by (simp_all add: append_call_eq)
  from Cons.IH[OF cs] show ?case
    by (simp add: rets r vb1)
qed


lemma length_recorded_ranges [simp]: "length (recorded_ranges off ns) = length ns"
  by (induction ns arbitrary: off) simp_all

lemma recorded_ranges_nth:
  "k < length ns \<Longrightarrow>
     recorded_ranges off ns ! k = (of_nat (off + sum_list (take k ns)), of_nat (ns ! k))"
proof (induction ns arbitrary: off k)
  case Nil
  then show ?case by simp
next
  case (Cons n ns)
  then show ?case by (cases k) (simp_all add: add.assoc)
qed

lemma sum_list_take_drop: "sum_list (take k ns) + sum_list (drop k ns) = sum_list (ns :: nat list)"
  by (metis append_take_drop_id sum_list_append)

lemma sum_list_take_le: "sum_list (take k ns) \<le> sum_list (ns :: nat list)"
  using sum_list_take_drop [of k ns] by linarith

lemma sum_list_take_Suc:
  "k < length ns \<Longrightarrow> sum_list (take (Suc k) ns) = sum_list (take k ns) + (ns ! k :: nat)"
  by (simp add: take_Suc_conv_app_nth)

lemma sum_list_take_mono:
  "j \<le> k \<Longrightarrow> sum_list (take j ns) \<le> sum_list (take k (ns :: nat list))"
proof -
  assume "j \<le> k"
  then have "take j ns = take j (take k ns)" by (simp add: min_def)
  then show ?thesis using sum_list_take_le [of j "take k ns"] by simp
qed

lemma nth_le_sum_list: "k < length ns \<Longrightarrow> ns ! k \<le> sum_list (ns :: nat list)"
  using sum_list_take_Suc [of k ns] sum_list_take_le [of "Suc k" ns] by linarith

text \<open>What the recorded ranges say when read as numbers, as long as nothing was truncated.\<close>

lemma recorded_ranges_unat:
  assumes "off + sum_list ns < 2 ^ 32" and "k < length ns"
  shows "unat (fst (recorded_ranges off ns ! k)) = off + sum_list (take k ns)"
    and "unat (snd (recorded_ranges off ns ! k)) = ns ! k"
proof -
  have "off + sum_list (take k ns) < 2 ^ 32"
    using assms(1) sum_list_take_le [of k ns] by linarith
  then show "unat (fst (recorded_ranges off ns ! k)) = off + sum_list (take k ns)"
    using assms(2) by (simp add: recorded_ranges_nth unat_of_nat32 del: of_nat_add)
  have "ns ! k < 2 ^ 32"
    using assms nth_le_sum_list [of k ns] by linarith
  then show "unat (snd (recorded_ranges off ns ! k)) = ns ! k"
    using assms(2) by (simp add: recorded_ranges_nth unat_of_nat32)
qed

lemma recorded_ranges_counts:
  "off + sum_list ns < 2 ^ 32 \<Longrightarrow>
     sum_list (map (unat \<circ> snd) (recorded_ranges off ns)) = sum_list ns"
proof (induction ns arbitrary: off)
  case Nil
  then show ?case by simp
next
  case (Cons n ns)
  then have "n < 2 ^ 32" "(off + n) + sum_list ns < 2 ^ 32" by simp_all
  then show ?case using Cons.IH [of "off + n"] by (simp add: unat_of_nat32 del: of_nat_add)
qed

text \<open>The claim's properties for one list of ranges.\<close>

lemma recorded_ranges_contiguous:
  assumes "sum_list ns < 2 ^ 32"
  shows "(recorded_ranges 0 ns \<noteq> [] \<longrightarrow> fst (recorded_ranges 0 ns ! 0) = 0) \<and>
         (\<forall>k. Suc k < length ns \<longrightarrow>
            unat (fst (recorded_ranges 0 ns ! Suc k)) =
              unat (fst (recorded_ranges 0 ns ! k)) + unat (snd (recorded_ranges 0 ns ! k))) \<and>
         (\<forall>j k. j < k \<and> k < length ns \<longrightarrow>
            unat (fst (recorded_ranges 0 ns ! j)) + unat (snd (recorded_ranges 0 ns ! j))
              \<le> unat (fst (recorded_ranges 0 ns ! k))) \<and>
         sum_list (map (unat \<circ> snd) (recorded_ranges 0 ns)) = sum_list ns"
proof (intro conjI allI impI)
  assume "recorded_ranges 0 ns \<noteq> []"
  then have "0 < length ns" by (cases ns) simp_all
  then show "fst (recorded_ranges 0 ns ! 0) = 0" by (simp add: recorded_ranges_nth)
next
  fix k assume k: "Suc k < length ns"
  have b: "0 + sum_list ns < 2 ^ 32" using assms by simp
  from k have k': "k < length ns" by simp
  show "unat (fst (recorded_ranges 0 ns ! Suc k)) =
          unat (fst (recorded_ranges 0 ns ! k)) + unat (snd (recorded_ranges 0 ns ! k))"
    using recorded_ranges_unat [OF b k] recorded_ranges_unat [OF b k'] sum_list_take_Suc [OF k']
    by simp
next
  fix j k assume jk: "j < k \<and> k < length ns"
  have b: "0 + sum_list ns < 2 ^ 32" using assms by simp
  from jk have j: "j < length ns" and k: "k < length ns" and sj: "Suc j \<le> k" by simp_all
  show "unat (fst (recorded_ranges 0 ns ! j)) + unat (snd (recorded_ranges 0 ns ! j))
          \<le> unat (fst (recorded_ranges 0 ns ! k))"
    using recorded_ranges_unat [OF b j] recorded_ranges_unat [OF b k]
      sum_list_take_Suc [OF j] sum_list_take_mono [OF sj, of ns]
    by simp
next
  show "sum_list (map (unat \<circ> snd) (recorded_ranges 0 ns)) = sum_list ns"
    using assms recorded_ranges_counts [of 0 ns] by simp
qed

lemma run_appends_append:
  "run_appends (a @ b) vb =
     (case run_appends a vb of
        Inl e \<Rightarrow> Inl e
      | Inr (ra, vb1) \<Rightarrow>
         (case run_appends b vb1 of
            Inl e \<Rightarrow> Inl e
          | Inr (rb, vb2) \<Rightarrow> Inr (ra @ rb, vb2)))"
  by (induction a arbitrary: vb) (auto split: sum.splits)

lemma run_appends_total:
  "list_all (\<lambda>c. length (call_indices c) \<le> INT_MAX \<and> length (call_vertices c) \<le> INT_MAX) ops
     \<Longrightarrow> \<exists>rets vb'. run_appends ops vb = Inr (rets, vb')"
proof (induction ops arbitrary: vb)
  case Nil
  then show ?case by simp
next
  case (Cons c cs)
  then obtain r vb1 where c: "append_call c vb = Inr (r, vb1)"
    by (simp add: append_call_eq)
  from Cons obtain rs vb2 where "run_appends cs vb1 = Inr (rs, vb2)"
    by fastforce
  with c show ?case by simp
qed

lemma sum_list_length_concat: "sum_list (map (length \<circ> f) xs) = length (concat (map f xs))"
  by (induction xs) simp_all


lemma run_appends_empty:
  assumes "run_appends ops VertexBuffer_empty = Inr (rets, vb)"
  shows "globalIndices vb = concat (map call_indices ops)"
    and "globalVertices vb = concat (map call_vertices ops)"
    and "globalStartIBIndices vb = recorded_ranges 0 (map (length \<circ> call_indices) ops)"
    and "globalStartVBIndices vb = recorded_ranges 0 (map (length \<circ> call_vertices) ops)"
    and "rets = zip (map fst (recorded_ranges 0 (map (length \<circ> call_vertices) ops)))
                    (map fst (recorded_ranges 0 (map (length \<circ> call_indices) ops)))"
  using run_appends_Inr [OF assms] by (simp_all add: VertexBuffer_empty_def)

lemma run_appends_prefix:
  assumes "run_appends (ops @ ops') vb0 = Inr (rets', vb')"
  shows "\<exists>rets vb rs. run_appends ops vb0 = Inr (rets, vb) \<and> run_appends ops' vb = Inr (rs, vb') \<and>
           rets' = rets @ rs"
  using assms by (auto simp: run_appends_append split: sum.splits)

text \<open>
  C2, as amended.  A sequence of append calls on the empty store returns whenever no
  call passes more than \<open>INT_MAX\<close> indices or vertices.  When it returns: one range is
  recorded per call, for indices and for vertices, and each call returned the two
  offsets recorded for it; as long as the final index array holds fewer than \<open>2^32\<close>
  elements, the index ranges are contiguous (the first at 0, each where the previous one
  ends), pairwise disjoint, and their counts add up to the size of the index array; the
  same for the vertex ranges and the vertex array; and appending more meshes changes
  neither the ranges recorded so far, nor the offsets returned so far, nor the elements
  stored so far.
\<close>

theorem global_store_ranges:
  "(list_all (\<lambda>c. length (call_indices c) \<le> INT_MAX \<and> length (call_vertices c) \<le> INT_MAX) ops
      \<longrightarrow> (\<exists>rets vb. run_appends ops VertexBuffer_empty = Inr (rets, vb))) \<and>
   (\<forall>rets vb. run_appends ops VertexBuffer_empty = Inr (rets, vb) \<longrightarrow>
      length (globalStartIBIndices vb) = length ops \<and>
      length (globalStartVBIndices vb) = length ops \<and>
      length rets = length ops \<and>
      (\<forall>k. k < length ops \<longrightarrow>
         rets ! k = (fst (globalStartVBIndices vb ! k), fst (globalStartIBIndices vb ! k))) \<and>
      (length (globalIndices vb) < 2 ^ 32 \<longrightarrow>
         (globalStartIBIndices vb \<noteq> [] \<longrightarrow> fst (globalStartIBIndices vb ! 0) = 0) \<and>
         (\<forall>k. Suc k < length ops \<longrightarrow>
            unat (fst (globalStartIBIndices vb ! Suc k)) =
              unat (fst (globalStartIBIndices vb ! k)) + unat (snd (globalStartIBIndices vb ! k))) \<and>
         (\<forall>j k. j < k \<and> k < length ops \<longrightarrow>
            unat (fst (globalStartIBIndices vb ! j)) + unat (snd (globalStartIBIndices vb ! j))
              \<le> unat (fst (globalStartIBIndices vb ! k))) \<and>
         sum_list (map (unat \<circ> snd) (globalStartIBIndices vb)) = length (globalIndices vb)) \<and>
      (length (globalVertices vb) < 2 ^ 32 \<longrightarrow>
         (globalStartVBIndices vb \<noteq> [] \<longrightarrow> fst (globalStartVBIndices vb ! 0) = 0) \<and>
         (\<forall>k. Suc k < length ops \<longrightarrow>
            unat (fst (globalStartVBIndices vb ! Suc k)) =
              unat (fst (globalStartVBIndices vb ! k)) + unat (snd (globalStartVBIndices vb ! k))) \<and>
         (\<forall>j k. j < k \<and> k < length ops \<longrightarrow>
            unat (fst (globalStartVBIndices vb ! j)) + unat (snd (globalStartVBIndices vb ! j))
              \<le> unat (fst (globalStartVBIndices vb ! k))) \<and>
         sum_list (map (unat \<circ> snd) (globalStartVBIndices vb)) = length (globalVertices vb)) \<and>
      (\<forall>ops' rets' vb'. run_appends (ops @ ops') VertexBuffer_empty = Inr (rets', vb') \<longrightarrow>
         take (length ops) rets' = rets \<and>
         take (length ops) (globalStartIBIndices vb') = globalStartIBIndices vb \<and>
         take (length ops) (globalStartVBIndices vb') = globalStartVBIndices vb \<and>
         take (length (globalIndices vb)) (globalIndices vb') = globalIndices vb \<and>
         take (length (globalVertices vb)) (globalVertices vb') = globalVertices vb))"
proof (intro conjI allI impI)
  assume "list_all (\<lambda>c. length (call_indices c) \<le> INT_MAX \<and> length (call_vertices c) \<le> INT_MAX) ops"
  then show "\<exists>rets vb. run_appends ops VertexBuffer_empty = Inr (rets, vb)"
    by (rule run_appends_total)
next
  fix rets vb assume run: "run_appends ops VertexBuffer_empty = Inr (rets, vb)"
  note E = run_appends_empty [OF run]
  show "length (globalStartIBIndices vb) = length ops" by (simp add: E(3))
  show "length (globalStartVBIndices vb) = length ops" by (simp add: E(4))
  show "length rets = length ops" by (simp add: E(5))
  { fix k assume "k < length ops"
    then show "rets ! k = (fst (globalStartVBIndices vb ! k), fst (globalStartIBIndices vb ! k))"
      by (simp add: E(3,4,5)) }
  { assume b: "length (globalIndices vb) < 2 ^ 32"
    have s: "sum_list (map (length \<circ> call_indices) ops) < 2 ^ 32"
      using b by (simp add: E(1) sum_list_length_concat)
    note C = recorded_ranges_contiguous [OF s]
    { assume "globalStartIBIndices vb \<noteq> []"
      then show "fst (globalStartIBIndices vb ! 0) = 0" using C by (simp add: E(3)) }
    { fix k assume "Suc k < length ops"
      then show "unat (fst (globalStartIBIndices vb ! Suc k)) =
              unat (fst (globalStartIBIndices vb ! k)) + unat (snd (globalStartIBIndices vb ! k))"
        using C by (simp add: E(3)) }
    { fix j k assume "j < k \<and> k < length ops"
      then show "unat (fst (globalStartIBIndices vb ! j)) + unat (snd (globalStartIBIndices vb ! j))
              \<le> unat (fst (globalStartIBIndices vb ! k))"
        using C by (simp add: E(3)) }
    show "sum_list (map (unat \<circ> snd) (globalStartIBIndices vb)) = length (globalIndices vb)"
      using C by (simp add: E(1,3) sum_list_length_concat) }
  { assume b: "length (globalVertices vb) < 2 ^ 32"
    have s: "sum_list (map (length \<circ> call_vertices) ops) < 2 ^ 32"
      using b by (simp add: E(2) sum_list_length_concat)
    note C = recorded_ranges_contiguous [OF s]
    { assume "globalStartVBIndices vb \<noteq> []"
      then show "fst (globalStartVBIndices vb ! 0) = 0" using C by (simp add: E(4)) }
    { fix k assume "Suc k < length ops"
      then show "unat (fst (globalStartVBIndices vb ! Suc k)) =
              unat (fst (globalStartVBIndices vb ! k)) + unat (snd (globalStartVBIndices vb ! k))"
        using C by (simp add: E(4)) }
    { fix j k assume "j < k \<and> k < length ops"
      then show "unat (fst (globalStartVBIndices vb ! j)) + unat (snd (globalStartVBIndices vb ! j))
              \<le> unat (fst (globalStartVBIndices vb ! k))"
        using C by (simp add: E(4)) }
    show "sum_list (map (unat \<circ> snd) (globalStartVBIndices vb)) = length (globalVertices vb)"
      using C by (simp add: E(2,4) sum_list_length_concat) }
  { fix ops' rets' vb'
    assume "run_appends (ops @ ops') VertexBuffer_empty = Inr (rets', vb')"
    from run_appends_prefix [OF this] run obtain rs where
      run': "run_appends ops' vb = Inr (rs, vb')" and rets': "rets' = rets @ rs"
      by auto
    note P = run_appends_Inr [OF run']
    have lr: "length rets = length ops" by (simp add: E(5))
    have li: "length (globalStartIBIndices vb) = length ops" by (simp add: E(3))
    have lv: "length (globalStartVBIndices vb) = length ops" by (simp add: E(4))
    show "take (length ops) rets' = rets" using lr by (simp add: rets')
    show "take (length ops) (globalStartIBIndices vb') = globalStartIBIndices vb"
      using P li by simp
    show "take (length ops) (globalStartVBIndices vb') = globalStartVBIndices vb"
      using P lv by simp
    show "take (length (globalIndices vb)) (globalIndices vb') = globalIndices vb"
      using P by simp
    show "take (length (globalVertices vb)) (globalVertices vb') = globalVertices vb"
      using P by simp }
qed


lemma length_huge_indices: "length huge_indices = INT_MAX"
  by (simp add: huge_indices_def)

lemma huge_scene_runs:
  "\<exists>rets vb. run_appends huge_scene VertexBuffer_empty = Inr (rets, vb)"
  by (rule run_appends_total) (simp add: huge_scene_def length_huge_indices INT_MAX_def)

lemma huge_scene_ranges:
  "recorded_ranges 0 (map (length \<circ> call_indices) huge_scene) =
     [(0, 2147483647), (2147483647, 2147483647), (4294967294, 2147483647), (2147483645, 36)]"
  by (simp add: huge_scene_def length_huge_indices INT_MAX_def)

text \<open>
  C2 as stated (every sequence) fails once the index array outgrows 32 bits.  After three
  meshes of \<open>INT_MAX\<close> indices each, the store holds \<open>6442450941\<close> indices; the box
  appended next is recorded at the truncated offset \<open>2147483645\<close>: it does not begin
  where the third mesh ends (\<open>6442450941\<close>), and its range overlaps the first one.
\<close>

theorem global_store_ranges_counterexample:
  "case run_appends huge_scene VertexBuffer_empty of
     Inl e \<Rightarrow> False
   | Inr (rets, vb) \<Rightarrow>
       globalStartIBIndices vb =
         [(0, 2147483647), (2147483647, 2147483647), (4294967294, 2147483647), (2147483645, 36)] \<and>
       unat (fst (globalStartIBIndices vb ! 3)) \<noteq>
         unat (fst (globalStartIBIndices vb ! 2)) + unat (snd (globalStartIBIndices vb ! 2)) \<and>
       unat (fst (globalStartIBIndices vb ! 3)) <
         unat (fst (globalStartIBIndices vb ! 0)) + unat (snd (globalStartIBIndices vb ! 0)) \<and>
       unat (fst (globalStartIBIndices vb ! 0)) <
         unat (fst (globalStartIBIndices vb ! 3)) + unat (snd (globalStartIBIndices vb ! 3))"
proof -
  from huge_scene_runs obtain rets vb where
    run: "run_appends huge_scene VertexBuffer_empty = Inr (rets, vb)" by blast
  have "globalStartIBIndices vb =
         [(0, 2147483647), (2147483647, 2147483647), (4294967294, 2147483647), (2147483645, 36)]"
    using run_appends_empty(3) [OF run] huge_scene_ranges by simp
  then show ?thesis by (simp add: run)
qed

lemma small_scene_runs:
  "\<exists>rets vb. run_appends small_scene VertexBuffer_empty = Inr (rets, vb)"
  by (rule run_appends_total) (simp add: small_scene_def triangle_vertices_def INT_MAX_def)

text \<open>The amended C2 at the small scene (box, triangle, box) and, for the later append,
  one more box.\<close>

theorem global_store_ranges_witness:
  "list_all (\<lambda>c. length (call_indices c) \<le> INT_MAX \<and> length (call_vertices c) \<le> INT_MAX)
     small_scene \<and>
   (case run_appends small_scene VertexBuffer_empty of
      Inl e \<Rightarrow> False
    | Inr (rets, vb) \<Rightarrow>
        length (globalIndices vb) < 2 ^ 32 \<and> length (globalVertices vb) < 2 ^ 32 \<and>
        rets = [(0, 0), (24, 36), (27, 39)] \<and>
        globalStartIBIndices vb = [(0, 36), (36, 3), (39, 36)] \<and>
        globalStartVBIndices vb = [(0, 24), (24, 3), (27, 24)] \<and>
        sum_list (map (unat \<circ> snd) (globalStartIBIndices vb)) = length (globalIndices vb) \<and>
        sum_list (map (unat \<circ> snd) (globalStartVBIndices vb)) = length (globalVertices vb) \<and>
        unat (fst (globalStartIBIndices vb ! 1)) + unat (snd (globalStartIBIndices vb ! 1))
          \<le> unat (fst (globalStartIBIndices vb ! 2)) \<and>
        (case run_appends (small_scene @ [Append_Box]) VertexBuffer_empty of
           Inl e \<Rightarrow> False
         | Inr (rets', vb') \<Rightarrow>
             take 3 rets' = rets \<and>
             take 3 (globalStartIBIndices vb') = globalStartIBIndices vb \<and>
             take (length (globalIndices vb)) (globalIndices vb') = globalIndices vb))"
proof -
  have ok: "list_all (\<lambda>c. length (call_indices c) \<le> INT_MAX \<and> length (call_vertices c) \<le> INT_MAX)
     small_scene"
    by (simp add: small_scene_def triangle_vertices_def INT_MAX_def)
  have ok': "list_all (\<lambda>c. length (call_indices c) \<le> INT_MAX \<and> length (call_vertices c) \<le> INT_MAX)
     (small_scene @ [Append_Box])"
    by (simp add: small_scene_def triangle_vertices_def INT_MAX_def)
  note T = global_store_ranges [of small_scene]
  from T [THEN conjunct1, THEN mp, OF ok] obtain rets vb where
    run: "run_appends small_scene VertexBuffer_empty = Inr (rets, vb)" by blast
  from run_appends_total [OF ok'] obtain rets' vb' where
    run': "run_appends (small_scene @ [Append_Box]) VertexBuffer_empty = Inr (rets', vb')" by blast
  note E = run_appends_empty [OF run]
  have gi: "length (globalIndices vb) = 75" and gv: "length (globalVertices vb) = 51"
    by (simp_all add: E small_scene_def triangle_vertices_def)
  have ib: "globalStartIBIndices vb = [(0, 36), (36, 3), (39, 36)]"
    and vbr: "globalStartVBIndices vb = [(0, 24), (24, 3), (27, 24)]"
    and r: "rets = [(0, 0), (24, 36), (27, 39)]"
    by (simp_all add: E small_scene_def triangle_vertices_def)
  have len: "length small_scene = 3" by (simp add: small_scene_def)
  note T2 = T [THEN conjunct2, THEN spec, THEN spec, THEN mp, OF run]
  note T_ib = T2 [THEN conjunct2, THEN conjunct2, THEN conjunct2, THEN conjunct2, THEN conjunct1]
  note T_vb = T2 [THEN conjunct2, THEN conjunct2, THEN conjunct2, THEN conjunct2, THEN conjunct2,
      THEN conjunct1]
  note T_later = T2 [THEN conjunct2, THEN conjunct2, THEN conjunct2, THEN conjunct2, THEN conjunct2,
      THEN conjunct2, THEN spec, THEN spec, THEN spec, THEN mp, OF run']
  have bi: "length (globalIndices vb) < 2 ^ 32" and bv: "length (globalVertices vb) < 2 ^ 32"
    by (simp_all add: gi gv)
  note A = T_ib [THEN mp, OF bi]
  note B = T_vb [THEN mp, OF bv]
  note C = T_later
  have A1: "sum_list (map (unat \<circ> snd) (globalStartIBIndices vb)) = length (globalIndices vb)"
    using A by (rule_tac conjunct2 [THEN conjunct2, THEN conjunct2])
  have "(1::nat) < 2 \<and> 2 < length small_scene" by (simp add: len)
  then have A2: "unat (fst (globalStartIBIndices vb ! 1)) + unat (snd (globalStartIBIndices vb ! 1))
          \<le> unat (fst (globalStartIBIndices vb ! 2))"
    using A [THEN conjunct2, THEN conjunct2, THEN conjunct1, THEN spec, THEN spec, THEN mp] by blast
  have B1: "sum_list (map (unat \<circ> snd) (globalStartVBIndices vb)) = length (globalVertices vb)"
    using B by (rule_tac conjunct2 [THEN conjunct2, THEN conjunct2])
  have C': "take 3 rets' = rets \<and> take 3 (globalStartIBIndices vb') = globalStartIBIndices vb \<and>
         take (length (globalIndices vb)) (globalIndices vb') = globalIndices vb"
    using C by (simp add: len)
  show ?thesis
    unfolding run run' sum.case prod.case
    using ok A1 A2 B1 C' bi bv ib vbr r by blast
qed


subsection \<open>Mesh-local indices\<close>

lemma unat_size_le: "unat (ucast (vec_size xs) :: UINT) \<le> length xs"
  by (simp add: size_first unat_of_nat)

lemma map_find_SomeD: "map_find m v = Some e \<Longrightarrow> e \<in> set m"
  by (auto simp: map_find_def find_Some_iff)

lemma map_index_values:
  assumes "\<forall>e\<in>set m. unat (snd e) < n" and "0 < n"
  shows "unat (fst (map_index m v)) < n \<and> (\<forall>e\<in>set (snd (map_index m v)). unat (snd e) < n)"
proof (cases "map_find m v")
  case None
  then show ?thesis using assms by (simp add: map_index_def)
next
  case (Some e)
  then have "e \<in> set m" by (rule map_find_SomeD)
  then show ?thesis using assms Some by (simp add: map_index_def)
qed

lemma map_assign_None: "map_find m v = None \<Longrightarrow> map_assign m v n = m @ [(v, n)]"
  by (simp add: map_assign_def)

text \<open>One loop iteration keeps every value of the map and every index pushed so far
  below the number of vertices collected so far, and only appends to \<open>vertices\<close> and
  \<open>indices\<close>.\<close>

lemma obj_add_index_inv:
  assumes m: "\<forall>e\<in>set m. unat (snd e) < length vs" and ix: "\<forall>i\<in>set ixs. unat i < length vs"
    and st: "obj_add_index v (m, vs, ixs) = (m', vs', ixs')"
  shows "(\<forall>e\<in>set m'. unat (snd e) < length vs') \<and> (\<forall>i\<in>set ixs'. unat i < length vs')"
proof (cases "map_find m v = None")
  case True
  let ?m1 = "m @ [(v, ucast (vec_size vs))]"
  have m1: "\<forall>e\<in>set ?m1. unat (snd e) < length (vs @ [v])"
    using m unat_size_le [of vs] by (auto simp: less_Suc_eq_le intro: less_imp_le)
  have "0 < length (vs @ [v])" by simp
  note I = map_index_values [OF m1 this, of v]
  from st True have "m' = snd (map_index ?m1 v)" "vs' = vs @ [v]"
    "ixs' = ixs @ [fst (map_index ?m1 v)]"
    by (simp_all add: obj_add_index_def map_assign_None split: prod.splits)
  then show ?thesis using I ix by (auto simp: less_Suc_eq)
next
  case False
  then obtain e where e: "map_find m v = Some e" by blast
  then have "e \<in> set m" by (rule map_find_SomeD)
  then have "unat (snd e) < length vs" using m by blast
  moreover from st e have "m' = m" "vs' = vs" "ixs' = ixs @ [snd e]"
    by (simp_all add: obj_add_index_def map_index_def split: prod.splits)
  ultimately show ?thesis using m ix by auto
qed

lemma obj_indices_loop_inv:
  assumes "obj_indices_loop attrib is0 (m, vs, ixs) = Inr (m', vs', ixs')"
    and "\<forall>e\<in>set m. unat (snd e) < length vs" and "\<forall>i\<in>set ixs. unat i < length vs"
  shows "(\<forall>e\<in>set m'. unat (snd e) < length vs') \<and> (\<forall>i\<in>set ixs'. unat i < length vs')"
  using assms
proof (induction is0 arbitrary: m vs ixs)
  case Nil
  then show ?case by simp
next
  case (Cons index rest)
  from Cons.prems(1) obtain vertex where
    v: "obj_vertex attrib index = Inr vertex"
    and r: "obj_indices_loop attrib rest (obj_add_index vertex (m, vs, ixs)) = Inr (m', vs', ixs')"
    by (auto simp: and_then_def split: sum.splits)
  obtain m1 vs1 ixs1 where s1: "obj_add_index vertex (m, vs, ixs) = (m1, vs1, ixs1)"
    by (cases "obj_add_index vertex (m, vs, ixs)") auto
  from obj_add_index_inv [OF Cons.prems(2,3) s1] Cons.IH [of m1 vs1 ixs1] r s1
  show ?case by simp
qed

lemma obj_shapes_loop_inv:
  assumes "obj_shapes_loop attrib shapes (m, vs, ixs) = Inr (m', vs', ixs')"
    and "\<forall>e\<in>set m. unat (snd e) < length vs" and "\<forall>i\<in>set ixs. unat i < length vs"
  shows "(\<forall>e\<in>set m'. unat (snd e) < length vs') \<and> (\<forall>i\<in>set ixs'. unat i < length vs')"
  using assms
proof (induction shapes arbitrary: m vs ixs)
  case Nil
  then show ?case by simp
next
  case (Cons shape rest)
  from Cons.prems(1) obtain m1 vs1 ixs1 where
    s: "obj_indices_loop attrib shape (m, vs, ixs) = Inr (m1, vs1, ixs1)"
    and r: "obj_shapes_loop attrib rest (m1, vs1, ixs1) = Inr (m', vs', ixs')"
    by (auto simp: and_then_def split: sum.splits)
  from obj_indices_loop_inv [OF s Cons.prems(2,3)] Cons.IH [OF r]
  show ?case by simp
qed

text \<open>What a returning \<open>AddGlobalObj\<close> appended and recorded.\<close>

lemma AddGlobalObj_Inr:
  assumes "AddGlobalObj reader vb = Inr (r, vb')"
  shows "\<exists>vertices indices.
           globalVertices vb' = globalVertices vb @ vertices \<and>
           globalIndices vb' = globalIndices vb @ indices \<and>
           globalStartVBIndices vb' = globalStartVBIndices vb
             @ [(of_nat (length (globalVertices vb)), of_nat (length vertices))] \<and>
           (\<forall>i\<in>set indices. unat i < length vertices)"
proof -
  from assms obtain attrib shapes m vertices indices where
    loop: "obj_shapes_loop attrib shapes ([], [], []) = Inr (m, vertices, indices)"
    and add: "AddVerticeAndIndicesToGlobal vertices indices vb = Inr (r, vb')"
    by (auto simp: AddGlobalObj_def and_then_def split: obj_reader.splits sum.splits)
  from obj_shapes_loop_inv [OF loop] have "\<forall>i\<in>set indices. unat i < length vertices" by simp
  moreover from add have "globalVertices vb' = globalVertices vb @ vertices"
    "globalIndices vb' = globalIndices vb @ indices"
    "globalStartVBIndices vb' = globalStartVBIndices vb
       @ [(of_nat (length (globalVertices vb)), of_nat (length vertices))]"
    by (auto simp: AddVerticeAndIndicesToGlobal_eq split: if_splits)
  ultimately show ?thesis by blast
qed

text \<open>
  A mesh whose indices are below its number of vertices, once appended: the appended
  indices are below the number of appended vertices; and while the vertex array has
  fewer than \<open>2^32\<close> elements, they are below the count recorded for the mesh, and the
  recorded offset plus such an index is a position that this mesh filled.
\<close>

lemma appended_mesh_local:
  assumes gv: "globalVertices vb' = globalVertices vb @ vertices"
    and gi: "globalIndices vb' = globalIndices vb @ indices"
    and rg: "globalStartVBIndices vb' = globalStartVBIndices vb
               @ [(of_nat (length (globalVertices vb)), of_nat (length vertices))]"
    and loc: "\<forall>i\<in>set indices. unat i < length vertices"
  shows "list_all (\<lambda>i. unat i < length (globalVertices vb') - length (globalVertices vb))
           (drop (length (globalIndices vb)) (globalIndices vb'))"
    and "length (globalVertices vb') < 2 ^ 32 \<Longrightarrow>
         list_all (\<lambda>i. unat i < unat (snd (last (globalStartVBIndices vb'))) \<and>
                       length (globalVertices vb)
                         \<le> unat (fst (last (globalStartVBIndices vb'))) + unat i \<and>
                       unat (fst (last (globalStartVBIndices vb'))) + unat i
                         < length (globalVertices vb'))
           (drop (length (globalIndices vb)) (globalIndices vb'))"
proof -
  show "list_all (\<lambda>i. unat i < length (globalVertices vb') - length (globalVertices vb))
           (drop (length (globalIndices vb)) (globalIndices vb'))"
    using loc by (simp add: gv gi list_all_iff)
  assume small: "length (globalVertices vb') < 2 ^ 32"
  then have a: "length (globalVertices vb) < 2 ^ 32" and b: "length vertices < 2 ^ 32"
    by (simp_all add: gv)
  have off: "unat (fst (last (globalStartVBIndices vb'))) = length (globalVertices vb)"
    using a by (simp add: rg unat_of_nat32)
  have cnt: "unat (snd (last (globalStartVBIndices vb'))) = length vertices"
    using b by (simp add: rg unat_of_nat32)
  show "list_all (\<lambda>i. unat i < unat (snd (last (globalStartVBIndices vb'))) \<and>
                       length (globalVertices vb)
                         \<le> unat (fst (last (globalStartVBIndices vb'))) + unat i \<and>
                       unat (fst (last (globalStartVBIndices vb'))) + unat i
                         < length (globalVertices vb'))
           (drop (length (globalIndices vb)) (globalIndices vb'))"
    using loc unfolding off cnt by (simp add: gv gi list_all_iff)
qed

lemma box_indices_local: "list_all (\<lambda>i. unat i < length box_vertices) box_indices"
  by (simp add: box_indices_def)

lemma AddBoxToGlobal_eq:
  "AddBoxToGlobal vb =
     Inr ((of_nat (length (globalVertices vb)), of_nat (length (globalIndices vb))),
          vb\<lparr> globalIndices := globalIndices vb @ box_indices,
              globalVertices := globalVertices vb @ box_vertices,
              globalStartIBIndices := globalStartIBIndices vb
                 @ [(of_nat (length (globalIndices vb)), 36)],
              globalStartVBIndices := globalStartVBIndices vb
                 @ [(of_nat (length (globalVertices vb)), 24)],
              numVertexBuffers := numVertexBuffers vb + 1 \<rparr>)"
  using append_call_eq [of Append_Box vb] by (simp add: INT_MAX_def)

text \<open>
  The box path and \<open>AddGlobalObj\<close>.  \<open>AddBoxToGlobal\<close> always returns, and every index
  it appends is below 24, the number of vertices it appends.  Whenever \<open>AddGlobalObj\<close>
  returns, every index it appended is below the number of vertices it appended.  In both
  cases, while the vertex array has fewer than \<open>2^32\<close> elements, the offset recorded for
  the mesh plus such an index is a position of the global vertex array that this mesh
  filled.
\<close>

lemma AddBoxToGlobal_indices_local:
  "\<exists>r vb'. AddBoxToGlobal vb = Inr (r, vb') \<and>
      length (globalVertices vb') - length (globalVertices vb) = 24 \<and>
      list_all (\<lambda>i. unat i < length (globalVertices vb') - length (globalVertices vb))
        (drop (length (globalIndices vb)) (globalIndices vb')) \<and>
      (length (globalVertices vb') < 2 ^ 32 \<longrightarrow>
         list_all (\<lambda>i. unat i < unat (snd (last (globalStartVBIndices vb'))) \<and>
                       length (globalVertices vb)
                         \<le> unat (fst (last (globalStartVBIndices vb'))) + unat i \<and>
                       unat (fst (last (globalStartVBIndices vb'))) + unat i
                         < length (globalVertices vb'))
           (drop (length (globalIndices vb)) (globalIndices vb')))"
proof -
  let ?vb' = "vb\<lparr> globalIndices := globalIndices vb @ box_indices,
              globalVertices := globalVertices vb @ box_vertices,
              globalStartIBIndices := globalStartIBIndices vb
                 @ [(of_nat (length (globalIndices vb)), 36)],
              globalStartVBIndices := globalStartVBIndices vb
                 @ [(of_nat (length (globalVertices vb)), 24)],
              numVertexBuffers := numVertexBuffers vb + 1 \<rparr>"
  have loc: "\<forall>i\<in>set box_indices. unat i < length box_vertices"
    using box_indices_local by (simp add: list_all_iff)
  have gv: "globalVertices ?vb' = globalVertices vb @ box_vertices"
    and gi: "globalIndices ?vb' = globalIndices vb @ box_indices"
    and rg: "globalStartVBIndices ?vb' = globalStartVBIndices vb
               @ [(of_nat (length (globalVertices vb)), of_nat (length box_vertices))]"
    by simp_all
  note L = appended_mesh_local [OF gv gi rg loc]
  have "length (globalVertices ?vb') - length (globalVertices vb) = 24" by simp
  with L show ?thesis unfolding AddBoxToGlobal_eq by blast
qed

lemma AddGlobalObj_indices_local:
  assumes "AddGlobalObj reader vb = Inr (r, vb')"
  shows "list_all (\<lambda>i. unat i < length (globalVertices vb') - length (globalVertices vb))
           (drop (length (globalIndices vb)) (globalIndices vb'))"
    and "length (globalVertices vb') < 2 ^ 32 \<Longrightarrow>
         list_all (\<lambda>i. unat i < unat (snd (last (globalStartVBIndices vb'))) \<and>
                       length (globalVertices vb)
                         \<le> unat (fst (last (globalStartVBIndices vb'))) + unat i \<and>
                       unat (fst (last (globalStartVBIndices vb'))) + unat i
                         < length (globalVertices vb'))
           (drop (length (globalIndices vb)) (globalIndices vb'))"
proof -
  from AddGlobalObj_Inr [OF assms] obtain vertices indices where
    gv: "globalVertices vb' = globalVertices vb @ vertices"
    and gi: "globalIndices vb' = globalIndices vb @ indices"
    and rg: "globalStartVBIndices vb' = globalStartVBIndices vb
               @ [(of_nat (length (globalVertices vb)), of_nat (length vertices))]"
    and loc: "\<forall>i\<in>set indices. unat i < length vertices"
    by blast
  note L = appended_mesh_local [OF gv gi rg loc]
  show "list_all (\<lambda>i. unat i < length (globalVertices vb') - length (globalVertices vb))
           (drop (length (globalIndices vb)) (globalIndices vb'))"
    by (rule L(1))
  assume "length (globalVertices vb') < 2 ^ 32"
  then show "list_all (\<lambda>i. unat i < unat (snd (last (globalStartVBIndices vb'))) \<and>
                       length (globalVertices vb)
                         \<le> unat (fst (last (globalStartVBIndices vb'))) + unat i \<and>
                       unat (fst (last (globalStartVBIndices vb'))) + unat i
                         < length (globalVertices vb'))
           (drop (length (globalIndices vb)) (globalIndices vb'))"
    by (rule L(2))
qed

text \<open>\<open>AddGlobalObj\<close> at the parsed file \<open>tiny_obj\<close>, appended to the empty store: three
  vertices and the indices \<open>0 1 2 0 0 0\<close>.\<close>

lemma tiny_obj_run:
  "\<exists>r vb'. AddGlobalObj tiny_obj VertexBuffer_empty = Inr (r, vb') \<and> r = (0, 0) \<and>
     globalIndices vb' = [0, 1, 2, 0, 0, 0] \<and> length (globalVertices vb') = 3 \<and>
     globalStartVBIndices vb' = [(0, 3)] \<and> globalStartIBIndices vb' = [(0, 6)]"
  by (simp add: AddGlobalObj_def tiny_obj_def obj_vertex_def element_at_def and_then_def
      INT_MAX_def obj_add_index_def map_find_def map_assign_def map_index_def Vertex_eq_def
      float_eq_def float_isnan_def vec_size_def f_zero_def f_one_def
      AddVerticeAndIndicesToGlobal_eq VertexBuffer_empty_def)

subsection \<open>Sequencing\<close>

lemma and_then_Inr [simp]: "and_then (Inr x) f = f x"
  by (simp add: and_then_def)

lemma and_then_Inl [simp]: "and_then (Inl e) f = Inl e"
  by (simp add: and_then_def)

subsection \<open>Model::InitFromObj\<close>

lemma upt_0_3: "[0 ..< 3] = [0, 1, 2 :: nat]"
  by (simp add: numeral_3_eq_3)

text \<open>The import of \<open>two_shapes_obj\<close> into the empty store: the components, the number
  of vertices, the index array, the recorded ranges and the number of meshes.\<close>

lemma two_shapes_run:
  "map_sum id (\<lambda>r. (map vbIndex (fst r), length (globalVertices (snd r)), globalIndices (snd r),
                      globalStartVBIndices (snd r), globalStartIBIndices (snd r),
                      numVertexBuffers (snd r)))
     (InitFromObj two_shapes_obj (Inr ()) VertexBuffer_empty) =
   Inr ([0, 1], 3, [0, 1, 2, 0, 1, 2], [(0, 3), (3, 0)], [(0, 3), (3, 3)], 2)"
  by (simp add: InitFromObj_def two_shapes_obj_def triangle_shape_def shape_body_def face_body_def
      add_component_def vec_at_def obj_vertex_def element_at_def
      INT_MAX_def obj_add_index_def map_find_def map_assign_def map_index_def Vertex_eq_def
      float_eq_def float_isnan_def vec_size_def f_zero_def f_one_def
      AddVerticeAndIndicesToGlobal_eq VertexBuffer_empty_def upt_0_3 Let_def)



text \<open>
  C10.  The property fails on the OBJ-import path of the scene, \<open>Model::InitFromObj\<close>.
  For a file with two shapes that use the same three vertices, the import returns and
  appends two meshes.  The first has three vertices and the indices \<open>0 1 2\<close>.  The
  second shape finds all its vertices in \<open>uniqueVertices\<close>, which still holds the
  entries of the first shape, so the second mesh has no vertex and the indices
  \<open>0 1 2\<close>: its indices are not below its own vertex count, which is 0, and its vertex
  offset 3 plus any of them is outside the vertex array, which has three elements.  The
  geometry of the second mesh has 3 indices over 0 vertices.
\<close>

theorem InitFromObj_indices_not_mesh_local:
  "\<exists>model vb'.
     InitFromObj two_shapes_obj (Inr ()) VertexBuffer_empty = Inr (model, vb') \<and>
     map vbIndex model = [0, 1] \<and>
     length (globalVertices vb') = 3 \<and>
     globalIndices vb' = [0, 1, 2, 0, 1, 2] \<and>
     globalStartVBIndices vb' = [(0, 3), (3, 0)] \<and>
     globalStartIBIndices vb' = [(0, 3), (3, 3)] \<and>
     Triangles_VertexCount (geometryDesc vb' 1) = 0 \<and>
     Triangles_IndexCount (geometryDesc vb' 1) = 3 \<and>
     list_all (\<lambda>i. \<not> unat i < unat (snd (globalStartVBIndices vb' ! 1)) \<and>
                   \<not> unat (fst (globalStartVBIndices vb' ! 1)) + unat i
                       < length (globalVertices vb'))
       (take (unat (snd (globalStartIBIndices vb' ! 1)))
          (drop (unat (fst (globalStartIBIndices vb' ! 1))) (globalIndices vb')))"
proof -
  have "\<exists>r. InitFromObj two_shapes_obj (Inr ()) VertexBuffer_empty = Inr r \<and>
     map vbIndex (fst r) = [0, 1] \<and> length (globalVertices (snd r)) = 3 \<and>
     globalIndices (snd r) = [0, 1, 2, 0, 1, 2] \<and>
     globalStartVBIndices (snd r) = [(0, 3), (3, 0)] \<and>
     globalStartIBIndices (snd r) = [(0, 3), (3, 3)]"
    using two_shapes_run
    by (cases "InitFromObj two_shapes_obj (Inr ()) VertexBuffer_empty") simp_all
  then obtain r where all:
    "InitFromObj two_shapes_obj (Inr ()) VertexBuffer_empty = Inr r \<and>
     map vbIndex (fst r) = [0, 1] \<and> length (globalVertices (snd r)) = 3 \<and>
     globalIndices (snd r) = [0, 1, 2, 0, 1, 2] \<and>
     globalStartVBIndices (snd r) = [(0, 3), (3, 0)] \<and>
     globalStartIBIndices (snd r) = [(0, 3), (3, 3)]" ..
  then have run: "InitFromObj two_shapes_obj (Inr ()) VertexBuffer_empty = Inr r"
    and f: "map vbIndex (fst r) = [0, 1]" "length (globalVertices (snd r)) = 3"
      "globalIndices (snd r) = [0, 1, 2, 0, 1, 2]"
      "globalStartVBIndices (snd r) = [(0, 3), (3, 0)]"
      "globalStartIBIndices (snd r) = [(0, 3), (3, 3)]"
    by simp_all
  show ?thesis
    by (rule exI [of _ "fst r"], rule exI [of _ "snd r"]) (simp add: run f geometryDesc_def)
qed

subsection \<open>Bottom-level builds\<close>

lemma blas_loop_append:
  "blas_loop env (xs @ ys) st = and_then (blas_loop env xs st) (\<lambda>st'. blas_loop env ys st')"
  by (induction xs arbitrary: st) (simp_all add: and_then_def split: sum.splits)

text \<open>One iteration under a device that reports a positive result size and succeeds.\<close>

lemma blas_body_ok:
  assumes "reset_hr e = S_OK" "0 < ResultDataMaxSizeInBytes e" "fst (scratch_create e) = S_OK"
    "fst (blas_create e) = S_OK" "close_hr e = S_OK" "signal_hr e = S_OK"
    "i < length (globalStartVBIndices vb)"
  shows "\<exists>dx'. blas_body e i (dx, vb) =
           Inr (dx', vb\<lparr>m_globalBottomLevelAccelerationStructures :=
                  (m_globalBottomLevelAccelerationStructures vb @ [Dangling])
                    [i := Buffer (snd (blas_create e))]\<rparr>) \<and>
         SwapChainFrameIndex dx' = SwapChainFrameIndex dx \<and>
         PresentFenceValue dx' (SwapChainFrameIndex dx) = PresentFenceValue dx (SwapChainFrameIndex dx) + 1 \<and>
         Trace dx' = Trace dx @
           [Ev_ExecuteCommandLists (SwapChainFrameIndex dx) DrawContext_Final
              [Cmd_BuildRaytracingAccelerationStructure
                 \<lparr> bd_Inputs = BottomLevelInputs (geometryDesc vb i),
                   bd_DestAccelerationStructureData = snd (blas_create e),
                   bd_ScratchAccelerationStructureData = snd (scratch_create e) \<rparr>,
               Cmd_ResourceBarrier [Barrier_UAV (Res_Buffer (snd (blas_create e)))]],
            Ev_Signal (SwapChainFrameIndex dx) (PresentFenceValue dx (SwapChainFrameIndex dx)),
            Ev_WaitForSingleObject (SwapChainFrameIndex dx),
            Ev_Release (Buffer (snd (scratch_create e)))]"
  using assms
  by (simp add: blas_body_def record_cmd_def SubmitCommandList_def WaitForGpu_def Let_def)

lemma blas_body_zero:
  assumes "ResultDataMaxSizeInBytes e = 0" "i < length (globalStartVBIndices vb)"
  shows "blas_body e i (dx, vb) = Inl Exit_ThrowIfFalse"
  using assms by (simp add: blas_body_def Let_def)


lemma geometryDesc_blas [simp]:
  "geometryDesc (vb\<lparr>m_globalBottomLevelAccelerationStructures := bl\<rparr>) i = geometryDesc vb i"
  by (simp add: geometryDesc_def)

lemma blas_iteration_events_blas [simp]:
  "blas_iteration_events env (vb\<lparr>m_globalBottomLevelAccelerationStructures := bl\<rparr>) f v0 i =
     blas_iteration_events env vb f v0 i"
  by (simp add: blas_iteration_events_def)

text \<open>The first \<open>j\<close> iterations under a device that succeeds.\<close>

lemma blas_loop_upto:
  assumes "\<forall>i<j. blas_env_succeeds (env i)" and "j \<le> length (globalStartVBIndices vb)"
  shows "\<exists>dx' bl. blas_loop env [0 ..< j] (dx, vb) =
             Inr (dx', vb\<lparr>m_globalBottomLevelAccelerationStructures := bl\<rparr>) \<and>
           SwapChainFrameIndex dx' = SwapChainFrameIndex dx \<and>
           PresentFenceValue dx' (SwapChainFrameIndex dx) =
             PresentFenceValue dx (SwapChainFrameIndex dx) + of_nat j \<and>
           Trace dx' = Trace dx @
             concat (map (blas_iteration_events env vb (SwapChainFrameIndex dx)
                            (PresentFenceValue dx (SwapChainFrameIndex dx))) [0 ..< j]) \<and>
           length bl = length (m_globalBottomLevelAccelerationStructures vb) + j \<and>
           (m_globalBottomLevelAccelerationStructures vb = [] \<longrightarrow>
              bl = map (\<lambda>i. Buffer (snd (blas_create (env i)))) [0 ..< j])"
  using assms
proof (induction j)
  case 0
  have "vb\<lparr>m_globalBottomLevelAccelerationStructures := m_globalBottomLevelAccelerationStructures vb\<rparr> = vb"
    by simp
  then show ?case
    by (intro exI [of _ dx] exI [of _ "m_globalBottomLevelAccelerationStructures vb"]) simp
next
  case (Suc j)
  let ?f = "SwapChainFrameIndex dx"
  let ?v0 = "PresentFenceValue dx ?f"
  from Suc obtain dx1 bl1 where
    run: "blas_loop env [0 ..< j] (dx, vb) =
            Inr (dx1, vb\<lparr>m_globalBottomLevelAccelerationStructures := bl1\<rparr>)"
    and f1: "SwapChainFrameIndex dx1 = ?f"
    and v1: "PresentFenceValue dx1 ?f = ?v0 + of_nat j"
    and t1: "Trace dx1 = Trace dx @ concat (map (blas_iteration_events env vb ?f ?v0) [0 ..< j])"
    and l1: "length bl1 = length (m_globalBottomLevelAccelerationStructures vb) + j"
    and e1: "m_globalBottomLevelAccelerationStructures vb = [] \<longrightarrow>
              bl1 = map (\<lambda>i. Buffer (snd (blas_create (env i)))) [0 ..< j]"
    by auto
  let ?vb1 = "vb\<lparr>m_globalBottomLevelAccelerationStructures := bl1\<rparr>"
  have ok: "blas_env_succeeds (env j)" using Suc.prems by simp
  have jlt: "j < length (globalStartVBIndices ?vb1)" using Suc.prems by simp
  from ok have
    "reset_hr (env j) = S_OK" "0 < ResultDataMaxSizeInBytes (env j)"
    "fst (scratch_create (env j)) = S_OK" "fst (blas_create (env j)) = S_OK"
    "close_hr (env j) = S_OK" "signal_hr (env j) = S_OK"
    by (simp_all add: blas_env_succeeds_def)
  from blas_body_ok [OF this jlt, of dx1] obtain dx2 where
    body: "blas_body (env j) j (dx1, ?vb1) =
             Inr (dx2, ?vb1\<lparr>m_globalBottomLevelAccelerationStructures :=
                    (m_globalBottomLevelAccelerationStructures ?vb1 @ [Dangling])
                      [j := Buffer (snd (blas_create (env j)))]\<rparr>)"
    and f2: "SwapChainFrameIndex dx2 = SwapChainFrameIndex dx1"
    and v2: "PresentFenceValue dx2 (SwapChainFrameIndex dx1) =
               PresentFenceValue dx1 (SwapChainFrameIndex dx1) + 1"
    and t2: "Trace dx2 = Trace dx1 @
           [Ev_ExecuteCommandLists (SwapChainFrameIndex dx1) DrawContext_Final
              [Cmd_BuildRaytracingAccelerationStructure
                 \<lparr> bd_Inputs = BottomLevelInputs (geometryDesc ?vb1 j),
                   bd_DestAccelerationStructureData = snd (blas_create (env j)),
                   bd_ScratchAccelerationStructureData = snd (scratch_create (env j)) \<rparr>,
               Cmd_ResourceBarrier [Barrier_UAV (Res_Buffer (snd (blas_create (env j))))]],
            Ev_Signal (SwapChainFrameIndex dx1) (PresentFenceValue dx1 (SwapChainFrameIndex dx1)),
            Ev_WaitForSingleObject (SwapChainFrameIndex dx1),
            Ev_Release (Buffer (snd (scratch_create (env j))))]"
    by blast
  let ?bl2 = "(bl1 @ [Dangling])[j := Buffer (snd (blas_create (env j)))]"
  have run2: "blas_loop env [0 ..< Suc j] (dx, vb) =
                Inr (dx2, vb\<lparr>m_globalBottomLevelAccelerationStructures := ?bl2\<rparr>)"
    using run body by (simp add: blas_loop_append)
  have t: "Trace dx2 = Trace dx @
             concat (map (blas_iteration_events env vb ?f ?v0) [0 ..< Suc j])"
    using t1 t2 f1 v1 by (simp add: blas_iteration_events_def)
  have l: "length ?bl2 = length (m_globalBottomLevelAccelerationStructures vb) + Suc j"
    using l1 by simp
  have e: "m_globalBottomLevelAccelerationStructures vb = [] \<longrightarrow>
              ?bl2 = map (\<lambda>i. Buffer (snd (blas_create (env i)))) [0 ..< Suc j]"
  proof
    assume "m_globalBottomLevelAccelerationStructures vb = []"
    with e1 l1 have b: "bl1 = map (\<lambda>i. Buffer (snd (blas_create (env i)))) [0 ..< j]"
      and lj: "length bl1 = j" by simp_all
    show "?bl2 = map (\<lambda>i. Buffer (snd (blas_create (env i)))) [0 ..< Suc j]"
      using lj by (simp add: list_update_append b [symmetric])
  qed
  have v: "PresentFenceValue dx2 ?f = ?v0 + of_nat (Suc j)"
    using v2 v1 f1 by simp
  have f: "SwapChainFrameIndex dx2 = ?f" using f2 f1 by simp
  show ?case
    apply (rule exI [of _ dx2])
    apply (rule exI [of _ ?bl2])
    apply (intro conjI)
         apply (rule run2)
        apply (rule f)
       apply (rule v)
      apply (rule t)
     apply (rule l)
    apply (rule e)
    done
qed


lemma InitGlobal_succeeds:
  assumes "m_globalBottomLevelAccelerationStructures vb = []"
    and "length (globalStartVBIndices vb) = length (globalStartIBIndices vb)"
    and "length (globalStartIBIndices vb) \<le> INT_MAX"
    and "\<forall>i<length (globalStartIBIndices vb). blas_env_succeeds (env i)"
  shows "\<exists>dx'. InitGlobalBottomLevelAccelerationObject env (dx, vb) =
             Inr (dx', vb\<lparr>m_globalBottomLevelAccelerationStructures :=
                    map (\<lambda>i. Buffer (snd (blas_create (env i))))
                      [0 ..< length (globalStartIBIndices vb)]\<rparr>) \<and>
           Trace dx' = Trace dx @
             concat (map (blas_iteration_events env vb (SwapChainFrameIndex dx)
                            (PresentFenceValue dx (SwapChainFrameIndex dx)))
                       [0 ..< length (globalStartIBIndices vb)])"
proof -
  let ?n = "length (globalStartIBIndices vb)"
  have m: "min ?n (INT_MAX + 1) = ?n" using assms(3) by simp
  have le: "?n \<le> length (globalStartVBIndices vb)" using assms(2) by simp
  from blas_loop_upto [OF assms(4) le, of dx] assms(1) obtain dx' where
    "blas_loop env [0 ..< ?n] (dx, vb) =
       Inr (dx', vb\<lparr>m_globalBottomLevelAccelerationStructures :=
              map (\<lambda>i. Buffer (snd (blas_create (env i)))) [0 ..< ?n]\<rparr>)"
    "Trace dx' = Trace dx @
             concat (map (blas_iteration_events env vb (SwapChainFrameIndex dx)
                            (PresentFenceValue dx (SwapChainFrameIndex dx))) [0 ..< ?n])"
    by auto
  then show ?thesis
    using assms(3) by (auto simp: InitGlobalBottomLevelAccelerationObject_def m)
qed

lemma InitGlobal_zero_size:
  assumes k: "k < length (globalStartIBIndices vb)" "k \<le> INT_MAX"
    "k < length (globalStartVBIndices vb)"
    and ok: "\<forall>i<k. blas_env_succeeds (env i)"
    and z: "ResultDataMaxSizeInBytes (env k) = 0"
  shows "InitGlobalBottomLevelAccelerationObject env (dx, vb) = Inl Exit_ThrowIfFalse"
proof -
  let ?m = "min (length (globalStartIBIndices vb)) (INT_MAX + 1)"
  have km: "k < ?m" using k by simp
  then have split: "[0 ..< ?m] = [0 ..< k] @ k # [Suc k ..< ?m]"
    by (metis less_eq_nat.simps(1) upt_add_eq_append upt_conv_Cons le_add_diff_inverse less_imp_le_nat plus_nat.add_0)
  have le: "k \<le> length (globalStartVBIndices vb)" using k by simp
  from blas_loop_upto [OF ok le, of dx] obtain dx' bl where
    run: "blas_loop env [0 ..< k] (dx, vb) =
            Inr (dx', vb\<lparr>m_globalBottomLevelAccelerationStructures := bl\<rparr>)"
    by blast
  have "blas_body (env k) k (dx', vb\<lparr>m_globalBottomLevelAccelerationStructures := bl\<rparr>) =
          Inl Exit_ThrowIfFalse"
    using z k by (simp add: blas_body_zero)
  then have "blas_loop env [0 ..< ?m] (dx, vb) = Inl Exit_ThrowIfFalse"
    unfolding split by (simp add: blas_loop_append run)
  then show ?thesis
    by (simp add: InitGlobalBottomLevelAccelerationObject_def)
qed

lemma InitGlobal_no_meshes:
  "globalStartIBIndices vb = [] \<Longrightarrow>
     InitGlobalBottomLevelAccelerationObject env (dx, vb) = Inr (dx, vb)"
  by (simp add: InitGlobalBottomLevelAccelerationObject_def INT_MAX_def)


text \<open>
  C6 as stated fails: with no mesh appended the loop of
  \<open>InitGlobalBottomLevelAccelerationObject\<close> has no iteration, so no prebuild info is
  asked for and nothing is checked.  Even on a device that reports zero sizes, the build
  of the empty store returns, with device and store as they were.
\<close>

theorem empty_store_build_counterexample:
  "InitGlobalBottomLevelAccelerationObject env_zero (dx_idle, VertexBuffer_empty) =
     Inr (dx_idle, VertexBuffer_empty)"
  by (rule InitGlobal_no_meshes) (simp add: VertexBuffer_empty_def)

text \<open>
  C6, as amended.  With no recorded sub-range the build returns at once and changes
  nothing.  The zero-size check is made once per recorded sub-range: if the device
  reports \<open>ResultDataMaxSizeInBytes = 0\<close> for sub-range \<open>k\<close> (and let the iterations
  before it run through), the build stops the process through \<open>ThrowIfFalse\<close>.
\<close>

theorem zero_size_check_per_sub_range:
  "(globalStartIBIndices vb = [] \<longrightarrow>
      InitGlobalBottomLevelAccelerationObject env (dx, vb) = Inr (dx, vb)) \<and>
   (k < length (globalStartIBIndices vb) \<and> k \<le> INT_MAX \<and> k < length (globalStartVBIndices vb) \<and>
    (\<forall>i<k. blas_env_succeeds (env i)) \<and> ResultDataMaxSizeInBytes (env k) = 0 \<longrightarrow>
      InitGlobalBottomLevelAccelerationObject env (dx, vb) = Inl Exit_ThrowIfFalse)"
  using InitGlobal_no_meshes [of vb env dx] InitGlobal_zero_size [of k vb env dx] by blast

text \<open>The amended C6 at the empty store, and at a store of two boxes on a device that
  builds the first box and reports a zero size for the second.\<close>

theorem zero_size_check_per_sub_range_witness:
  "globalStartIBIndices VertexBuffer_empty = [] \<and>
   InitGlobalBottomLevelAccelerationObject env_ok (dx_idle, VertexBuffer_empty) =
     Inr (dx_idle, VertexBuffer_empty) \<and>
   1 < length (globalStartIBIndices two_boxes) \<and> 1 \<le> INT_MAX \<and>
   1 < length (globalStartVBIndices two_boxes) \<and>
   blas_env_succeeds (env_second_zero 0) \<and> ResultDataMaxSizeInBytes (env_second_zero 1) = 0 \<and>
   InitGlobalBottomLevelAccelerationObject env_second_zero (dx_idle, two_boxes) =
     Inl Exit_ThrowIfFalse"
proof -
  have a: "globalStartIBIndices VertexBuffer_empty = []"
    by (simp add: VertexBuffer_empty_def)
  have b: "1 < length (globalStartIBIndices two_boxes)" "1 \<le> INT_MAX"
    "1 < length (globalStartVBIndices two_boxes)"
    by (simp_all add: two_boxes_def INT_MAX_def)
  have c: "blas_env_succeeds (env_second_zero 0)"
    by (simp add: env_second_zero_def env_ok_def blas_env_succeeds_def S_OK_def)
  then have c': "\<forall>i<1. blas_env_succeeds (env_second_zero i)" by simp
  have d: "ResultDataMaxSizeInBytes (env_second_zero 1) = 0"
    by (simp add: env_second_zero_def env_zero_def)
  from zero_size_check_per_sub_range [of VertexBuffer_empty env_ok dx_idle 0] a
  have e: "InitGlobalBottomLevelAccelerationObject env_ok (dx_idle, VertexBuffer_empty) =
     Inr (dx_idle, VertexBuffer_empty)" by blast
  from zero_size_check_per_sub_range [of two_boxes env_second_zero dx_idle 1] b c' d
  have f: "InitGlobalBottomLevelAccelerationObject env_second_zero (dx_idle, two_boxes) =
     Inl Exit_ThrowIfFalse" by blast
  show ?thesis using a b c d e f by blast
qed

text \<open>
  C7.  On a store whose acceleration-structure list is still empty and which has as many
  vertex ranges as index ranges (at most \<open>INT_MAX\<close>), with a device that lets every
  iteration run through, the build returns; it leaves one acceleration structure per
  recorded sub-range, the \<open>i\<close>-th being the buffer created in iteration \<open>i\<close>; and it adds
  to the trace, for \<open>i = 0, 1, ...\<close> in this order: the execution of a command list that
  holds the build of the \<open>i\<close>-th geometry descriptor and its UAV barrier, the fence
  signal, the wait for the fence, and only then the release of the scratch buffer.  The
  \<open>i\<close>-th geometry descriptor names the \<open>i\<close>-th sub-range: index buffer at the base
  address plus 4 times the \<open>i\<close>-th index offset, with the \<open>i\<close>-th index count; vertex
  buffer at the base address plus 32 (\<open>sizeof(Vertex)\<close>) times the \<open>i\<close>-th vertex offset,
  with the \<open>i\<close>-th vertex count.
\<close>

theorem one_blas_per_sub_range:
  "(m_globalBottomLevelAccelerationStructures vb = [] \<and>
    length (globalStartVBIndices vb) = length (globalStartIBIndices vb) \<and>
    length (globalStartIBIndices vb) \<le> INT_MAX \<and>
    (\<forall>i<length (globalStartIBIndices vb). blas_env_succeeds (env i)) \<longrightarrow>
      (\<exists>dx'. InitGlobalBottomLevelAccelerationObject env (dx, vb) =
           Inr (dx', vb\<lparr>m_globalBottomLevelAccelerationStructures :=
                  map (\<lambda>i. Buffer (snd (blas_create (env i))))
                    [0 ..< length (globalStartIBIndices vb)]\<rparr>) \<and>
         Trace dx' = Trace dx @
           concat (map (\<lambda>i.
               [Ev_ExecuteCommandLists (SwapChainFrameIndex dx) DrawContext_Final
                  [Cmd_BuildRaytracingAccelerationStructure
                     \<lparr> bd_Inputs = BottomLevelInputs (geometryDesc vb i),
                       bd_DestAccelerationStructureData = snd (blas_create (env i)),
                       bd_ScratchAccelerationStructureData = snd (scratch_create (env i)) \<rparr>,
                   Cmd_ResourceBarrier [Barrier_UAV (Res_Buffer (snd (blas_create (env i))))]],
                Ev_Signal (SwapChainFrameIndex dx)
                  (PresentFenceValue dx (SwapChainFrameIndex dx) + of_nat i),
                Ev_WaitForSingleObject (SwapChainFrameIndex dx),
                Ev_Release (Buffer (snd (scratch_create (env i))))])
             [0 ..< length (globalStartIBIndices vb)]))) \<and>
   Triangles_IndexBuffer (geometryDesc vb j) =
     indexBuffer vb + 4 * ucast (fst (globalStartIBIndices vb ! j)) \<and>
   Triangles_IndexCount (geometryDesc vb j) = snd (globalStartIBIndices vb ! j) \<and>
   Triangles_VertexBuffer_StartAddress (geometryDesc vb j) =
     vertexBuffer vb + 32 * ucast (fst (globalStartVBIndices vb ! j)) \<and>
   Triangles_VertexCount (geometryDesc vb j) = snd (globalStartVBIndices vb ! j)"
proof (intro conjI impI)
  assume a: "m_globalBottomLevelAccelerationStructures vb = [] \<and>
    length (globalStartVBIndices vb) = length (globalStartIBIndices vb) \<and>
    length (globalStartIBIndices vb) \<le> INT_MAX \<and>
    (\<forall>i<length (globalStartIBIndices vb). blas_env_succeeds (env i))"
  have ev: "blas_iteration_events env vb (SwapChainFrameIndex dx)
              (PresentFenceValue dx (SwapChainFrameIndex dx)) =
            (\<lambda>i. [Ev_ExecuteCommandLists (SwapChainFrameIndex dx) DrawContext_Final
                  [Cmd_BuildRaytracingAccelerationStructure
                     \<lparr> bd_Inputs = BottomLevelInputs (geometryDesc vb i),
                       bd_DestAccelerationStructureData = snd (blas_create (env i)),
                       bd_ScratchAccelerationStructureData = snd (scratch_create (env i)) \<rparr>,
                   Cmd_ResourceBarrier [Barrier_UAV (Res_Buffer (snd (blas_create (env i))))]],
                Ev_Signal (SwapChainFrameIndex dx)
                  (PresentFenceValue dx (SwapChainFrameIndex dx) + of_nat i),
                Ev_WaitForSingleObject (SwapChainFrameIndex dx),
                Ev_Release (Buffer (snd (scratch_create (env i))))])"
    by (rule ext) (simp add: blas_iteration_events_def)
  from a InitGlobal_succeeds [of vb env dx]
  show "\<exists>dx'. InitGlobalBottomLevelAccelerationObject env (dx, vb) =
           Inr (dx', vb\<lparr>m_globalBottomLevelAccelerationStructures :=
                  map (\<lambda>i. Buffer (snd (blas_create (env i))))
                    [0 ..< length (globalStartIBIndices vb)]\<rparr>) \<and>
         Trace dx' = Trace dx @
           concat (map (\<lambda>i.
               [Ev_ExecuteCommandLists (SwapChainFrameIndex dx) DrawContext_Final
                  [Cmd_BuildRaytracingAccelerationStructure
                     \<lparr> bd_Inputs = BottomLevelInputs (geometryDesc vb i),
                       bd_DestAccelerationStructureData = snd (blas_create (env i)),
                       bd_ScratchAccelerationStructureData = snd (scratch_create (env i)) \<rparr>,
                   Cmd_ResourceBarrier [Barrier_UAV (Res_Buffer (snd (blas_create (env i))))]],
                Ev_Signal (SwapChainFrameIndex dx)
                  (PresentFenceValue dx (SwapChainFrameIndex dx) + of_nat i),
                Ev_WaitForSingleObject (SwapChainFrameIndex dx),
                Ev_Release (Buffer (snd (scratch_create (env i))))])
             [0 ..< length (globalStartIBIndices vb)])"
    unfolding ev by blast
qed (simp_all add: geometryDesc_def)


text \<open>C7 at the store of two boxes, on a device that succeeds.\<close>

theorem one_blas_per_sub_range_witness:
  "m_globalBottomLevelAccelerationStructures two_boxes = [] \<and>
   length (globalStartVBIndices two_boxes) = length (globalStartIBIndices two_boxes) \<and>
   length (globalStartIBIndices two_boxes) \<le> INT_MAX \<and>
   blas_env_succeeds (env_ok 0) \<and> blas_env_succeeds (env_ok 1) \<and>
   (case InitGlobalBottomLevelAccelerationObject env_ok (dx_idle, two_boxes) of
      Inl e \<Rightarrow> False
    | Inr (dx', vb') \<Rightarrow>
        m_globalBottomLevelAccelerationStructures vb' = [Buffer 0x100000, Buffer 0x101000] \<and>
        Trace dx' =
          [Ev_ExecuteCommandLists 0 DrawContext_Final
             [Cmd_BuildRaytracingAccelerationStructure
                \<lparr> bd_Inputs = BottomLevelInputs (geometryDesc two_boxes 0),
                  bd_DestAccelerationStructureData = 0x100000,
                  bd_ScratchAccelerationStructureData = 0x900000 \<rparr>,
              Cmd_ResourceBarrier [Barrier_UAV (Res_Buffer 0x100000)]],
           Ev_Signal 0 0, Ev_WaitForSingleObject 0, Ev_Release (Buffer 0x900000),
           Ev_ExecuteCommandLists 0 DrawContext_Final
             [Cmd_BuildRaytracingAccelerationStructure
                \<lparr> bd_Inputs = BottomLevelInputs (geometryDesc two_boxes 1),
                  bd_DestAccelerationStructureData = 0x101000,
                  bd_ScratchAccelerationStructureData = 0x900000 \<rparr>,
              Cmd_ResourceBarrier [Barrier_UAV (Res_Buffer 0x101000)]],
           Ev_Signal 0 1, Ev_WaitForSingleObject 0, Ev_Release (Buffer 0x900000)]) \<and>
   Triangles_IndexBuffer (geometryDesc two_boxes 1) = 0x10090 \<and>
   Triangles_IndexCount (geometryDesc two_boxes 1) = 36 \<and>
   Triangles_VertexBuffer_StartAddress (geometryDesc two_boxes 1) = 0x20300 \<and>
   Triangles_VertexCount (geometryDesc two_boxes 1) = 24"
proof -
  have h: "m_globalBottomLevelAccelerationStructures two_boxes = [] \<and>
      length (globalStartVBIndices two_boxes) = length (globalStartIBIndices two_boxes) \<and>
      length (globalStartIBIndices two_boxes) \<le> INT_MAX"
    by (simp add: two_boxes_def INT_MAX_def)
  have ok: "blas_env_succeeds (env_ok i)" for i
    by (simp add: env_ok_def blas_env_succeeds_def S_OK_def)
  then have all: "\<forall>i<length (globalStartIBIndices two_boxes). blas_env_succeeds (env_ok i)"
    by simp
  note T = one_blas_per_sub_range [of two_boxes env_ok dx_idle 1]
  from T [THEN conjunct1] h all obtain dx' where
    run: "InitGlobalBottomLevelAccelerationObject env_ok (dx_idle, two_boxes) =
           Inr (dx', two_boxes\<lparr>m_globalBottomLevelAccelerationStructures :=
                  map (\<lambda>i. Buffer (snd (blas_create (env_ok i))))
                    [0 ..< length (globalStartIBIndices two_boxes)]\<rparr>)"
    and tr: "Trace dx' = Trace dx_idle @
           concat (map (\<lambda>i.
               [Ev_ExecuteCommandLists (SwapChainFrameIndex dx_idle) DrawContext_Final
                  [Cmd_BuildRaytracingAccelerationStructure
                     \<lparr> bd_Inputs = BottomLevelInputs (geometryDesc two_boxes i),
                       bd_DestAccelerationStructureData = snd (blas_create (env_ok i)),
                       bd_ScratchAccelerationStructureData = snd (scratch_create (env_ok i)) \<rparr>,
                   Cmd_ResourceBarrier [Barrier_UAV (Res_Buffer (snd (blas_create (env_ok i))))]],
                Ev_Signal (SwapChainFrameIndex dx_idle)
                  (PresentFenceValue dx_idle (SwapChainFrameIndex dx_idle) + of_nat i),
                Ev_WaitForSingleObject (SwapChainFrameIndex dx_idle),
                Ev_Release (Buffer (snd (scratch_create (env_ok i))))])
             [0 ..< length (globalStartIBIndices two_boxes)])"
    by blast
  have len: "[0 ..< length (globalStartIBIndices two_boxes)] = [0, 1]"
    by (simp add: two_boxes_def upt_rec)
  have g: "Triangles_IndexBuffer (geometryDesc two_boxes 1) = 0x10090 \<and>
     Triangles_IndexCount (geometryDesc two_boxes 1) = 36 \<and>
     Triangles_VertexBuffer_StartAddress (geometryDesc two_boxes 1) = 0x20300 \<and>
     Triangles_VertexCount (geometryDesc two_boxes 1) = 24"
    using T [THEN conjunct2] by (simp add: two_boxes_def)
  have bl: "m_globalBottomLevelAccelerationStructures
              (two_boxes\<lparr>m_globalBottomLevelAccelerationStructures :=
                  map (\<lambda>i. Buffer (snd (blas_create (env_ok i))))
                    [0 ..< length (globalStartIBIndices two_boxes)]\<rparr>) =
            [Buffer 0x100000, Buffer 0x101000]"
    unfolding len by (simp add: env_ok_def)
  have tr': "Trace dx' =
          [Ev_ExecuteCommandLists 0 DrawContext_Final
             [Cmd_BuildRaytracingAccelerationStructure
                \<lparr> bd_Inputs = BottomLevelInputs (geometryDesc two_boxes 0),
                  bd_DestAccelerationStructureData = 0x100000,
                  bd_ScratchAccelerationStructureData = 0x900000 \<rparr>,
              Cmd_ResourceBarrier [Barrier_UAV (Res_Buffer 0x100000)]],
           Ev_Signal 0 0, Ev_WaitForSingleObject 0, Ev_Release (Buffer 0x900000),
           Ev_ExecuteCommandLists 0 DrawContext_Final
             [Cmd_BuildRaytracingAccelerationStructure
                \<lparr> bd_Inputs = BottomLevelInputs (geometryDesc two_boxes 1),
                  bd_DestAccelerationStructureData = 0x101000,
                  bd_ScratchAccelerationStructureData = 0x900000 \<rparr>,
              Cmd_ResourceBarrier [Barrier_UAV (Res_Buffer 0x101000)]],
           Ev_Signal 0 1, Ev_WaitForSingleObject 0, Ev_Release (Buffer 0x900000)]"
    unfolding tr len by (simp add: env_ok_def dx_idle_def)
  show ?thesis
    unfolding run sum.case prod.case
    using h ok [of 0] ok [of 1] bl tr' g by blast
qed


subsection \<open>Instance descriptors\<close>

lemma UpdateInstanceDescs_Inr:
  assumes "UpdateInstanceDescs s = Inr s'"
  shows "unat (numInstances s) \<le> length (instanceDescsArray s)"
    and "unat (numInstances s) \<le> length (instanceDescs s)"
    and "s' = s\<lparr>instanceDescs := take (unat (numInstances s)) (instanceDescsArray s)
                   @ drop (unat (numInstances s)) (instanceDescs s)\<rparr>"
  using assms by (simp_all add: UpdateInstanceDescs_def Let_def split: if_splits)

lemma UpdateInstanceTransform_Inr:
  assumes "UpdateInstanceTransform i M s = Inr s'"
  shows "unat i < length (instanceDescsArray s)"
    and "s' = s\<lparr>instanceDescsArray := (instanceDescsArray s)
                  [unat i := fold (\<lambda>r d. set_Transform_row r (matrix_row (XMMatrixTranspose M) r) d)
                              [0, 1, 2] (instanceDescsArray s ! unat i)]\<rparr>"
  using assms by (simp_all add: UpdateInstanceTransform_def Let_def split: if_splits)

text \<open>Committing twice in a row: the second commit finds the buffer as it would write
  it.\<close>

lemma UpdateInstanceDescs_again:
  assumes "UpdateInstanceDescs s = Inr s'"
  shows "UpdateInstanceDescs s' = Inr s'"
proof -
  note U = UpdateInstanceDescs_Inr [OF assms]
  let ?n = "unat (numInstances s)"
  have "take ?n (instanceDescsArray s) @
          drop ?n (take ?n (instanceDescsArray s) @ drop ?n (instanceDescs s)) =
        take ?n (instanceDescsArray s) @ drop ?n (instanceDescs s)"
    using U(1) by simp
  then show ?thesis
    using U(1,2) by (simp add: U(3) UpdateInstanceDescs_def Let_def)
qed

lemma UpdateTLAS_Inr: "\<exists>dx'. UpdateTLAS s dx = Inr dx'"
  by (simp add: UpdateTLAS_def record_cmd_def Let_def)

lemma commit_and_rebuild_again:
  assumes "commit_and_rebuild (s, dx) = Inr (s1, dx1)"
  shows "\<exists>dx2. commit_and_rebuild (s1, dx') = Inr (s1, dx2)"
proof -
  from assms have "UpdateInstanceDescs s = Inr s1"
    by (auto simp: commit_and_rebuild_def and_then_def split: sum.splits)
  then have "UpdateInstanceDescs s1 = Inr s1" by (rule UpdateInstanceDescs_again)
  moreover obtain dx2 where "UpdateTLAS s1 dx' = Inr dx2" using UpdateTLAS_Inr by blast
  ultimately show ?thesis by (simp add: commit_and_rebuild_def)
qed

lemma commit_and_rebuild_times_again:
  assumes "commit_and_rebuild (s, dx) = Inr (s1, dx1)"
  shows "\<exists>dxn. commit_and_rebuild_times n (s1, dx') = Inr (s1, dxn)"
proof (induction n arbitrary: dx')
  case 0
  then show ?case by simp
next
  case (Suc n)
  from commit_and_rebuild_again [OF assms, of dx'] obtain dx2 where
    "commit_and_rebuild (s1, dx') = Inr (s1, dx2)" by blast
  with Suc [of dx2] show ?case by simp
qed

text \<open>
  C5.  Once the instance descriptors have been committed and the TLAS rebuild recorded,
  every further repetition of the two calls returns and leaves the scene, with its array
  and with the contents of the instance-descriptor buffer, exactly as the first left it,
  for any state of the command lists.
\<close>

theorem commit_and_rebuild_idempotent:
  "commit_and_rebuild (s, dx) = Inr (s1, dx1) \<longrightarrow>
     (\<exists>dx2. commit_and_rebuild (s1, dx1) = Inr (s1, dx2)) \<and>
     (\<forall>n dx'. \<exists>s2 dx2. commit_and_rebuild_times n (s1, dx') = Inr (s2, dx2) \<and>
        instanceDescs s2 = instanceDescs s1 \<and> instanceDescsArray s2 = instanceDescsArray s1)"
proof
  assume a: "commit_and_rebuild (s, dx) = Inr (s1, dx1)"
  show "(\<exists>dx2. commit_and_rebuild (s1, dx1) = Inr (s1, dx2)) \<and>
     (\<forall>n dx'. \<exists>s2 dx2. commit_and_rebuild_times n (s1, dx') = Inr (s2, dx2) \<and>
        instanceDescs s2 = instanceDescs s1 \<and> instanceDescsArray s2 = instanceDescsArray s1)"
    using commit_and_rebuild_again [OF a] commit_and_rebuild_times_again [OF a] by blast
qed

text \<open>
  C4.  Start from a committed buffer.  If the transform of instance \<open>i\<close> is then
  overwritten and the descriptors are committed again, the buffer keeps its length and
  every entry other than \<open>i\<close> is what it was; entry \<open>i\<close>, when it is among the
  \<open>numInstances\<close> committed ones, is the old entry with the first three rows of the
  transposed matrix as its transform.  The second commit returns whenever the first did
  and \<open>i\<close> is inside the array.
\<close>

theorem commit_changes_one_entry:
  "(UpdateInstanceDescs s0 = Inr s1 \<and> UpdateInstanceTransform i M s1 = Inr s2 \<and>
    UpdateInstanceDescs s2 = Inr s3 \<longrightarrow>
      length (instanceDescs s3) = length (instanceDescs s1) \<and>
      (\<forall>j. j < length (instanceDescs s3) \<and> j \<noteq> unat i \<longrightarrow>
         instanceDescs s3 ! j = instanceDescs s1 ! j) \<and>
      (unat i < unat (numInstances s1) \<longrightarrow>
         instanceDescs s3 ! unat i =
           (instanceDescs s1 ! unat i)
             \<lparr>Transform := (matrix_row (XMMatrixTranspose M) 0,
                            matrix_row (XMMatrixTranspose M) 1,
                            matrix_row (XMMatrixTranspose M) 2)\<rparr>)) \<and>
   (UpdateInstanceDescs s0 = Inr s1 \<and> unat i < length (instanceDescsArray s1) \<longrightarrow>
      (\<exists>s2 s3. UpdateInstanceTransform i M s1 = Inr s2 \<and> UpdateInstanceDescs s2 = Inr s3))"
proof (intro conjI impI)
  assume a: "UpdateInstanceDescs s0 = Inr s1 \<and> UpdateInstanceTransform i M s1 = Inr s2 \<and>
    UpdateInstanceDescs s2 = Inr s3"
  note A = UpdateInstanceDescs_Inr [OF a [THEN conjunct1]]
  note B = UpdateInstanceTransform_Inr [OF a [THEN conjunct2, THEN conjunct1]]
  note C = UpdateInstanceDescs_Inr [OF a [THEN conjunct2, THEN conjunct2]]
  let ?n = "unat (numInstances s0)"
  let ?arr = "instanceDescsArray s0"
  let ?d = "fold (\<lambda>r d. set_Transform_row r (matrix_row (XMMatrixTranspose M) r) d)
              [0, 1, 2] (?arr ! unat i)"
  have b1: "instanceDescs s1 = take ?n ?arr @ drop ?n (instanceDescs s0)"
    by (simp add: A(3))
  have b3: "instanceDescs s3 = take ?n (?arr[unat i := ?d]) @ drop ?n (instanceDescs s0)"
    using A(1) by (simp add: C(3) B(2) A(3))
  show "length (instanceDescs s3) = length (instanceDescs s1)"
    by (simp add: b1 b3)
  show "\<forall>j. j < length (instanceDescs s3) \<and> j \<noteq> unat i \<longrightarrow>
         instanceDescs s3 ! j = instanceDescs s1 ! j"
    using A(1) by (auto simp: b1 b3 nth_append)
  show "instanceDescs s3 ! unat i =
           (instanceDescs s1 ! unat i)
             \<lparr>Transform := (matrix_row (XMMatrixTranspose M) 0,
                            matrix_row (XMMatrixTranspose M) 1,
                            matrix_row (XMMatrixTranspose M) 2)\<rparr>"
    if "unat i < unat (numInstances s1)"
  proof -
    from that have lt: "unat i < ?n" by (simp add: A(3))
    then have "instanceDescs s3 ! unat i = ?d" using A(1) by (simp add: b3 nth_append)
    moreover have "instanceDescs s1 ! unat i = ?arr ! unat i"
      using lt A(1) by (simp add: b1 nth_append)
    moreover have "?d = (?arr ! unat i)
             \<lparr>Transform := (matrix_row (XMMatrixTranspose M) 0,
                            matrix_row (XMMatrixTranspose M) 1,
                            matrix_row (XMMatrixTranspose M) 2)\<rparr>"
      by (cases "Transform (?arr ! unat i)") simp
    ultimately show ?thesis by simp
  qed
next
  assume a: "UpdateInstanceDescs s0 = Inr s1 \<and> unat i < length (instanceDescsArray s1)"
  note A = UpdateInstanceDescs_Inr [OF a [THEN conjunct1]]
  from a obtain s2 where s2: "UpdateInstanceTransform i M s1 = Inr s2"
    by (simp add: UpdateInstanceTransform_def Let_def)
  note B = UpdateInstanceTransform_Inr [OF s2]
  have "\<exists>s3. UpdateInstanceDescs s2 = Inr s3"
    using A(1,2) by (simp add: UpdateInstanceDescs_def Let_def B(2) A(3))
  with s2 show "\<exists>s2 s3. UpdateInstanceTransform i M s1 = Inr s2 \<and> UpdateInstanceDescs s2 = Inr s3"
    by blast
qed


lemma sample_commit:
  "UpdateInstanceDescs sample_scene =
     Inr (sample_scene\<lparr>instanceDescs := [sample_desc 0, sample_desc 1, sample_desc 2]\<rparr>)"
  by (simp add: UpdateInstanceDescs_def sample_scene_def del: One_nat_def)

text \<open>C5 at the sample scene: the first commit replaces the stale buffer contents, a
  second round and three more rounds leave them as they are.\<close>

theorem commit_and_rebuild_idempotent_witness:
  "case commit_and_rebuild (sample_scene, dx_idle) of
     Inl e \<Rightarrow> False
   | Inr (s1, dx1) \<Rightarrow>
       instanceDescs s1 = [sample_desc 0, sample_desc 1, sample_desc 2] \<and>
       (case commit_and_rebuild (s1, dx1) of
          Inl e \<Rightarrow> False
        | Inr (s2, dx2) \<Rightarrow> s2 = s1) \<and>
       (case commit_and_rebuild_times 3 (s1, dx1) of
          Inl e \<Rightarrow> False
        | Inr (s2, dx2) \<Rightarrow> instanceDescs s2 = [sample_desc 0, sample_desc 1, sample_desc 2])"
proof -
  obtain dx1 where tl: "UpdateTLAS (sample_scene\<lparr>instanceDescs :=
        [sample_desc 0, sample_desc 1, sample_desc 2]\<rparr>) dx_idle = Inr dx1"
    using UpdateTLAS_Inr by blast
  let ?s1 = "sample_scene\<lparr>instanceDescs := [sample_desc 0, sample_desc 1, sample_desc 2]\<rparr>"
  have run: "commit_and_rebuild (sample_scene, dx_idle) = Inr (?s1, dx1)"
    by (simp add: commit_and_rebuild_def sample_commit tl del: One_nat_def)
  note T = commit_and_rebuild_idempotent [of sample_scene dx_idle ?s1 dx1, THEN mp, OF run]
  from T [THEN conjunct1] obtain dx2 where
    again: "commit_and_rebuild (?s1, dx1) = Inr (?s1, dx2)" by blast
  from T [THEN conjunct2, THEN spec, THEN spec, of 3 dx1] obtain s2 dx3 where
    times: "commit_and_rebuild_times 3 (?s1, dx1) = Inr (s2, dx3)"
    and same: "instanceDescs s2 = instanceDescs ?s1" by blast
  show ?thesis
    unfolding run sum.case prod.case again times
    using same by (simp del: One_nat_def)
qed

text \<open>C4 at the sample scene: instance 1 gets the transposed sample matrix; entries 0 and 2
  of the buffer stay.\<close>

theorem commit_changes_one_entry_witness:
  "case UpdateInstanceDescs sample_scene of
     Inl e \<Rightarrow> False
   | Inr s1 \<Rightarrow>
      unat (1 :: UINT) < length (instanceDescsArray s1) \<and>
      (case UpdateInstanceTransform 1 sample_matrix s1 of
         Inl e \<Rightarrow> False
       | Inr s2 \<Rightarrow>
          (case UpdateInstanceDescs s2 of
             Inl e \<Rightarrow> False
           | Inr s3 \<Rightarrow>
               instanceDescs s1 = [sample_desc 0, sample_desc 1, sample_desc 2] \<and>
               instanceDescs s3 ! 0 = instanceDescs s1 ! 0 \<and>
               instanceDescs s3 ! 2 = instanceDescs s1 ! 2 \<and>
               length (instanceDescs s3) = 3 \<and>
               instanceDescs s3 ! 1 =
                 (sample_desc 1)
                   \<lparr>Transform := ((f_one, f_zero, f_zero, f_half), (f_zero, f_one, f_zero, f_half),
                                  (f_zero, f_zero, f_one, f_half))\<rparr>))"
proof -
  let ?s1 = "sample_scene\<lparr>instanceDescs := [sample_desc 0, sample_desc 1, sample_desc 2]\<rparr>"
  have in_range: "unat (1 :: UINT) < length (instanceDescsArray ?s1)"
    by (simp add: sample_scene_def)
  note T = commit_changes_one_entry [of sample_scene ?s1 1 sample_matrix]
  from T [THEN conjunct2, THEN mp] sample_commit in_range obtain s2 s3 where
    s2: "UpdateInstanceTransform 1 sample_matrix ?s1 = Inr s2"
    and s3: "UpdateInstanceDescs s2 = Inr s3"
    by blast
  note R = commit_changes_one_entry [of sample_scene ?s1 1 sample_matrix s2 s3,
      THEN conjunct1, THEN mp, OF conjI [OF sample_commit conjI [OF s2 s3]]]
  have len: "length (instanceDescs s3) = 3" using R [THEN conjunct1] by simp
  have e0: "instanceDescs s3 ! 0 = instanceDescs ?s1 ! 0"
    and e2: "instanceDescs s3 ! 2 = instanceDescs ?s1 ! 2"
    using R [THEN conjunct2, THEN conjunct1] len by simp_all
  have "unat (1 :: UINT) < unat (numInstances ?s1)" by (simp add: sample_scene_def)
  with R [THEN conjunct2, THEN conjunct2] have
    "instanceDescs s3 ! unat (1 :: UINT) =
           (instanceDescs ?s1 ! unat (1 :: UINT))
             \<lparr>Transform := (matrix_row (XMMatrixTranspose sample_matrix) 0,
                            matrix_row (XMMatrixTranspose sample_matrix) 1,
                            matrix_row (XMMatrixTranspose sample_matrix) 2)\<rparr>"
    by blast
  then have e1: "instanceDescs s3 ! 1 =
                 (sample_desc 1)
                   \<lparr>Transform := ((f_one, f_zero, f_zero, f_half), (f_zero, f_one, f_zero, f_half),
                                  (f_zero, f_zero, f_one, f_half))\<rparr>"
    by (simp add: sample_matrix_def XMMatrixTranspose_def del: One_nat_def)
  show ?thesis
    unfolding sample_commit sum.case s2 s3
    using in_range len e0 e2 e1 by (simp del: One_nat_def)
qed


subsection \<open>One frame: where the TLAS rebuild lands\<close>

lemmas frame_defs =
  visible_iteration_def render_eyes_def render_eye_def mirror_and_present_def
  UpdateInstancePosition_def UpdateInstanceDescs_def UpdateTLAS_def record_cmd_def
  DoRaytracing_def CopyRaytracingOutputToBackbuffer_def SubmitCommandList_def
  SubmitCommandListAndPresent_def WaitForPreviousFrame_def InitFrame_def InitCommandList_def
  SetActiveContext_def SetActiveEye_def S_OK_def SwapChainNumFrames_def Let_def

subsection \<open>Every visible frame: the order of submission\<close>

lemma and_then_eq_Inr: "and_then m f = Inr y \<longleftrightarrow> (\<exists>x. m = Inr x \<and> f x = Inr y)"
  by (cases m) simp_all

lemma record_cmd_eq_Inr:
  "record_cmd c cmd dx = Inr dx' \<longleftrightarrow>
     c \<noteq> DrawContext_Count \<and>
     dx' = dx\<lparr>CommandLists := (CommandLists dx)
                 ((SwapChainFrameIndex dx, c) := CommandLists dx (SwapChainFrameIndex dx, c) @ [cmd])\<rparr>"
  by (auto simp: record_cmd_def)

lemma record_cmds_Inr:
  assumes "record_cmds c cs dx = Inr dx'"
  shows "dx' = dx\<lparr>CommandLists := (CommandLists dx)
                 ((SwapChainFrameIndex dx, c) := CommandLists dx (SwapChainFrameIndex dx, c) @ cs)\<rparr>"
  using assms
proof (induction cs arbitrary: dx)
  case Nil
  then show ?case by simp
next
  case (Cons a cs)
  then obtain dx1 where a: "record_cmd c a dx = Inr dx1" and r: "record_cmds c cs dx1 = Inr dx'"
    by (auto simp: and_then_eq_Inr)
  from a have dx1: "dx1 = dx\<lparr>CommandLists := (CommandLists dx)
        ((SwapChainFrameIndex dx, c) := CommandLists dx (SwapChainFrameIndex dx, c) @ [a])\<rparr>"
    by (simp add: record_cmd_eq_Inr)
  have "dx' = dx1\<lparr>CommandLists := (CommandLists dx1)
        ((SwapChainFrameIndex dx1, c) := CommandLists dx1 (SwapChainFrameIndex dx1, c) @ cs)\<rparr>"
    by (rule Cons.IH [OF r])
  also have "\<dots> = dx\<lparr>CommandLists := ((CommandLists dx)
        ((SwapChainFrameIndex dx, c) := CommandLists dx (SwapChainFrameIndex dx, c) @ [a]))
        ((SwapChainFrameIndex dx, c) := (CommandLists dx (SwapChainFrameIndex dx, c) @ [a]) @ cs)\<rparr>"
    unfolding dx1 by simp
  also have "\<dots> = dx\<lparr>CommandLists := (CommandLists dx)
        ((SwapChainFrameIndex dx, c) := CommandLists dx (SwapChainFrameIndex dx, c) @ a # cs)\<rparr>"
    by (simp only: fun_upd_upd append_assoc append_Cons append_Nil)
  finally show ?case .
qed

text \<open>What one eye adds: commands on the eye's own list, with the dispatch and without
  any build of an acceleration structure, and one submission of that list.\<close>

lemma render_eye_Inr:
  assumes "render_eye fe scene eye dx = Inr dx'"
  defines "c \<equiv> (if eye = 0 then DrawContext_EyeRenderLeft else DrawContext_EyeRenderRight)"
  shows "\<exists>L. Cmd_DispatchRays \<in> set L \<and>
              (\<forall>bd. Cmd_BuildRaytracingAccelerationStructure bd \<notin> set L) \<and>
              Trace dx' = Trace dx @
                [Ev_ExecuteCommandLists (SwapChainFrameIndex dx) c
                   (CommandLists dx (SwapChainFrameIndex dx, c) @ L)] \<and>
              SwapChainFrameIndex dx' = SwapChainFrameIndex dx \<and>
              (\<forall>k. k \<noteq> (SwapChainFrameIndex dx, c) \<longrightarrow> CommandLists dx' k = CommandLists dx k)"
  using assms(1) unfolding c_def
  by (auto simp: render_eye_def Let_def and_then_eq_Inr record_cmd_eq_Inr DoRaytracing_def
      CopyRaytracingOutputToBackbuffer_def SubmitCommandList_def SetActiveContext_def
      SetActiveEye_def
      dest!: record_cmds_Inr split: if_splits)


lemma UpdateTLAS_eq:
  "UpdateTLAS scene dx =
     Inr (dx\<lparr>CommandLists := (CommandLists dx)
            ((SwapChainFrameIndex dx, DrawContext_Final) :=
               CommandLists dx (SwapChainFrameIndex dx, DrawContext_Final) @
                 [Cmd_BuildRaytracingAccelerationStructure
                    \<lparr> bd_Inputs = TopLevelInputs (numInstances scene) (instanceDescs_address scene),
                      bd_DestAccelerationStructureData = m_topLevelAccelerationStructure scene,
                      bd_ScratchAccelerationStructureData = ScratchAccelerationStructureData scene \<rparr>,
                  Cmd_ResourceBarrier
                    [Barrier_UAV (Res_Buffer (m_topLevelAccelerationStructure scene))]])\<rparr>)"
  by (simp add: UpdateTLAS_def record_cmd_def Let_def)

text \<open>The visible part of an iteration up to \<open>ovr_EndFrame\<close>: both eye lists have been
  submitted, and the rebuild of the TLAS is at the end of the final list, which has not.\<close>

lemma render_eyes_Inr:
  assumes "render_eyes fe (scene, dx) = Inr (scene', dx')"
  shows "\<exists>L R bd.
           Cmd_DispatchRays \<in> set L \<and> Cmd_DispatchRays \<in> set R \<and>
           (\<forall>b. Cmd_BuildRaytracingAccelerationStructure b \<notin> set L) \<and>
           (\<forall>b. Cmd_BuildRaytracingAccelerationStructure b \<notin> set R) \<and>
           Trace dx' = Trace dx @
             [Ev_ExecuteCommandLists (SwapChainFrameIndex dx) DrawContext_EyeRenderLeft
                (CommandLists dx (SwapChainFrameIndex dx, DrawContext_EyeRenderLeft) @ L),
              Ev_ExecuteCommandLists (SwapChainFrameIndex dx) DrawContext_EyeRenderRight
                (CommandLists dx (SwapChainFrameIndex dx, DrawContext_EyeRenderRight) @ R)] \<and>
           SwapChainFrameIndex dx' = SwapChainFrameIndex dx \<and>
           CommandLists dx' (SwapChainFrameIndex dx, DrawContext_Final) =
             CommandLists dx (SwapChainFrameIndex dx, DrawContext_Final) @
               [Cmd_BuildRaytracingAccelerationStructure bd,
                Cmd_ResourceBarrier [Barrier_UAV (Res_Buffer (bd_DestAccelerationStructureData bd))]] \<and>
           bd_DestAccelerationStructureData bd = m_topLevelAccelerationStructure scene'"
proof -
  let ?f = "SwapChainFrameIndex dx"
  from assms obtain dx1 dx2 where
    t: "UpdateTLAS scene' dx = Inr dx1" and
    l: "render_eye fe scene' 0 dx1 = Inr dx2" and
    r: "render_eye fe scene' 1 dx2 = Inr dx'"
    by (auto simp: render_eyes_def and_then_eq_Inr)
  let ?bd = "\<lparr> bd_Inputs = TopLevelInputs (numInstances scene') (instanceDescs_address scene'),
                bd_DestAccelerationStructureData = m_topLevelAccelerationStructure scene',
                bd_ScratchAccelerationStructureData = ScratchAccelerationStructureData scene' \<rparr>"
  from t have dx1: "Trace dx1 = Trace dx" "SwapChainFrameIndex dx1 = ?f"
    "CommandLists dx1 (?f, DrawContext_EyeRenderLeft) = CommandLists dx (?f, DrawContext_EyeRenderLeft)"
    "CommandLists dx1 (?f, DrawContext_EyeRenderRight) = CommandLists dx (?f, DrawContext_EyeRenderRight)"
    "CommandLists dx1 (?f, DrawContext_Final) =
       CommandLists dx (?f, DrawContext_Final) @
         [Cmd_BuildRaytracingAccelerationStructure ?bd,
          Cmd_ResourceBarrier [Barrier_UAV (Res_Buffer (bd_DestAccelerationStructureData ?bd))]]"
    by (auto simp: UpdateTLAS_eq)
  from render_eye_Inr [OF l] obtain L where L: "Cmd_DispatchRays \<in> set L"
    "\<forall>b. Cmd_BuildRaytracingAccelerationStructure b \<notin> set L"
    "Trace dx2 = Trace dx1 @ [Ev_ExecuteCommandLists (SwapChainFrameIndex dx1) DrawContext_EyeRenderLeft
       (CommandLists dx1 (SwapChainFrameIndex dx1, DrawContext_EyeRenderLeft) @ L)]"
    "SwapChainFrameIndex dx2 = SwapChainFrameIndex dx1"
    "\<forall>k. k \<noteq> (SwapChainFrameIndex dx1, DrawContext_EyeRenderLeft) \<longrightarrow>
         CommandLists dx2 k = CommandLists dx1 k"
    by auto
  from render_eye_Inr [OF r] obtain R where R: "Cmd_DispatchRays \<in> set R"
    "\<forall>b. Cmd_BuildRaytracingAccelerationStructure b \<notin> set R"
    "Trace dx' = Trace dx2 @ [Ev_ExecuteCommandLists (SwapChainFrameIndex dx2) DrawContext_EyeRenderRight
       (CommandLists dx2 (SwapChainFrameIndex dx2, DrawContext_EyeRenderRight) @ R)]"
    "SwapChainFrameIndex dx' = SwapChainFrameIndex dx2"
    "\<forall>k. k \<noteq> (SwapChainFrameIndex dx2, DrawContext_EyeRenderRight) \<longrightarrow>
         CommandLists dx' k = CommandLists dx2 k"
    by auto
  have f2: "SwapChainFrameIndex dx2 = ?f" using L(4) dx1(2) by simp
  have "CommandLists dx2 (?f, DrawContext_EyeRenderRight) = CommandLists dx (?f, DrawContext_EyeRenderRight)"
    using L(5) dx1(2,4) by simp
  moreover have "CommandLists dx' (?f, DrawContext_Final) = CommandLists dx1 (?f, DrawContext_Final)"
    using L(5) R(5) f2 dx1(2) by simp
  ultimately have
    "Cmd_DispatchRays \<in> set L \<and> Cmd_DispatchRays \<in> set R \<and>
     (\<forall>b. Cmd_BuildRaytracingAccelerationStructure b \<notin> set L) \<and>
     (\<forall>b. Cmd_BuildRaytracingAccelerationStructure b \<notin> set R) \<and>
     Trace dx' = Trace dx @
       [Ev_ExecuteCommandLists ?f DrawContext_EyeRenderLeft
          (CommandLists dx (?f, DrawContext_EyeRenderLeft) @ L),
        Ev_ExecuteCommandLists ?f DrawContext_EyeRenderRight
          (CommandLists dx (?f, DrawContext_EyeRenderRight) @ R)] \<and>
     SwapChainFrameIndex dx' = ?f \<and>
     CommandLists dx' (?f, DrawContext_Final) =
       CommandLists dx (?f, DrawContext_Final) @
         [Cmd_BuildRaytracingAccelerationStructure ?bd,
          Cmd_ResourceBarrier [Barrier_UAV (Res_Buffer (bd_DestAccelerationStructureData ?bd))]] \<and>
     bd_DestAccelerationStructureData ?bd = m_topLevelAccelerationStructure scene'"
    using L(1-4) R(1-4) dx1 f2 by simp
  then show ?thesis by blast
qed

text \<open>The end of the iteration: the final list is extended and submitted, then comes the
  present.\<close>

lemma mirror_and_present_Inr:
  assumes "mirror_and_present fe (scene, dx) = Inr (scene', dx')"
  shows "\<exists>F rest. Trace dx' = Trace dx @
           Ev_ExecuteCommandLists (SwapChainFrameIndex dx) DrawContext_Final
             (CommandLists dx (SwapChainFrameIndex dx, DrawContext_Final) @ F) # Ev_Present # rest"
  using assms
  by (auto simp: mirror_and_present_def Let_def and_then_eq_Inr record_cmd_eq_Inr
      SubmitCommandListAndPresent_def SubmitCommandList_def SetActiveContext_def
      WaitForPreviousFrame_def InitFrame_def InitCommandList_def
      split: if_splits)


text \<open>The frame of the example: one visible iteration from the sample state, everything
  succeeding, and all that reaches the queue.\<close>

lemma good_frame_trace:
  "map_sum id (\<lambda>st. Trace (snd st))
     (visible_iteration good_frame (sample_scene, dx_lists_reset)) =
   Inr
     [Ev_ExecuteCommandLists 0 DrawContext_EyeRenderLeft
       [Cmd_SetDescriptorHeaps,
        Cmd_ResourceBarrier
          [Barrier_Transition (Res_EyeColor 0) STATE_PIXEL_SHADER_RESOURCE STATE_RENDER_TARGET],
        Cmd_ResourceBarrier
          [Barrier_Transition (Res_EyeDepth 0) STATE_PIXEL_SHADER_RESOURCE STATE_DEPTH_WRITE],
        Cmd_SetComputeRootSignature,
        Cmd_SetComputeRootConstantBufferView 0,
        Cmd_SetDescriptorHeaps,
        Cmd_SetComputeRootDescriptorTable OutputViewSlot,
        Cmd_SetComputeRootDescriptorTable OutputDepthSlot,
        Cmd_SetComputeRootDescriptorTable VertexBufferSlot,
        Cmd_SetComputeRootDescriptorTable TextureSlot,
        Cmd_SetComputeRootShaderResourceView 0x400000,
        Cmd_SetPipelineState1,
        Cmd_DispatchRays,
        Cmd_ResourceBarrier
          [Barrier_Transition (Res_EyeColor 0) STATE_RENDER_TARGET STATE_COPY_DEST,
           Barrier_Transition (Res_EyeDepth 0) STATE_DEPTH_WRITE STATE_COPY_DEST,
           Barrier_Transition (Res_RaytracingOutput DrawContext_EyeRenderLeft) STATE_UNORDERED_ACCESS STATE_COPY_SOURCE,
           Barrier_Transition (Res_RaytracingDepthOutput DrawContext_EyeRenderLeft) STATE_UNORDERED_ACCESS STATE_COPY_SOURCE],
        Cmd_CopyResource (Res_EyeColor 0) (Res_RaytracingOutput DrawContext_EyeRenderLeft),
        Cmd_CopyResource (Res_EyeDepth 0) (Res_RaytracingDepthOutput DrawContext_EyeRenderLeft),
        Cmd_ResourceBarrier
          [Barrier_Transition (Res_EyeColor 0) STATE_COPY_DEST STATE_RENDER_TARGET,
           Barrier_Transition (Res_EyeDepth 0) STATE_COPY_DEST STATE_DEPTH_WRITE,
           Barrier_Transition (Res_RaytracingOutput DrawContext_EyeRenderLeft) STATE_COPY_SOURCE STATE_UNORDERED_ACCESS,
           Barrier_Transition (Res_RaytracingDepthOutput DrawContext_EyeRenderLeft) STATE_COPY_SOURCE STATE_UNORDERED_ACCESS],
        Cmd_ResourceBarrier
          [Barrier_Transition (Res_EyeColor 0) STATE_RENDER_TARGET STATE_PIXEL_SHADER_RESOURCE],
        Cmd_ResourceBarrier
          [Barrier_Transition (Res_EyeDepth 0) STATE_DEPTH_WRITE STATE_PIXEL_SHADER_RESOURCE]],
      Ev_ExecuteCommandLists 0 DrawContext_EyeRenderRight
       [Cmd_SetDescriptorHeaps,
        Cmd_ResourceBarrier
          [Barrier_Transition (Res_EyeColor 1) STATE_PIXEL_SHADER_RESOURCE STATE_RENDER_TARGET],
        Cmd_ResourceBarrier
          [Barrier_Transition (Res_EyeDepth 1) STATE_PIXEL_SHADER_RESOURCE STATE_DEPTH_WRITE],
        Cmd_SetComputeRootSignature,
        Cmd_SetComputeRootConstantBufferView 0,
        Cmd_SetDescriptorHeaps,
        Cmd_SetComputeRootDescriptorTable OutputViewSlot,
        Cmd_SetComputeRootDescriptorTable OutputDepthSlot,
        Cmd_SetComputeRootDescriptorTable VertexBufferSlot,
        Cmd_SetComputeRootDescriptorTable TextureSlot,
        Cmd_SetComputeRootShaderResourceView 0x400000,
        Cmd_SetPipelineState1,
        Cmd_DispatchRays,
        Cmd_ResourceBarrier
          [Barrier_Transition (Res_EyeColor 1) STATE_RENDER_TARGET STATE_COPY_DEST,
           Barrier_Transition (Res_EyeDepth 1) STATE_DEPTH_WRITE STATE_COPY_DEST,
           Barrier_Transition (Res_RaytracingOutput DrawContext_EyeRenderRight) STATE_UNORDERED_ACCESS STATE_COPY_SOURCE,
           Barrier_Transition (Res_RaytracingDepthOutput DrawContext_EyeRenderRight) STATE_UNORDERED_ACCESS STATE_COPY_SOURCE],
        Cmd_CopyResource (Res_EyeColor 1) (Res_RaytracingOutput DrawContext_EyeRenderRight),
        Cmd_CopyResource (Res_EyeDepth 1) (Res_RaytracingDepthOutput DrawContext_EyeRenderRight),
        Cmd_ResourceBarrier
          [Barrier_Transition (Res_EyeColor 1) STATE_COPY_DEST STATE_RENDER_TARGET,
           Barrier_Transition (Res_EyeDepth 1) STATE_COPY_DEST STATE_DEPTH_WRITE,
           Barrier_Transition (Res_RaytracingOutput DrawContext_EyeRenderRight) STATE_COPY_SOURCE STATE_UNORDERED_ACCESS,
           Barrier_Transition (Res_RaytracingDepthOutput DrawContext_EyeRenderRight) STATE_COPY_SOURCE STATE_UNORDERED_ACCESS],
        Cmd_ResourceBarrier
          [Barrier_Transition (Res_EyeColor 1) STATE_RENDER_TARGET STATE_PIXEL_SHADER_RESOURCE],
        Cmd_ResourceBarrier
          [Barrier_Transition (Res_EyeDepth 1) STATE_DEPTH_WRITE STATE_PIXEL_SHADER_RESOURCE]],
      Ev_ExecuteCommandLists 0 DrawContext_Final
       [Cmd_SetDescriptorHeaps,
        Cmd_ResourceBarrier
          [Barrier_Transition (Res_SwapChainBuffer 0) STATE_PRESENT STATE_RENDER_TARGET],
        Cmd_BuildRaytracingAccelerationStructure
          \<lparr> bd_Inputs = TopLevelInputs 3 0x300000,
            bd_DestAccelerationStructureData = 0x400000,
            bd_ScratchAccelerationStructureData = 0x500000 \<rparr>,
        Cmd_ResourceBarrier [Barrier_UAV (Res_Buffer 0x400000)],
        Cmd_RSSetViewports,
        Cmd_RSSetScissorRects,
        Cmd_ResourceBarrier
          [Barrier_Transition (Res_SwapChainBuffer 0) STATE_RENDER_TARGET STATE_COPY_DEST,
           Barrier_Transition Res_MirrorTexture STATE_RENDER_TARGET STATE_COPY_SOURCE],
        Cmd_CopyTextureRegion (Res_SwapChainBuffer 0) Res_MirrorTexture,
        Cmd_ResourceBarrier
          [Barrier_Transition Res_MirrorTexture STATE_COPY_SOURCE STATE_RENDER_TARGET],
        Cmd_ResourceBarrier
          [Barrier_Transition (Res_SwapChainBuffer 0) STATE_COPY_DEST STATE_PRESENT]],
      Ev_Present,
      Ev_Signal 0 0]"
  by (simp add: frame_defs good_frame_def dx_lists_reset_def sample_scene_def sample_desc_def)

text \<open>
  C1.  What the code does in every visible frame that runs to its end: the queue receives
  the list of the left eye, then the list of the right eye, then the final list of the
  same slot.  The commands the frame has added to each eye list contain the dispatch of
  the rays and no build of an acceleration structure; the rebuild of the TLAS is on the
  final list, the first command the frame has added there.  So rebuild and dispatch are
  on different command lists, and the list with the rebuild is submitted after the two
  lists with the dispatches.
\<close>

theorem TLAS_rebuild_submitted_after_dispatches:
  assumes "visible_iteration fe (scene, dx) = Inr (scene', dx')"
  shows "\<exists>L R F bd rest.
           Trace dx' = Trace dx @
             [Ev_ExecuteCommandLists (SwapChainFrameIndex dx) DrawContext_EyeRenderLeft
                (CommandLists dx (SwapChainFrameIndex dx, DrawContext_EyeRenderLeft) @ L),
              Ev_ExecuteCommandLists (SwapChainFrameIndex dx) DrawContext_EyeRenderRight
                (CommandLists dx (SwapChainFrameIndex dx, DrawContext_EyeRenderRight) @ R),
              Ev_ExecuteCommandLists (SwapChainFrameIndex dx) DrawContext_Final
                (CommandLists dx (SwapChainFrameIndex dx, DrawContext_Final) @
                   Cmd_BuildRaytracingAccelerationStructure bd # F)] @ rest \<and>
           Cmd_DispatchRays \<in> set L \<and> Cmd_DispatchRays \<in> set R \<and>
           (\<forall>b. Cmd_BuildRaytracingAccelerationStructure b \<notin> set L) \<and>
           (\<forall>b. Cmd_BuildRaytracingAccelerationStructure b \<notin> set R) \<and>
           bd_DestAccelerationStructureData bd = m_topLevelAccelerationStructure scene'"
proof -
  let ?f = "SwapChainFrameIndex dx"
  from assms obtain scene1 dx1 where
    e: "render_eyes fe (scene, dx) = Inr (scene1, dx1)" and
    m: "mirror_and_present fe (scene1, dx1) = Inr (scene', dx')"
    by (auto simp: visible_iteration_def and_then_eq_Inr)
  from m have sc: "scene' = scene1"
    by (auto simp: mirror_and_present_def Let_def and_then_eq_Inr)
  from render_eyes_Inr [OF e] obtain L R bd where
    LR: "Cmd_DispatchRays \<in> set L" "Cmd_DispatchRays \<in> set R"
      "\<forall>b. Cmd_BuildRaytracingAccelerationStructure b \<notin> set L"
      "\<forall>b. Cmd_BuildRaytracingAccelerationStructure b \<notin> set R" and
    tr: "Trace dx1 = Trace dx @
       [Ev_ExecuteCommandLists ?f DrawContext_EyeRenderLeft
          (CommandLists dx (?f, DrawContext_EyeRenderLeft) @ L),
        Ev_ExecuteCommandLists ?f DrawContext_EyeRenderRight
          (CommandLists dx (?f, DrawContext_EyeRenderRight) @ R)]" and
    f1: "SwapChainFrameIndex dx1 = ?f" and
    fin: "CommandLists dx1 (?f, DrawContext_Final) =
       CommandLists dx (?f, DrawContext_Final) @
         [Cmd_BuildRaytracingAccelerationStructure bd,
          Cmd_ResourceBarrier [Barrier_UAV (Res_Buffer (bd_DestAccelerationStructureData bd))]]" and
    dest: "bd_DestAccelerationStructureData bd = m_topLevelAccelerationStructure scene1"
    by blast
  from mirror_and_present_Inr [OF m] obtain F rest where
    "Trace dx' = Trace dx1 @
       Ev_ExecuteCommandLists (SwapChainFrameIndex dx1) DrawContext_Final
         (CommandLists dx1 (SwapChainFrameIndex dx1, DrawContext_Final) @ F) # Ev_Present # rest"
    by blast
  then have "Trace dx' = Trace dx @
       [Ev_ExecuteCommandLists ?f DrawContext_EyeRenderLeft
          (CommandLists dx (?f, DrawContext_EyeRenderLeft) @ L),
        Ev_ExecuteCommandLists ?f DrawContext_EyeRenderRight
          (CommandLists dx (?f, DrawContext_EyeRenderRight) @ R),
        Ev_ExecuteCommandLists ?f DrawContext_Final
          (CommandLists dx (?f, DrawContext_Final) @
             Cmd_BuildRaytracingAccelerationStructure bd #
             (Cmd_ResourceBarrier [Barrier_UAV (Res_Buffer (bd_DestAccelerationStructureData bd))]
              # F))] @ (Ev_Present # rest)"
    by (simp add: tr f1 fin)
  with LR dest sc show ?thesis by blast
qed

theorem TLAS_rebuild_submitted_after_dispatches_witness:
  "\<exists>scene' dx'.
     visible_iteration good_frame (sample_scene, dx_lists_reset) = Inr (scene', dx') \<and>
     (\<exists>L R F bd rest.
        Trace dx' =
          [Ev_ExecuteCommandLists 0 DrawContext_EyeRenderLeft (Cmd_SetDescriptorHeaps # L),
           Ev_ExecuteCommandLists 0 DrawContext_EyeRenderRight (Cmd_SetDescriptorHeaps # R),
           Ev_ExecuteCommandLists 0 DrawContext_Final
             (Cmd_SetDescriptorHeaps #
              Cmd_ResourceBarrier
                [Barrier_Transition (Res_SwapChainBuffer 0) STATE_PRESENT STATE_RENDER_TARGET] #
              Cmd_BuildRaytracingAccelerationStructure bd # F)] @ rest \<and>
        Cmd_DispatchRays \<in> set L \<and> Cmd_DispatchRays \<in> set R \<and>
        (\<forall>b. Cmd_BuildRaytracingAccelerationStructure b \<notin> set L) \<and>
        (\<forall>b. Cmd_BuildRaytracingAccelerationStructure b \<notin> set R) \<and>
        bd_DestAccelerationStructureData bd = m_topLevelAccelerationStructure scene')"
proof -
  from good_frame_trace obtain scene' dx' where
    r: "visible_iteration good_frame (sample_scene, dx_lists_reset) = Inr (scene', dx')"
    by (cases "visible_iteration good_frame (sample_scene, dx_lists_reset)") auto
  from TLAS_rebuild_submitted_after_dispatches [OF r]
  have "\<exists>L R F bd rest.
        Trace dx' =
          [Ev_ExecuteCommandLists 0 DrawContext_EyeRenderLeft (Cmd_SetDescriptorHeaps # L),
           Ev_ExecuteCommandLists 0 DrawContext_EyeRenderRight (Cmd_SetDescriptorHeaps # R),
           Ev_ExecuteCommandLists 0 DrawContext_Final
             (Cmd_SetDescriptorHeaps #
              Cmd_ResourceBarrier
                [Barrier_Transition (Res_SwapChainBuffer 0) STATE_PRESENT STATE_RENDER_TARGET] #
              Cmd_BuildRaytracingAccelerationStructure bd # F)] @ rest \<and>
        Cmd_DispatchRays \<in> set L \<and> Cmd_DispatchRays \<in> set R \<and>
        (\<forall>b. Cmd_BuildRaytracingAccelerationStructure b \<notin> set L) \<and>
        (\<forall>b. Cmd_BuildRaytracingAccelerationStructure b \<notin> set R) \<and>
        bd_DestAccelerationStructureData bd = m_topLevelAccelerationStructure scene'"
    by (simp add: dx_lists_reset_def)
  with r show ?thesis by blast
qed



subsection \<open>What the frame loop returns\<close>

text \<open>Iterations after which the loop goes on either stop the process or lead to the rest
  of the loop with \<open>retryCreate\<close> unchanged and a successful \<open>result\<close>.\<close>

lemma main_loop_continues:
  assumes "list_all (frame_continues ok) pre" and "ok result"
  shows "(\<exists>e. main_loop ok lost (pre @ rest) (retry, result, st) = Some (Inl e)) \<or>
         (\<exists>result' st'. ok result' \<and>
            main_loop ok lost (pre @ rest) (retry, result, st) =
              main_loop ok lost rest (retry, result', st'))"
  using assms
proof (induction pre arbitrary: result st)
  case Nil
  then have "ok result \<and>
      main_loop ok lost ([] @ rest) (retry, result, st) = main_loop ok lost rest (retry, result, st)"
    by simp
  then show ?case by blast
next
  case (Cons fe pre)
  from Cons.prems have c: "HandleMessages fe" "\<not> ShouldQuit fe"
    "IsVisible fe \<longrightarrow> ok (EndFrame_result fe)"
    by (simp_all add: frame_continues_def)
  from Cons.prems have pre: "list_all (frame_continues ok) pre"
    by simp
  show ?case
  proof (cases "IsVisible fe")
    case True
    with c have okr: "ok (EndFrame_result fe)" by simp
    show ?thesis
    proof (cases "render_eyes fe st")
      case (Inl e)
      then show ?thesis using c True by simp
    next
      case (Inr st1)
      show ?thesis
      proof (cases "mirror_and_present fe st1")
        case (Inl e)
        then show ?thesis using c True okr Inr by simp
      next
        case st2: (Inr st2)
        have "main_loop ok lost ((fe # pre) @ rest) (retry, result, st) =
                main_loop ok lost (pre @ rest) (retry, EndFrame_result fe, st2)"
          using c True okr Inr st2 by simp
        with Cons.IH [OF pre okr, of st2] show ?thesis by simp
      qed
    qed
  next
    case False
    show ?thesis
    proof (cases "mirror_and_present fe st")
      case (Inl e)
      then show ?thesis using c False by simp
    next
      case st2: (Inr st2)
      have "main_loop ok lost ((fe # pre) @ rest) (retry, result, st) =
              main_loop ok lost (pre @ rest) (retry, result, st2)"
        using c False st2 by simp
      with Cons.IH [OF pre Cons.prems(2), of st2] show ?thesis by simp
    qed
  qed
qed

lemma MainLoop_after_setup:
  assumes "setup_succeeds ok setup"
  shows "MainLoop ok lost setup frames retry =
           (case scene_and_device setup of
              Inl e \<Rightarrow> Some (Inl e)
            | Inr st \<Rightarrow> main_loop ok lost frames (retry, CreateMirrorTexture_result setup, st))"
  using assms
  by (simp add: MainLoop_def setup_succeeds_def create_eye_texture_def Let_def)

lemma MainLoop_setup_fails:
  assumes "setup_fails ok setup"
  shows "MainLoop ok lost setup frames True = Some (Inr True)"
  using assms
  by (auto simp: MainLoop_def setup_fails_def create_eye_texture_def Let_def
      split: sum.splits bool.splits option.splits)

lemma MainLoop_quit:
  assumes "setup_succeeds ok setup" "list_all (frame_continues ok) pre"
    "HandleMessages fe" "ShouldQuit fe" "\<not> ok lost"
  shows "(\<exists>e. MainLoop ok lost setup (pre @ fe # post) retry = Some (Inl e)) \<or>
         MainLoop ok lost setup (pre @ fe # post) retry = Some (Inr False)"
proof (cases "scene_and_device setup")
  case (Inl e)
  then show ?thesis by (simp add: MainLoop_after_setup [OF assms(1)])
next
  case (Inr st)
  have okm: "ok (CreateMirrorTexture_result setup)"
    using assms(1) by (simp add: setup_succeeds_def)
  from main_loop_continues [OF assms(2) okm, of lost "fe # post" retry st]
  show ?thesis
  proof
    assume "\<exists>e. main_loop ok lost (pre @ fe # post) (retry, CreateMirrorTexture_result setup, st)
              = Some (Inl e)"
    then show ?thesis by (simp add: MainLoop_after_setup [OF assms(1)] Inr)
  next
    assume "\<exists>result' st'. ok result' \<and>
       main_loop ok lost (pre @ fe # post) (retry, CreateMirrorTexture_result setup, st) =
       main_loop ok lost (fe # post) (retry, result', st')"
    then obtain result' st' where okr: "ok result'" and
      eq: "main_loop ok lost (pre @ fe # post) (retry, CreateMirrorTexture_result setup, st) =
             main_loop ok lost (fe # post) (retry, result', st')"
      by blast
    from okr assms(5) have "result' \<noteq> lost" by auto
    then have "main_loop ok lost (fe # post) (retry, result', st') = Some (Inr False)"
      using assms(3,4) by simp
    then show ?thesis by (simp add: MainLoop_after_setup [OF assms(1)] Inr eq)
  qed
qed

text \<open>The other two ways out of the loop: the window stops running, or \<open>ovr_EndFrame\<close>
  fails with some other error.  Both return \<open>retryCreate\<close>.\<close>

lemma MainLoop_window_closed:
  assumes "setup_succeeds ok setup" "list_all (frame_continues ok) pre"
    "\<not> HandleMessages fe" "\<not> ok lost"
  shows "(\<exists>e. MainLoop ok lost setup (pre @ fe # post) retry = Some (Inl e)) \<or>
         MainLoop ok lost setup (pre @ fe # post) retry = Some (Inr retry)"
proof (cases "scene_and_device setup")
  case (Inl e)
  then show ?thesis by (simp add: MainLoop_after_setup [OF assms(1)])
next
  case (Inr st)
  have okm: "ok (CreateMirrorTexture_result setup)"
    using assms(1) by (simp add: setup_succeeds_def)
  from main_loop_continues [OF assms(2) okm, of lost "fe # post" retry st]
  show ?thesis
  proof
    assume "\<exists>e. main_loop ok lost (pre @ fe # post) (retry, CreateMirrorTexture_result setup, st)
              = Some (Inl e)"
    then show ?thesis by (simp add: MainLoop_after_setup [OF assms(1)] Inr)
  next
    assume "\<exists>result' st'. ok result' \<and>
       main_loop ok lost (pre @ fe # post) (retry, CreateMirrorTexture_result setup, st) =
       main_loop ok lost (fe # post) (retry, result', st')"
    then obtain result' st' where okr: "ok result'" and
      eq: "main_loop ok lost (pre @ fe # post) (retry, CreateMirrorTexture_result setup, st) =
             main_loop ok lost (fe # post) (retry, result', st')"
      by blast
    from okr assms(4) have "result' \<noteq> lost" by auto
    then have "main_loop ok lost (fe # post) (retry, result', st') = Some (Inr retry)"
      using assms(3) by simp
    then show ?thesis by (simp add: MainLoop_after_setup [OF assms(1)] Inr eq)
  qed
qed


lemma MainLoop_EndFrame_failed:
  assumes "setup_succeeds ok setup" "list_all (frame_continues ok) pre"
    "HandleMessages fe" "\<not> ShouldQuit fe" "IsVisible fe" "\<not> ok (EndFrame_result fe)"
  shows "(\<exists>e. MainLoop ok lost setup (pre @ fe # post) retry = Some (Inl e)) \<or>
         MainLoop ok lost setup (pre @ fe # post) retry =
           Some (Inr (retry \<or> EndFrame_result fe = lost))"
proof (cases "scene_and_device setup")
  case (Inl e)
  then show ?thesis by (simp add: MainLoop_after_setup [OF assms(1)])
next
  case (Inr st)
  have okm: "ok (CreateMirrorTexture_result setup)"
    using assms(1) by (simp add: setup_succeeds_def)
  from main_loop_continues [OF assms(2) okm, of lost "fe # post" retry st]
  show ?thesis
  proof
    assume "\<exists>e. main_loop ok lost (pre @ fe # post) (retry, CreateMirrorTexture_result setup, st)
              = Some (Inl e)"
    then show ?thesis by (simp add: MainLoop_after_setup [OF assms(1)] Inr)
  next
    assume "\<exists>result' st'. ok result' \<and>
       main_loop ok lost (pre @ fe # post) (retry, CreateMirrorTexture_result setup, st) =
       main_loop ok lost (fe # post) (retry, result', st')"
    then obtain result' st' where
      eq: "main_loop ok lost (pre @ fe # post) (retry, CreateMirrorTexture_result setup, st) =
             main_loop ok lost (fe # post) (retry, result', st')"
      by blast
    have "(\<exists>e. main_loop ok lost (fe # post) (retry, result', st') = Some (Inl e)) \<or>
          main_loop ok lost (fe # post) (retry, result', st') =
            Some (Inr (retry \<or> EndFrame_result fe = lost))"
      using assms(3-6) by (cases "render_eyes fe st'") simp_all
    then show ?thesis by (simp add: MainLoop_after_setup [OF assms(1)] Inr eq)
  qed
qed

text \<open>
  C8 (as amended).  \<open>MainLoop\<close> returns a boolean to its caller or stops the process, and
  the boolean is \<open>retryCreate || (result == ovrError_DisplayLost)\<close> with \<open>retryCreate\<close>
  cleared by a quit request.  With \<open>ovrError_DisplayLost\<close> not a success code: a failed
  \<open>ovr_Create\<close> returns \<open>retryCreate\<close>; a later failure of the set-up returns true when
  retry is permitted; and after a successful set-up and iterations that go on, the
  iteration that ends the loop returns \<open>retryCreate\<close> if the window has closed, false if
  the runtime requests quit, and otherwise (\<open>ovr_EndFrame\<close> failed) true if the error is
  \<open>ovrError_DisplayLost\<close> and \<open>retryCreate\<close> if it is any other error.
\<close>

theorem MainLoop_return_value:
  assumes "\<not> OVR_SUCCESS ovrError_DisplayLost"
  shows "(\<not> OVR_SUCCESS (ovr_Create_result setup) \<longrightarrow>
            MainLoop OVR_SUCCESS ovrError_DisplayLost setup frames retryCreate =
              Some (Inr retryCreate)) \<and>
         (setup_fails OVR_SUCCESS setup \<longrightarrow>
            MainLoop OVR_SUCCESS ovrError_DisplayLost setup frames True = Some (Inr True)) \<and>
         (setup_succeeds OVR_SUCCESS setup \<and> list_all (frame_continues OVR_SUCCESS) pre \<and>
          \<not> frame_continues OVR_SUCCESS fe \<longrightarrow>
            (\<exists>e. MainLoop OVR_SUCCESS ovrError_DisplayLost setup (pre @ fe # post) retryCreate =
                   Some (Inl e)) \<or>
            MainLoop OVR_SUCCESS ovrError_DisplayLost setup (pre @ fe # post) retryCreate =
              Some (Inr (if \<not> HandleMessages fe then retryCreate
                         else if ShouldQuit fe then False
                         else retryCreate \<or> EndFrame_result fe = ovrError_DisplayLost)))"
proof (intro conjI impI)
  assume "\<not> OVR_SUCCESS (ovr_Create_result setup)"
  then show "MainLoop OVR_SUCCESS ovrError_DisplayLost setup frames retryCreate =
               Some (Inr retryCreate)"
    by (simp add: MainLoop_def)
next
  assume "setup_fails OVR_SUCCESS setup"
  then show "MainLoop OVR_SUCCESS ovrError_DisplayLost setup frames True = Some (Inr True)"
    by (rule MainLoop_setup_fails)
next
  assume a: "setup_succeeds OVR_SUCCESS setup \<and> list_all (frame_continues OVR_SUCCESS) pre \<and>
             \<not> frame_continues OVR_SUCCESS fe"
  then have s: "setup_succeeds OVR_SUCCESS setup" and p: "list_all (frame_continues OVR_SUCCESS) pre"
    and f: "\<not> frame_continues OVR_SUCCESS fe"
    by simp_all
  let ?goal = "(\<exists>e. MainLoop OVR_SUCCESS ovrError_DisplayLost setup (pre @ fe # post) retryCreate =
                   Some (Inl e)) \<or>
            MainLoop OVR_SUCCESS ovrError_DisplayLost setup (pre @ fe # post) retryCreate =
              Some (Inr (if \<not> HandleMessages fe then retryCreate
                         else if ShouldQuit fe then False
                         else retryCreate \<or> EndFrame_result fe = ovrError_DisplayLost))"
  consider (closed) "\<not> HandleMessages fe"
    | (quit) "HandleMessages fe" "ShouldQuit fe"
    | (failed) "HandleMessages fe" "\<not> ShouldQuit fe" "IsVisible fe"
        "\<not> OVR_SUCCESS (EndFrame_result fe)"
    using f by (auto simp: frame_continues_def)
  then show ?goal
  proof cases
    case closed
    with MainLoop_window_closed [OF s p closed assms, of post retryCreate] show ?thesis by simp
  next
    case quit
    with MainLoop_quit [OF s p quit assms, of post retryCreate] show ?thesis by simp
  next
    case failed
    with MainLoop_EndFrame_failed [OF s p failed, of ovrError_DisplayLost post retryCreate]
    show ?thesis by simp
  qed
qed

theorem MainLoop_return_value_witness:
  "MainLoop (\<lambda>r. 0 \<le> r) (- 6002) no_session_setup [] True = Some (Inr True) \<and>
   MainLoop (\<lambda>r. 0 \<le> r) (- 6002) no_second_eye_setup [] True = Some (Inr True) \<and>
   MainLoop (\<lambda>r. 0 \<le> r) (- 6002) good_setup [good_frame, display_lost_frame] False =
     Some (Inr True) \<and>
   MainLoop (\<lambda>r. 0 \<le> r) (- 6002) good_setup [good_frame, quit_frame] True = Some (Inr False)"
  using MainLoop_return_value [of "\<lambda>r. 0 \<le> r" "- 6002" no_session_setup "[]" True]
    MainLoop_return_value [of "\<lambda>r. 0 \<le> r" "- 6002" no_second_eye_setup "[]"]
    MainLoop_return_value [of "\<lambda>r. 0 \<le> r" "- 6002" good_setup _ False "[good_frame]"
      display_lost_frame "[]"]
    MainLoop_return_value [of "\<lambda>r. 0 \<le> r" "- 6002" good_setup _ True "[good_frame]"
      quit_frame "[]"]
  by (simp add: MainLoop_def create_eye_texture_def setup_succeeds_def setup_fails_def
      frame_continues_def good_setup_def no_session_setup_def no_second_eye_setup_def
      display_lost_frame_def quit_frame_def sample_scene_def sample_desc_def dx_lists_reset_def
      good_frame_def frame_defs)

text \<open>
  C8 as stated does not hold: with retry permitted and a successful set-up, the loop
  also returns true when \<open>ovr_EndFrame\<close> fails with an error other than
  \<open>ovrError_DisplayLost\<close>, and when the window has been closed, with no quit request.
\<close>

theorem MainLoop_true_without_display_lost:
  "setup_succeeds (\<lambda>r. 0 \<le> r) good_setup \<and>
   \<not> ShouldQuit other_error_frame \<and> EndFrame_result other_error_frame \<noteq> - 6002 \<and>
   MainLoop (\<lambda>r. 0 \<le> r) (- 6002) good_setup [other_error_frame] True = Some (Inr True) \<and>
   \<not> ShouldQuit window_closed_frame \<and>
   MainLoop (\<lambda>r. 0 \<le> r) (- 6002) good_setup [window_closed_frame] True = Some (Inr True)"
  by (simp add: MainLoop_def create_eye_texture_def setup_succeeds_def
      good_setup_def other_error_frame_def window_closed_frame_def
      sample_scene_def sample_desc_def dx_lists_reset_def good_frame_def frame_defs)


end
